theory Spec2Isabelle
  imports Complex_Main "HOL-Library.Monad_Syntax" "HOL-Library.Log_Nat"
begin

section \<open>The JavaScript values and effects the three servers share\<close>

text \<open>
  The repository holds three MCP servers (idea generator, script-to-video, growth
  optimizer) and the shared zod schemas. Each server validates the raw arguments of a
  tool call with a zod schema, runs an asynchronous handler and wraps the result, or
  whatever the handler threw, into a reply envelope.

  The numbers of a request are finite and carry their value as a rational (\<open>JNum\<close>).
  Where a handler computes with numbers whose size the schema does not bound (the sums
  and means of the posting schedule), the arithmetic is that of IEEE 754 doubles, the
  type \<open>number\<close> below. A character is a code unit below 256; strings are lists of
  characters.
\<close>

datatype json =
    JNull
  | JBool bool
  | JNum rat
  | JStr string
  | JArr "json list"
  | JObj "(string \<times> json) list"

text \<open>Property lookup on a parsed value: \<open>None\<close> is JavaScript's \<open>undefined\<close>.\<close>

fun field :: "string \<Rightarrow> json \<Rightarrow> json option" where
  "field k (JObj kvs) = map_of kvs k"
| "field k _ = None"

text \<open>
  What a handler can throw. \<open>Error\<close> and \<open>TrendAnalysisError\<close> carry the message the
  source gives them; the messages of the errors raised by zod, by \<open>JSON.parse\<close>, by the
  engine and by the HTTP and provider clients are produced outside the repository.
\<close>

datatype exn =
    Error string
  | TrendAnalysisError string
  | ZodError
  | SyntaxError
  | TypeError
  | ProviderError string

datatype level = Info | Warn | Err

text \<open>
  The observable effects of a call, in order: a log line (trace id, level, message; the
  metadata object of the line is left out), a request to the generative provider (the
  prompt), an HTTP request (the URL with its query, and the body of a POST; the constant
  headers are left out), a file written (path and content).
\<close>

datatype event =
    Log string level string
  | GenerateContent string
  | HttpGet string
  | HttpPost string json
  | WriteFile string string

fun is_external :: "event \<Rightarrow> bool" where
  "is_external (GenerateContent _) = True"
| "is_external (HttpGet _) = True"
| "is_external (HttpPost _ _) = True"
| "is_external _ = False"

definition external_calls :: "event list \<Rightarrow> event list" where
  "external_calls evs = filter is_external evs"

text \<open>The HTTP requests among the effects.\<close>

definition is_http :: "event \<Rightarrow> bool" where
  "is_http e = (case e of HttpGet u \<Rightarrow> True | HttpPost u b \<Rightarrow> True | _ \<Rightarrow> False)"

text \<open>The value of \<open>new Date(s).getHours()\<close>: an hour, or NaN for an invalid date.\<close>

datatype hourkey = Hour nat | NaN

text \<open>
  Everything outside the repository that a handler consults: the process environment,
  the clock, the date parser with the process's time zone, \<open>JSON.parse\<close>
  (\<open>None\<close> is a SyntaxError), the conversion of a number and of a non-string value to a
  string, zod's ISO datetime test, \<open>Math.random\<close> (by draw index), the generative
  provider, the HTTP client and the file system.
\<close>

record runtime =
  env :: "string \<Rightarrow> string option"
  nowISO :: string
  getHours :: "string \<Rightarrow> hourkey"
  jsonParse :: "string \<Rightarrow> json option"
  numberToString :: "rat \<Rightarrow> string"
  valueToString :: "json \<Rightarrow> string"
  isDatetime :: "string \<Rightarrow> bool"
  random :: "nat \<Rightarrow> rat"
  generateContent :: "string \<Rightarrow> exn + string"
  axiosGet :: "string \<Rightarrow> exn + json"
  axiosPost :: "string \<Rightarrow> json \<Rightarrow> exn + string"
  writeFileSync :: "string \<Rightarrow> string \<Rightarrow> exn option"

text \<open>\<open>process.env.K\<close> followed by the test \<open>!apiKey\<close>: an empty value counts as missing.\<close>

definition credential :: "runtime \<Rightarrow> string \<Rightarrow> string option" where
  "credential rt k = (case env rt k of None \<Rightarrow> None | Some v \<Rightarrow> if v = [] then None else Some v)"

subsection \<open>Extracting a JSON fragment from provider text\<close>

text \<open>
  \<open>text.match(/\{[\s\S]*\}/)\<close> and \<open>text.match(/\[[\s\S]*\]/)\<close>: the match starts at the
  first opening character and, the star being greedy, ends at the last closing character
  after it; there is no match when no closing character follows the first opening one.
\<close>

definition match_between :: "char \<Rightarrow> char \<Rightarrow> string \<Rightarrow> string option" where
  "match_between l r text =
     (case dropWhile (\<lambda>c. c \<noteq> l) text of
        [] \<Rightarrow> None
      | _ # rest \<Rightarrow>
          (case dropWhile (\<lambda>c. c \<noteq> r) (rev rest) of
             [] \<Rightarrow> None
           | body \<Rightarrow> Some (l # rev body)))"

definition match_object :: "string \<Rightarrow> string option" where
  "match_object text = match_between (CHR ''{'') (CHR ''}'') text"

definition match_array :: "string \<Rightarrow> string option" where
  "match_array text = match_between (CHR ''['') (CHR '']'') text"

text \<open>
  \<open>JSON.parse(jsonMatch[0])\<close> of a fragment, when there is one, else the default.
\<close>

definition parseOr :: "runtime \<Rightarrow> json \<Rightarrow> string option \<Rightarrow> exn + json" where
  "parseOr rt dflt jsonMatch =
     (case jsonMatch of
        None \<Rightarrow> Inr dflt
      | Some m \<Rightarrow> (case jsonParse rt m of None \<Rightarrow> Inl SyntaxError | Some v \<Rightarrow> Inr v))"

subsection \<open>zod\<close>

text \<open>
  A zod schema is modelled by its \<open>parse\<close>: from the raw value (\<open>None\<close> for
  \<open>undefined\<close>, a missing key) to the typed value, \<open>None\<close> when zod throws a ZodError.
\<close>

type_synonym 'a zod = "json option \<Rightarrow> 'a option"

definition z_string :: "string zod" where
  "z_string v = (case v of Some (JStr s) \<Rightarrow> Some s | _ \<Rightarrow> None)"

definition z_number :: "rat zod" where
  "z_number v = (case v of Some (JNum n) \<Rightarrow> Some n | _ \<Rightarrow> None)"

definition z_boolean :: "bool zod" where
  "z_boolean v = (case v of Some (JBool b) \<Rightarrow> Some b | _ \<Rightarrow> None)"

definition z_enum :: "string list \<Rightarrow> string zod" where
  "z_enum vals v = (case v of Some (JStr s) \<Rightarrow> if s \<in> set vals then Some s else None | _ \<Rightarrow> None)"

text \<open>A check added to a schema: \<open>.min(n)\<close>, \<open>.max(n)\<close>, \<open>.int()\<close>, \<open>.datetime()\<close>.\<close>

definition z_check :: "('a \<Rightarrow> bool) \<Rightarrow> 'a zod \<Rightarrow> 'a zod" where
  "z_check P el v = (case el v of None \<Rightarrow> None | Some x \<Rightarrow> if P x then Some x else None)"

definition is_int :: "rat \<Rightarrow> bool" where
  "is_int q = (q = of_int \<lfloor>q\<rfloor>)"

fun those_list :: "'a option list \<Rightarrow> 'a list option" where
  "those_list [] = Some []"
| "those_list (None # _) = None"
| "those_list (Some x # xs) = (case those_list xs of None \<Rightarrow> None | Some ys \<Rightarrow> Some (x # ys))"

definition z_array :: "'a zod \<Rightarrow> 'a list zod" where
  "z_array el v = (case v of Some (JArr xs) \<Rightarrow> those_list (map (\<lambda>x. el (Some x)) xs) | _ \<Rightarrow> None)"

definition z_optional :: "'a zod \<Rightarrow> 'a option zod" where
  "z_optional el v = (case v of None \<Rightarrow> Some None | Some x \<Rightarrow> map_option Some (el (Some x)))"

text \<open>
  \<open>.default(d)\<close>: \<open>undefined\<close> is replaced by \<open>d\<close> before the inner schema runs. An
  \<open>.optional()\<close> under a \<open>.default\<close> never sees \<open>undefined\<close>, so it is left out.
\<close>

definition z_default :: "json \<Rightarrow> 'a zod \<Rightarrow> 'a zod" where
  "z_default d el v = (case v of None \<Rightarrow> el (Some d) | Some x \<Rightarrow> el (Some x))"

text \<open>\<open>z.object({}).passthrough()\<close>: any object, kept with all its keys.\<close>

definition z_passthrough :: "(string \<times> json) list zod" where
  "z_passthrough v = (case v of Some (JObj kvs) \<Rightarrow> Some kvs | _ \<Rightarrow> None)"

text \<open>The keys of an object value, for the property schemas of a \<open>z.object\<close>.\<close>

definition z_object :: "((string \<Rightarrow> json option) \<Rightarrow> 'a option) \<Rightarrow> 'a zod" where
  "z_object props v = (case v of Some (JObj kvs) \<Rightarrow> props (map_of kvs) | _ \<Rightarrow> None)"

subsection \<open>Numbers\<close>

text \<open>
  A JavaScript number is a double: a finite value, an infinity or NaN. The finite doubles
  are the integer multiples of \<open>2^(-1074)\<close> with at most 53 significant bits and a magnitude
  below \<open>2^1024\<close>; \<open>Finite q\<close> is the double of value \<open>q\<close>. The two zeros are not kept
  apart: no operation of the handlers tells them apart.
\<close>

datatype number = Finite rat | Infinity | MinusInfinity | NotANumber

text \<open>Rounding to the nearest integer, a tie going to the even one.\<close>

definition round_half_even :: "rat \<Rightarrow> int" where
  "round_half_even x =
     (let f = \<lfloor>x\<rfloor>; r = x - of_int f
      in if r < 1 / 2 then f else if 1 / 2 < r then f + 1 else if even f then f else f + 1)"

text \<open>
  The double nearest to a rational, ties to even, as every arithmetic operation rounds
  its exact result: \<open>s\<close> is the magnitude in units of \<open>2^(-1074)\<close>, \<open>k\<close> the number of low
  bits that do not fit into 53, \<open>m\<close> the rounded magnitude, which overflows to an infinity
  from \<open>2^1024\<close> on.
\<close>

definition double_of :: "rat \<Rightarrow> number" where
  "double_of q =
     (let s = \<bar>q\<bar> * 2 ^ 1074;
          k = nat (bitlen \<lfloor>s\<rfloor> - 53);
          m = round_half_even (s / 2 ^ k) * 2 ^ k
      in if 2 ^ 2098 \<le> m then (if 0 < q then Infinity else MinusInfinity)
         else Finite (sgn q * of_int m / 2 ^ 1074))"

fun num_neg :: "number \<Rightarrow> number" where
  "num_neg (Finite a) = Finite (- a)"
| "num_neg Infinity = MinusInfinity"
| "num_neg MinusInfinity = Infinity"
| "num_neg NotANumber = NotANumber"

text \<open>
  The operators \<open>+\<close>, \<open>-\<close> and \<open>/\<close> on numbers: the exact result, rounded. The zero of
  the model stands for \<open>+0\<close> where a quotient by zero has a sign; the handlers divide
  by a positive count only.
\<close>

fun num_add :: "number \<Rightarrow> number \<Rightarrow> number" where
  "num_add (Finite a) (Finite b) = double_of (a + b)"
| "num_add (Finite a) Infinity = Infinity"
| "num_add (Finite a) MinusInfinity = MinusInfinity"
| "num_add Infinity (Finite b) = Infinity"
| "num_add Infinity Infinity = Infinity"
| "num_add Infinity MinusInfinity = NotANumber"
| "num_add MinusInfinity (Finite b) = MinusInfinity"
| "num_add MinusInfinity MinusInfinity = MinusInfinity"
| "num_add MinusInfinity Infinity = NotANumber"
| "num_add NotANumber b = NotANumber"
| "num_add (Finite a) NotANumber = NotANumber"
| "num_add Infinity NotANumber = NotANumber"
| "num_add MinusInfinity NotANumber = NotANumber"

definition num_sub :: "number \<Rightarrow> number \<Rightarrow> number" where
  "num_sub a b = num_add a (num_neg b)"

fun num_div :: "number \<Rightarrow> number \<Rightarrow> number" where
  "num_div (Finite a) (Finite b) =
     (if b = 0 then (if a = 0 then NotANumber else if 0 < a then Infinity else MinusInfinity)
      else double_of (a / b))"
| "num_div (Finite a) Infinity = Finite 0"
| "num_div (Finite a) MinusInfinity = Finite 0"
| "num_div Infinity (Finite b) = (if 0 \<le> b then Infinity else MinusInfinity)"
| "num_div MinusInfinity (Finite b) = (if 0 \<le> b then MinusInfinity else Infinity)"
| "num_div Infinity Infinity = NotANumber"
| "num_div Infinity MinusInfinity = NotANumber"
| "num_div MinusInfinity Infinity = NotANumber"
| "num_div MinusInfinity MinusInfinity = NotANumber"
| "num_div NotANumber b = NotANumber"
| "num_div (Finite a) NotANumber = NotANumber"
| "num_div Infinity NotANumber = NotANumber"
| "num_div MinusInfinity NotANumber = NotANumber"

text \<open>The operator \<open>*\<close>, and \<open>Math.floor\<close> (exact on a double).\<close>

fun num_mul :: "number \<Rightarrow> number \<Rightarrow> number" where
  "num_mul (Finite a) (Finite b) = double_of (a * b)"
| "num_mul (Finite a) Infinity =
     (if a = 0 then NotANumber else if 0 < a then Infinity else MinusInfinity)"
| "num_mul (Finite a) MinusInfinity =
     (if a = 0 then NotANumber else if 0 < a then MinusInfinity else Infinity)"
| "num_mul Infinity (Finite b) =
     (if b = 0 then NotANumber else if 0 < b then Infinity else MinusInfinity)"
| "num_mul MinusInfinity (Finite b) =
     (if b = 0 then NotANumber else if 0 < b then MinusInfinity else Infinity)"
| "num_mul Infinity Infinity = Infinity"
| "num_mul Infinity MinusInfinity = MinusInfinity"
| "num_mul MinusInfinity Infinity = MinusInfinity"
| "num_mul MinusInfinity MinusInfinity = Infinity"
| "num_mul NotANumber b = NotANumber"
| "num_mul (Finite a) NotANumber = NotANumber"
| "num_mul Infinity NotANumber = NotANumber"
| "num_mul MinusInfinity NotANumber = NotANumber"

fun num_floor :: "number \<Rightarrow> number" where
  "num_floor (Finite a) = Finite (of_int \<lfloor>a\<rfloor>)"
| "num_floor Infinity = Infinity"
| "num_floor MinusInfinity = MinusInfinity"
| "num_floor NotANumber = NotANumber"

text \<open>A number interpolated into a template string.\<close>

fun num_toString :: "runtime \<Rightarrow> number \<Rightarrow> string" where
  "num_toString rt (Finite a) = numberToString rt a"
| "num_toString rt Infinity = ''Infinity''"
| "num_toString rt MinusInfinity = ''-Infinity''"
| "num_toString rt NotANumber = ''NaN''"

text \<open>The test \<open>v > 0\<close>, false for NaN.\<close>

fun num_positive :: "number \<Rightarrow> bool" where
  "num_positive (Finite a) = (0 < a)"
| "num_positive Infinity = True"
| "num_positive MinusInfinity = False"
| "num_positive NotANumber = False"

subsection \<open>Small pieces of the JavaScript library\<close>

text \<open>\<open>Number.prototype.toString\<close> on a natural number.\<close>

definition digit :: "nat \<Rightarrow> char" where
  "digit d =
     (if d = 0 then CHR ''0'' else if d = 1 then CHR ''1'' else if d = 2 then CHR ''2''
      else if d = 3 then CHR ''3'' else if d = 4 then CHR ''4'' else if d = 5 then CHR ''5''
      else if d = 6 then CHR ''6'' else if d = 7 then CHR ''7'' else if d = 8 then CHR ''8''
      else CHR ''9'')"

fun digits :: "nat \<Rightarrow> string" where
  "digits n = (if n < 10 then [digit n] else digits (n div 10) @ [digit (n mod 10)])"

declare digits.simps [simp del]

definition padStart :: "nat \<Rightarrow> char \<Rightarrow> string \<Rightarrow> string" where
  "padStart n c s = replicate (n - length s) c @ s"

fun join :: "string \<Rightarrow> string list \<Rightarrow> string" where
  "join sep [] = []"
| "join sep [x] = x"
| "join sep (x # y # ys) = x @ sep @ join sep (y # ys)"

text \<open>
  \<open>Array.prototype.sort(cmp)\<close>, which is stable: \<open>le a b\<close> tells that \<open>cmp(a, b)\<close> is
  not positive (a NaN counts as zero), under which \<open>a\<close> stays in front of \<open>b\<close>.
\<close>

fun insert_by :: "('a \<Rightarrow> 'a \<Rightarrow> bool) \<Rightarrow> 'a \<Rightarrow> 'a list \<Rightarrow> 'a list" where
  "insert_by le x [] = [x]"
| "insert_by le x (y # ys) = (if le x y then x # y # ys else y # insert_by le x ys)"

definition sort_by :: "('a \<Rightarrow> 'a \<Rightarrow> bool) \<Rightarrow> 'a list \<Rightarrow> 'a list" where
  "sort_by le xs = foldr (insert_by le) xs []"

text \<open>\<open>[...new Set(xs)]\<close>: the first occurrence of every element, in order.\<close>

fun uniq_acc :: "'a list \<Rightarrow> 'a list \<Rightarrow> 'a list" where
  "uniq_acc seen [] = []"
| "uniq_acc seen (x # xs) = (if x \<in> set seen then uniq_acc seen xs else x # uniq_acc (x # seen) xs)"

definition uniq :: "'a list \<Rightarrow> 'a list" where
  "uniq xs = uniq_acc [] xs"

text \<open>JavaScript's truthiness of a parsed value.\<close>

fun truthy :: "json \<Rightarrow> bool" where
  "truthy JNull = False"
| "truthy (JBool b) = b"
| "truthy (JNum n) = (n \<noteq> 0)"
| "truthy (JStr s) = (s \<noteq> [])"
| "truthy (JArr _) = True"
| "truthy (JObj _) = True"

definition nl :: string where
  "nl = [CHR 0x0A]"

definition sq :: string where
  "sq = [CHR 0x27]"

subsection \<open>The reply envelope\<close>

text \<open>
  The text item of a reply is \<open>JSON.stringify\<close> of the handler's result, or of
  \<open>{ error: error.message, traceId }\<close> with \<open>isError: true\<close> when anything was thrown
  between the validation of the arguments and the end of the handler.
\<close>

datatype 'r doc = Result 'r | ErrorDoc exn string

record 'r envelope =
  content :: "'r doc"
  isError :: bool

text \<open>The \<open>try\<close>/\<open>catch\<close> of the request handler around one tool.\<close>

definition reply :: "string \<Rightarrow> ('a \<Rightarrow> 'r) \<Rightarrow> (exn + 'a) \<times> event list \<Rightarrow> 'r envelope \<times> event list" where
  "reply traceId wrap outcome =
     (case outcome of
        (Inr r, evs) \<Rightarrow> (\<lparr>content = Result (wrap r), isError = False\<rparr>, evs)
      | (Inl e, evs) \<Rightarrow>
          (\<lparr>content = ErrorDoc e traceId, isError = True\<rparr>,
           evs @ [Log traceId Err ''Tool execution failed'']))"

text \<open>\<open>Schema.parse(request.params.arguments)\<close> and then the handler.\<close>

definition validated ::
  "'a zod \<Rightarrow> json option \<Rightarrow> ('a \<Rightarrow> (exn + 'b) \<times> event list) \<Rightarrow> (exn + 'b) \<times> event list" where
  "validated schema arguments handler =
     (case schema arguments of None \<Rightarrow> (Inl ZodError, []) | Some args \<Rightarrow> handler args)"

section \<open>The idea generator\<close>

subsection \<open>Argument schemas\<close>

record GenerateIdeasArgs =
  gi_niche :: string
  gi_platform :: string
  gi_count :: rat
  gi_trendWindow :: string

definition GenerateIdeasArgsSchema :: "GenerateIdeasArgs zod" where
  "GenerateIdeasArgsSchema = z_object (\<lambda>get. do {
     n \<leftarrow> z_string (get ''niche'');
     p \<leftarrow> z_enum [''youtube'', ''tiktok'', ''instagram-reels'', ''youtube-shorts'', ''all'']
           (get ''platform'');
     c \<leftarrow> z_check (\<lambda>c. c \<le> 50) (z_check (\<lambda>c. 10 \<le> c) (z_check is_int z_number)) (get ''count'');
     w \<leftarrow> z_default (JStr ''7d'') (z_enum [''24h'', ''7d'', ''30d'']) (get ''trendWindow'');
     Some \<lparr>gi_niche = n, gi_platform = p, gi_count = c, gi_trendWindow = w\<rparr> })"

record AnalyzeTrendsArgs =
  at_niche :: string
  at_platforms :: "string list"

definition AnalyzeTrendsArgsSchema :: "AnalyzeTrendsArgs zod" where
  "AnalyzeTrendsArgsSchema = z_object (\<lambda>get. do {
     n \<leftarrow> z_string (get ''niche'');
     ps \<leftarrow> z_array (z_enum [''youtube'', ''tiktok'', ''twitter'', ''reddit'', ''google-trends''])
            (get ''platforms'');
     Some \<lparr>at_niche = n, at_platforms = ps\<rparr> })"

record PredictViralityArgs =
  pv_title :: string
  pv_description :: string
  pv_platform :: string
  pv_niche :: string

definition PredictViralityArgsSchema :: "PredictViralityArgs zod" where
  "PredictViralityArgsSchema = z_object (\<lambda>get. do {
     t \<leftarrow> z_string (get ''title'');
     d \<leftarrow> z_string (get ''description'');
     p \<leftarrow> z_enum [''youtube'', ''tiktok'', ''instagram-reels'', ''youtube-shorts''] (get ''platform'');
     n \<leftarrow> z_string (get ''niche'');
     Some \<lparr>pv_title = t, pv_description = d, pv_platform = p, pv_niche = n\<rparr> })"

subsection \<open>The shared schema of a viral idea\<close>

record OutlineItem =
  oi_section :: string
  oi_duration :: rat
  oi_keyPoints :: "string list"

record EstimatedViews =
  ev_min :: rat
  ev_max :: rat
  ev_confidence :: rat

record Seo =
  seo_tags :: "string list"
  seo_description :: string
  seo_keywords :: "string list"

record ViralIdea =
  vi_id :: string
  vi_title :: string
  vi_hook :: string
  vi_platform :: string
  vi_category :: string
  vi_viralScore :: rat
  vi_trendingTopics :: "string list"
  vi_targetAudience :: string
  vi_thumbnailConcept :: string
  vi_scriptOutline :: "OutlineItem list"
  vi_estimatedViews :: EstimatedViews
  vi_seo :: Seo
  vi_generatedAt :: string

definition OutlineItemSchema :: "OutlineItem zod" where
  "OutlineItemSchema = z_object (\<lambda>get. do {
     s \<leftarrow> z_string (get ''section'');
     d \<leftarrow> z_number (get ''duration'');
     k \<leftarrow> z_array z_string (get ''keyPoints'');
     Some \<lparr>oi_section = s, oi_duration = d, oi_keyPoints = k\<rparr> })"

definition EstimatedViewsSchema :: "EstimatedViews zod" where
  "EstimatedViewsSchema = z_object (\<lambda>get. do {
     lo \<leftarrow> z_number (get ''min'');
     hi \<leftarrow> z_number (get ''max'');
     c \<leftarrow> z_number (get ''confidence'');
     Some \<lparr>ev_min = lo, ev_max = hi, ev_confidence = c\<rparr> })"

definition SeoSchema :: "Seo zod" where
  "SeoSchema = z_object (\<lambda>get. do {
     t \<leftarrow> z_check (\<lambda>xs. length xs \<le> 30) (z_array z_string) (get ''tags'');
     d \<leftarrow> z_check (\<lambda>s. length s \<le> 500) z_string (get ''description'');
     k \<leftarrow> z_array z_string (get ''keywords'');
     Some \<lparr>seo_tags = t, seo_description = d, seo_keywords = k\<rparr> })"

text \<open>
  \<open>ViralIdeaSchema.parse\<close> returns the object with the declared keys only (a
  \<open>z.object\<close> strips the others), which is the record.
\<close>

definition ViralIdeaSchema :: "runtime \<Rightarrow> ViralIdea zod" where
  "ViralIdeaSchema rt = z_object (\<lambda>get. do {
     i \<leftarrow> z_string (get ''id'');
     t \<leftarrow> z_check (\<lambda>s. length s \<le> 100) (z_check (\<lambda>s. 10 \<le> length s) z_string) (get ''title'');
     h \<leftarrow> z_check (\<lambda>s. length s \<le> 200) (z_check (\<lambda>s. 10 \<le> length s) z_string) (get ''hook'');
     p \<leftarrow> z_enum [''youtube'', ''tiktok'', ''instagram-reels'', ''youtube-shorts'', ''all'']
           (get ''platform'');
     c \<leftarrow> z_enum [''education'', ''entertainment'', ''comedy'', ''tutorial'', ''review'', ''vlog'',
                  ''gaming'', ''lifestyle'', ''tech'', ''fitness''] (get ''category'');
     v \<leftarrow> z_check (\<lambda>n. n \<le> 100) (z_check (\<lambda>n. 0 \<le> n) z_number) (get ''viralScore'');
     tt \<leftarrow> z_array z_string (get ''trendingTopics'');
     ta \<leftarrow> z_string (get ''targetAudience'');
     tc \<leftarrow> z_string (get ''thumbnailConcept'');
     so \<leftarrow> z_array OutlineItemSchema (get ''scriptOutline'');
     ev \<leftarrow> EstimatedViewsSchema (get ''estimatedViews'');
     se \<leftarrow> SeoSchema (get ''seo'');
     g \<leftarrow> z_check (isDatetime rt) z_string (get ''generatedAt'');
     Some \<lparr>vi_id = i, vi_title = t, vi_hook = h, vi_platform = p, vi_category = c,
           vi_viralScore = v, vi_trendingTopics = tt, vi_targetAudience = ta,
           vi_thumbnailConcept = tc, vi_scriptOutline = so, vi_estimatedViews = ev,
           vi_seo = se, vi_generatedAt = g\<rparr> })"

subsection \<open>The trend scraper\<close>

text \<open>
  \<open>String.prototype.toLowerCase\<close> on code units below 256: the letters \<open>A\<close> to \<open>Z\<close>
  (65 to 90) and the capital letters of Latin-1 (192 to 222, the multiplication sign 215
  apart) move up by 32; every other code unit stays.
\<close>

definition toLowerCase :: "string \<Rightarrow> string" where
  "toLowerCase s =
     map (\<lambda>c. let n = (of_char c :: nat)
              in if (65 \<le> n \<and> n \<le> 90) \<or> (192 \<le> n \<and> n \<le> 222 \<and> n \<noteq> 215)
                 then char_of (n + 32) else c) s"

text \<open>
  \<open>response.data?.data?.children || []\<close> followed by \<open>posts.forEach\<close>, which exists on
  arrays only: a truthy value that is not an array throws a TypeError.
\<close>

definition redditPosts :: "json \<Rightarrow> exn + json list" where
  "redditPosts body =
     (let children =
        (case body of
           JNull \<Rightarrow> None
         | _ \<Rightarrow> (case field ''data'' body of
                   None \<Rightarrow> None
                 | Some JNull \<Rightarrow> None
                 | Some d \<Rightarrow> field ''children'' d))
      in case children of
           None \<Rightarrow> Inr []
         | Some c \<Rightarrow> if truthy c then (case c of JArr posts \<Rightarrow> Inr posts | _ \<Rightarrow> Inl TypeError)
                     else Inr [])"

text \<open>
  The callback of \<open>forEach\<close>: \<open>if (post.data.title) trends.push(post.data.title.toLowerCase())\<close>.
  Reading \<open>data\<close> of \<open>null\<close>, \<open>title\<close> of \<open>undefined\<close> or \<open>null\<close>, and calling
  \<open>toLowerCase\<close> on a value that is not a string throw a TypeError.
\<close>

definition postTitle :: "json \<Rightarrow> exn + string option" where
  "postTitle post =
     (case post of
        JNull \<Rightarrow> Inl TypeError
      | _ \<Rightarrow> (case field ''data'' post of
                None \<Rightarrow> Inl TypeError
              | Some JNull \<Rightarrow> Inl TypeError
              | Some d \<Rightarrow> (case field ''title'' d of
                            None \<Rightarrow> Inr None
                          | Some t \<Rightarrow> if truthy t
                                      then (case t of JStr s \<Rightarrow> Inr (Some (toLowerCase s))
                                                    | _ \<Rightarrow> Inl TypeError)
                                      else Inr None)))"

text \<open>The loop: the titles pushed so far stay in \<open>trends\<close> when a callback throws.\<close>

fun pushTitles :: "string list \<Rightarrow> json list \<Rightarrow> string list \<times> exn option" where
  "pushTitles trends [] = (trends, None)"
| "pushTitles trends (post # rest) =
     (case postTitle post of
        Inl e \<Rightarrow> (trends, Some e)
      | Inr None \<Rightarrow> pushTitles trends rest
      | Inr (Some t) \<Rightarrow> pushTitles (trends @ [t]) rest)"

definition youtubeUrl :: string where
  "youtubeUrl = ''https://www.youtube.com/feed/trending?bp=wgYCCAESAhAB''"

definition redditUrl :: "string \<Rightarrow> string" where
  "redditUrl niche = ''https://www.reddit.com/r/'' @ niche @ ''/hot.json?limit=10''"

definition youtubeBlock ::
  "runtime \<Rightarrow> string \<Rightarrow> string list \<Rightarrow> string \<Rightarrow> string list \<Rightarrow> string list \<times> event list" where
  "youtubeBlock rt niche platforms traceId trends =
     (if ''youtube'' \<in> set platforms then
        (case axiosGet rt youtubeUrl of
           Inr response \<Rightarrow>
             (trends @ [niche @ '' tutorial'', niche @ '' 2025'', ''best '' @ niche],
              [HttpGet youtubeUrl, Log traceId Info ''Scraped YouTube trends''])
         | Inl error \<Rightarrow>
             (trends, [HttpGet youtubeUrl, Log traceId Warn ''YouTube scraping failed'']))
      else (trends, []))"

definition twitterBlock :: "string \<Rightarrow> string list \<Rightarrow> string list \<Rightarrow> string list" where
  "twitterBlock niche platforms trends =
     (if ''twitter'' \<in> set platforms
      then trends @ [''#'' @ niche, niche @ '' tips'', niche @ '' secrets'']
      else trends)"

definition redditBlock ::
  "runtime \<Rightarrow> string \<Rightarrow> string list \<Rightarrow> string \<Rightarrow> string list \<Rightarrow> string list \<times> event list" where
  "redditBlock rt niche platforms traceId trends =
     (if ''reddit'' \<in> set platforms then
        (case axiosGet rt (redditUrl niche) of
           Inl error \<Rightarrow>
             (trends, [HttpGet (redditUrl niche), Log traceId Warn ''Reddit scraping failed''])
         | Inr body \<Rightarrow>
             (case redditPosts body of
                Inl error \<Rightarrow>
                  (trends, [HttpGet (redditUrl niche), Log traceId Warn ''Reddit scraping failed''])
              | Inr posts \<Rightarrow>
                  (case pushTitles trends posts of
                     (trends', Some error) \<Rightarrow>
                       (trends', [HttpGet (redditUrl niche),
                                  Log traceId Warn ''Reddit scraping failed''])
                   | (trends', None) \<Rightarrow>
                       (trends', [HttpGet (redditUrl niche),
                                  Log traceId Info ''Scraped Reddit trends'']))))
      else (trends, []))"

definition googleBlock :: "string \<Rightarrow> string list \<Rightarrow> string list \<Rightarrow> string list" where
  "googleBlock niche platforms trends =
     (if ''google-trends'' \<in> set platforms
      then trends @ [''how to '' @ niche, niche @ '' for beginners'', niche @ '' vs'',
                     niche @ '' mistakes'']
      else trends)"

text \<open>
  The list \<open>trends\<close> before \<open>[...new Set(trends)]\<close>, and the function itself. Its result
  type has room for an exception; every \<open>throw\<close> of the body sits in a \<open>try\<close>.
\<close>

definition collectedTrends ::
  "runtime \<Rightarrow> string \<Rightarrow> string list \<Rightarrow> string \<Rightarrow> string list \<times> event list" where
  "collectedTrends rt niche platforms traceId =
     (case youtubeBlock rt niche platforms traceId [] of (t1, e1) \<Rightarrow>
        (case redditBlock rt niche platforms traceId (twitterBlock niche platforms t1) of (t3, e3) \<Rightarrow>
           (googleBlock niche platforms t3, e1 @ e3)))"

definition scrapeTrendingTopics ::
  "runtime \<Rightarrow> string \<Rightarrow> string list \<Rightarrow> string \<Rightarrow> (exn + string list) \<times> event list" where
  "scrapeTrendingTopics rt niche platforms traceId =
     (case collectedTrends rt niche platforms traceId of (trends, evs) \<Rightarrow> (Inr (uniq trends), evs))"

subsection \<open>The handlers\<close>

definition ideas_systemPrompt :: "runtime \<Rightarrow> GenerateIdeasArgs \<Rightarrow> string list \<Rightarrow> string" where
  \<open>ideas_systemPrompt rt args trends = concat
    [''You are a viral content strategist. Generate '', numberToString rt (gi_count args), '' viral video ideas for '', gi_platform args, ''.'', nl,
     nl,
     ''Niche: '', gi_niche args, nl,
     ''Current Trends: '', join '', '' (take 10 trends), nl,
     nl,
     ''For each idea, provide:'', nl,
     ''- Catchy title (40-60 characters)'', nl,
     ''- Hook (first 5 seconds, max 200 chars)'', nl,
     ''- Viral score (0-100)'', nl,
     ''- Thumbnail concept'', nl,
     ''- 3-5 section script outline'', nl,
     ''- Estimated views (min/max/confidence)'', nl,
     ''- SEO tags & description'', nl,
     nl,
     ''Return JSON array of viral ideas.'']\<close>

definition ideas_userPrompt :: "runtime \<Rightarrow> GenerateIdeasArgs \<Rightarrow> string list \<Rightarrow> string" where
  \<open>ideas_userPrompt rt args trends = concat
    [''Generate '', numberToString rt (gi_count args), '' viral '', gi_platform args, '' video ideas for the '', gi_niche args, '' niche.'', nl,
     nl,
     ''Use these trending topics for inspiration:'', nl,
     join nl trends, nl,
     nl,
     ''Each idea must have:'', nl,
     ''{'', nl,
     ''  "id": "unique-id",'', nl,
     ''  "title": "Attention-grabbing title",'', nl,
     ''  "hook": "First 5 seconds that stop scrolling",'', nl,
     ''  "platform": "'', gi_platform args, ''",'', nl,
     ''  "category": "education/entertainment/etc",'', nl,
     ''  "viralScore": 85,'', nl,
     ''  "trendingTopics": ["topic1", "topic2"],'', nl,
     ''  "targetAudience": "Description of ideal viewer",'', nl,
     ''  "thumbnailConcept": "Visual description for thumbnail",'', nl,
     ''  "scriptOutline": ['', nl,
     ''    {"section": "Hook", "duration": 5, "keyPoints": ["point1"]},'', nl,
     ''    {"section": "Main Content", "duration": 180, "keyPoints": ["point1", "point2"]}'', nl,
     ''  ],'', nl,
     ''  "estimatedViews": {"min": 10000, "max": 100000, "confidence": 0.75},'', nl,
     ''  "seo": {'', nl,
     ''    "tags": ["tag1", "tag2"],'', nl,
     ''    "description": "SEO-optimized description",'', nl,
     ''    "keywords": ["keyword1", "keyword2"]'', nl,
     ''  },'', nl,
     ''  "generatedAt": "'', nowISO rt, ''"'', nl,
     ''}'', nl,
     nl,
     ''Platform-specific requirements:'', nl,
     ''- TikTok: Hook in first 1-3 seconds, max 60 seconds'', nl,
     ''- YouTube: Strong title SEO, 8-12 minute sweet spot'', nl,
     ''- Instagram Reels: Visual hooks, trending audio'', nl,
     ''- YouTube Shorts: 15-60 seconds, vertical format'', nl,
     nl,
     ''Generate ideas with viral score 70+.'']\<close>

definition virality_prompt :: "PredictViralityArgs \<Rightarrow> string" where
  \<open>virality_prompt args = concat
    [''Analyze the viral potential of this '', pv_platform args, '' video idea:'', nl,
     nl,
     ''Title: '', pv_title args, nl,
     ''Description: '', pv_description args, nl,
     ''Niche: '', pv_niche args, nl,
     nl,
     ''Rate on these factors (0-100):'', nl,
     ''1. Title clickability'', nl,
     ''2. Hook strength'', nl,
     ''3. Trending topic alignment'', nl,
     ''4. Audience appeal'', nl,
     ''5. Uniqueness'', nl,
     nl,
     ''Return JSON:'', nl,
     ''{'', nl,
     ''  "overallScore": 85,'', nl,
     ''  "breakdown": {'', nl,
     ''    "titleClickability": 90,'', nl,
     ''    "hookStrength": 85,'', nl,
     ''    "trendAlignment": 80,'', nl,
     ''    "audienceAppeal": 85,'', nl,
     ''    "uniqueness": 75'', nl,
     ''  },'', nl,
     ''  "strengths": ["strength1", "strength2"],'', nl,
     ''  "weaknesses": ["weakness1"],'', nl,
     ''  "improvements": ["suggestion1", "suggestion2"],'', nl,
     ''  "estimatedViews": {"min": 50000, "max": 500000}'', nl,
     ''}'']\<close>

text \<open>
  \<open>ideas.map(idea => { try { return ViralIdeaSchema.parse(idea) } catch { log; return null } })\<close>
  and \<open>.filter(Boolean)\<close>: the parsed ideas, and one warning for each idea that failed.
\<close>

definition validateIdeas ::
  "runtime \<Rightarrow> string \<Rightarrow> json list \<Rightarrow> ViralIdea list \<times> event list" where
  "validateIdeas rt traceId ideas =
     (let parsed = map (\<lambda>idea. ViralIdeaSchema rt (Some idea)) ideas
      in (concat (map (\<lambda>r. case r of None \<Rightarrow> [] | Some v \<Rightarrow> [v]) parsed),
          concat (map (\<lambda>r. case r of None \<Rightarrow> [Log traceId Warn ''Invalid idea skipped'']
                                  | Some v \<Rightarrow> []) parsed)))"

definition generateViralIdeas ::
  "runtime \<Rightarrow> GenerateIdeasArgs \<Rightarrow> string \<Rightarrow> (exn + ViralIdea list) \<times> event list" where
  "generateViralIdeas rt args traceId =
     (case credential rt ''GEMINI_API_KEY'' of
        None \<Rightarrow> (Inl (TrendAnalysisError ''GEMINI_API_KEY not found''), [])
      | Some apiKey \<Rightarrow>
          (case scrapeTrendingTopics rt (gi_niche args) [''youtube'', ''reddit'', ''google-trends'']
                  traceId of
             (Inl e, ev0) \<Rightarrow> (Inl e, ev0)
           | (Inr trends, ev0) \<Rightarrow>
               (let prompt = ideas_userPrompt rt args trends @ nl @ nl
                               @ ideas_systemPrompt rt args trends;
                    ev1 = ev0 @ [Log traceId Info ''Generating viral ideas'', GenerateContent prompt]
                in case generateContent rt prompt of
                     Inl e \<Rightarrow> (Inl e, ev1)
                   | Inr text \<Rightarrow>
                       (case parseOr rt (JArr []) (match_array text) of
                          Inl e \<Rightarrow> (Inl e, ev1)
                        | Inr (JArr ideas) \<Rightarrow>
                            (case validateIdeas rt traceId ideas of (validatedIdeas, warnings) \<Rightarrow>
                               (Inr validatedIdeas,
                                ev1 @ warnings @ [Log traceId Info ''Ideas generated'']))
                        | Inr _ \<Rightarrow> (Inl TypeError, ev1)))))"

record TrendItem =
  topic :: string
  volume :: number
  growth :: number

record TrendAnalysis =
  ta_niche :: string
  ta_platforms :: "string list"
  ta_trends :: "TrendItem list"
  ta_topTrends :: "string list"
  ta_analyzedAt :: string

text \<open>
  The two draws of \<open>Math.random\<close> for the trend at index \<open>i\<close> are the draws \<open>2i\<close> and
  \<open>2i + 1\<close> of the call; each is a double in \<open>[0, 1)\<close>, given by its value.
\<close>

definition analyzeTrends ::
  "runtime \<Rightarrow> AnalyzeTrendsArgs \<Rightarrow> string \<Rightarrow> (exn + TrendAnalysis) \<times> event list" where
  "analyzeTrends rt args traceId =
     (case scrapeTrendingTopics rt (at_niche args) (at_platforms args) traceId of
        (Inl e, evs) \<Rightarrow> (Inl e, evs)
      | (Inr trends, evs) \<Rightarrow>
          (Inr \<lparr>ta_niche = at_niche args,
                ta_platforms = at_platforms args,
                ta_trends =
                  map (\<lambda>(i, trend).
                         \<lparr>topic = trend,
                          volume = num_add (num_floor (num_mul (Finite (random rt (2 * i))) (Finite 100000)))
                                           (Finite 10000),
                          growth = num_sub (num_floor (num_mul (Finite (random rt (2 * i + 1))) (Finite 100)))
                                           (Finite 50)\<rparr>)
                      (enumerate 0 trends),
                ta_topTrends = take 10 trends,
                ta_analyzedAt = nowISO rt\<rparr>,
           evs))"

definition predictVirality ::
  "runtime \<Rightarrow> PredictViralityArgs \<Rightarrow> string \<Rightarrow> (exn + json) \<times> event list" where
  "predictVirality rt args traceId =
     (case credential rt ''GEMINI_API_KEY'' of
        None \<Rightarrow> (Inl (TrendAnalysisError ''GEMINI_API_KEY not found''), [])
      | Some apiKey \<Rightarrow>
          (let prompt = virality_prompt args;
               ev1 = [Log traceId Info ''Predicting virality'', GenerateContent prompt]
           in case generateContent rt prompt of
                Inl e \<Rightarrow> (Inl e, ev1)
              | Inr text \<Rightarrow>
                  (case parseOr rt (JObj [(''overallScore'', JNum 50)]) (match_object text) of
                     Inl e \<Rightarrow> (Inl e, ev1)
                   | Inr prediction \<Rightarrow> (Inr prediction, ev1))))"

subsection \<open>The dispatcher\<close>

datatype idea_result =
    IdeasResult "ViralIdea list" nat
  | TrendsResult TrendAnalysis
  | PredictionResult json

definition idea_callTool ::
  "runtime \<Rightarrow> string \<Rightarrow> string \<Rightarrow> json option \<Rightarrow> idea_result envelope \<times> event list" where
  "idea_callTool rt traceId name arguments =
     (if name = ''generate_viral_ideas'' then
        reply traceId (\<lambda>ideas. IdeasResult ideas (length ideas))
          (validated GenerateIdeasArgsSchema arguments (\<lambda>args. generateViralIdeas rt args traceId))
      else if name = ''analyze_trending_topics'' then
        reply traceId TrendsResult
          (validated AnalyzeTrendsArgsSchema arguments (\<lambda>args. analyzeTrends rt args traceId))
      else if name = ''predict_virality'' then
        reply traceId PredictionResult
          (validated PredictViralityArgsSchema arguments (\<lambda>args. predictVirality rt args traceId))
      else reply traceId PredictionResult (Inl (Error (''Unknown tool: '' @ name)), []))"

section \<open>The script-to-video server\<close>

subsection \<open>Argument schemas\<close>

record IdeaArg =
  id_title :: string
  id_hook :: string
  id_platform :: string
  id_duration :: rat
  id_outline :: "OutlineItem list option"

record GenerateScriptArgs =
  gs_idea :: IdeaArg
  gs_tone :: string
  gs_includeVoiceover :: bool
  gs_includeBRoll :: bool

text \<open>
  The items of \<open>outline\<close> have the structure of the items of a viral idea's
  \<open>scriptOutline\<close>, so their schema is shared here.
\<close>

definition IdeaArgSchema :: "IdeaArg zod" where
  "IdeaArgSchema = z_object (\<lambda>get. do {
     t \<leftarrow> z_string (get ''title'');
     h \<leftarrow> z_string (get ''hook'');
     p \<leftarrow> z_enum [''youtube'', ''tiktok'', ''instagram-reels'', ''youtube-shorts''] (get ''platform'');
     d \<leftarrow> z_number (get ''duration'');
     ol \<leftarrow> z_optional (z_array OutlineItemSchema) (get ''outline'');
     Some \<lparr>id_title = t, id_hook = h, id_platform = p, id_duration = d, id_outline = ol\<rparr> })"

definition GenerateScriptArgsSchema :: "GenerateScriptArgs zod" where
  "GenerateScriptArgsSchema = z_object (\<lambda>get. do {
     i \<leftarrow> IdeaArgSchema (get ''idea'');
     t \<leftarrow> z_default (JStr ''casual'')
            (z_enum [''energetic'', ''educational'', ''casual'', ''professional'', ''humorous''])
            (get ''tone'');
     v \<leftarrow> z_default (JBool True) z_boolean (get ''includeVoiceover'');
     b \<leftarrow> z_default (JBool True) z_boolean (get ''includeBRoll'');
     Some \<lparr>gs_idea = i, gs_tone = t, gs_includeVoiceover = v, gs_includeBRoll = b\<rparr> })"

record GenerateStoryboardArgs =
  sb_script :: string
  sb_platform :: string
  sb_visualStyle :: string

definition GenerateStoryboardArgsSchema :: "GenerateStoryboardArgs zod" where
  "GenerateStoryboardArgsSchema = z_object (\<lambda>get. do {
     s \<leftarrow> z_string (get ''script'');
     p \<leftarrow> z_enum [''youtube'', ''tiktok'', ''instagram-reels'', ''youtube-shorts''] (get ''platform'');
     v \<leftarrow> z_default (JStr ''hybrid'')
            (z_enum [''talking-head'', ''b-roll-heavy'', ''screen-record'', ''animated'', ''hybrid''])
            (get ''visualStyle'');
     Some \<lparr>sb_script = s, sb_platform = p, sb_visualStyle = v\<rparr> })"

record GenerateVoiceoverArgs =
  vo_script :: string
  vo_voice :: string
  vo_provider :: string
  vo_format :: string

definition GenerateVoiceoverArgsSchema :: "GenerateVoiceoverArgs zod" where
  "GenerateVoiceoverArgsSchema = z_object (\<lambda>get. do {
     s \<leftarrow> z_string (get ''script'');
     v \<leftarrow> z_default (JStr ''neutral'') z_string (get ''voice'');
     p \<leftarrow> z_default (JStr ''huggingface'') (z_enum [''elevenlabs'', ''huggingface'']) (get ''provider'');
     f \<leftarrow> z_default (JStr ''mp3'') (z_enum [''mp3'', ''wav'']) (get ''format'');
     Some \<lparr>vo_script = s, vo_voice = v, vo_provider = p, vo_format = f\<rparr> })"

record ExportProjectArgs =
  ex_storyboard :: "(string \<times> json) list"
  ex_voiceoverPath :: "string option"
  ex_bRollSuggestions :: "string list option"
  ex_format :: string

definition ExportProjectArgsSchema :: "ExportProjectArgs zod" where
  "ExportProjectArgsSchema = z_object (\<lambda>get. do {
     s \<leftarrow> z_passthrough (get ''storyboard'');
     v \<leftarrow> z_optional z_string (get ''voiceoverPath'');
     b \<leftarrow> z_optional (z_array z_string) (get ''bRollSuggestions'');
     f \<leftarrow> z_enum [''fcpxml'', ''premiere-xml'', ''davinci-xml''] (get ''format'');
     Some \<lparr>ex_storyboard = s, ex_voiceoverPath = v, ex_bRollSuggestions = b, ex_format = f\<rparr> })"

subsection \<open>Script and storyboard\<close>

record PlatformSpec =
  maxDuration :: nat
  idealDuration :: nat
  hookDuration :: nat

text \<open>The table \<open>platformSpecs\<close>; a key outside it reads \<open>undefined\<close>.\<close>

definition platformSpecs :: "string \<Rightarrow> PlatformSpec option" where
  "platformSpecs p =
     (if p = ''youtube'' then Some \<lparr>maxDuration = 720, idealDuration = 480, hookDuration = 15\<rparr>
      else if p = ''tiktok'' then Some \<lparr>maxDuration = 180, idealDuration = 60, hookDuration = 3\<rparr>
      else if p = ''instagram-reels'' then Some \<lparr>maxDuration = 90, idealDuration = 45, hookDuration = 3\<rparr>
      else if p = ''youtube-shorts'' then Some \<lparr>maxDuration = 60, idealDuration = 45, hookDuration = 5\<rparr>
      else None)"

definition script_prompt :: "runtime \<Rightarrow> GenerateScriptArgs \<Rightarrow> PlatformSpec \<Rightarrow> string" where
  \<open>script_prompt rt args spec = concat
    [''Generate a COMPLETE video script for '', id_platform (gs_idea args), ''.'', nl,
     nl,
     ''**Video Details:**'', nl,
     ''- Title: '', id_title (gs_idea args), nl,
     ''- Hook: '', id_hook (gs_idea args), nl,
     ''- Target Duration: '', numberToString rt (id_duration (gs_idea args)), ''s (max: '', digits (maxDuration spec), ''s)'', nl,
     ''- Tone: '', gs_tone args, nl,
     nl,
     ''**Platform Requirements:**'', nl,
     ''- Hook must grab attention in first '', digits (hookDuration spec), '' seconds'', nl,
     ''- '', (if id_platform (gs_idea args) = ''youtube'' then ''Pattern interrupt every 30-45s to maintain retention'' else ''Fast-paced, high energy throughout''), nl,
     ''- '', (if id_platform (gs_idea args) = ''tiktok'' \<or> id_platform (gs_idea args) = ''instagram-reels'' then ''Vertical format (9:16)'' else ''Horizontal format (16:9)''), nl,
     nl,
     ''**Script Structure (return JSON):**'', nl,
     ''{'', nl,
     ''  "title": "'', id_title (gs_idea args), ''",'', nl,
     ''  "platform": "'', id_platform (gs_idea args), ''",'', nl,
     ''  "totalDuration": '', numberToString rt (id_duration (gs_idea args)), '','', nl,
     ''  "scenes": ['', nl,
     ''    {'', nl,
     ''      "timestamp": "00:00",'', nl,
     ''      "duration": '', digits (hookDuration spec), '','', nl,
     ''      "sceneType": "hook",'', nl,
     ''      "voiceover": "Exact words to say (conversational, '', gs_tone args, '' tone)",'', nl,
     ''      "onScreenText": "Text overlays (if any)",'', nl,
     ''      "visualCue": "What viewer sees (camera angle, b-roll, graphics)",'', nl,
     ''      "audioNotes": "Music/SFX suggestions",'', nl,
     ''      "transitionTo": "cut/fade/zoom"'', nl,
     ''    }'', nl,
     ''  ],'', nl,
     ''  "bRollSuggestions": ['', nl,
     ''    {'', nl,
     ''      "timestamp": "00:15",'', nl,
     ''      "description": "Stock footage of...",'', nl,
     ''      "keywords": ["search", "terms"],'', nl,
     ''      "duration": 3'', nl,
     ''    }'', nl,
     ''  ],'', nl,
     ''  "musicSuggestions": {'', nl,
     ''    "genre": "upbeat electronic",'', nl,
     ''    "mood": "energetic",'', nl,
     ''    "keywords": ["royalty-free", "non-copyrighted"]'', nl,
     ''  },'', nl,
     ''  "callToAction": {'', nl,
     ''    "timestamp": "'', num_toString rt (num_floor (num_mul (Finite (id_duration (gs_idea args))) (double_of (9 / 10)))), ''s",'', nl,
     ''    "voiceover": "Subscribe for more...",'', nl,
     ''    "visualCue": "Subscribe button animation"'', nl,
     ''  }'', nl,
     ''}'', nl,
     nl,
     ''**Critical:**'', nl,
     ''- Every '', (if gs_tone args = ''educational'' then ''60'' else ''30''), '' seconds, add a pattern interrupt (question, visual change, reveal)'', nl,
     ''- Include timestamps for EVERY scene change'', nl,
     ''- Voiceover must be word-for-word, natural speech (contractions, filler words if casual)'', nl,
     ''- Visual cues must be specific ("Close-up of hands typing", not "Person working")'', nl,
     (if gs_includeBRoll args then ''- Suggest 8-12 b-roll clips with exact timestamps'' else []), nl,
     nl,
     ''Generate the COMPLETE script now.'']\<close>

definition storyboard_prompt :: "GenerateStoryboardArgs \<Rightarrow> string" where
  \<open>storyboard_prompt args = concat
    [''Create a detailed visual storyboard from this video script.'', nl,
     nl,
     ''**Script:**'', nl,
     sb_script args, nl,
     nl,
     ''**Platform:** '', sb_platform args, nl,
     ''**Visual Style:** '', sb_visualStyle args, nl,
     nl,
     ''Return JSON:'', nl,
     ''{'', nl,
     ''  "shots": ['', nl,
     ''    {'', nl,
     ''      "shotNumber": 1,'', nl,
     ''      "timestamp": "00:00",'', nl,
     ''      "duration": 5,'', nl,
     ''      "shotType": "wide/medium/close-up/extreme-close-up",'', nl,
     ''      "cameraAngle": "eye-level/high-angle/low-angle/dutch-tilt",'', nl,
     ''      "cameraMovement": "static/pan/tilt/dolly/zoom",'', nl,
     ''      "subject": "What'', sq, ''s in frame",'', nl,
     ''      "lighting": "Natural/studio/dramatic/soft",'', nl,
     ''      "composition": "Rule of thirds description",'', nl,
     ''      "visualNotes": "Detailed description for videographer",'', nl,
     ''      "thumbnail": "AI image prompt for this shot (for pre-viz)"'', nl,
     ''    }'', nl,
     ''  ],'', nl,
     ''  "equipmentNeeded": ["camera", "tripod", "lighting"],'', nl,
     ''  "locations": ["home office", "outdoor park"],'', nl,
     ''  "props": ["laptop", "coffee mug"]'', nl,
     ''}'', nl,
     nl,
     ''Platform-specific guidelines:'', nl,
     ''- '', (if sb_platform args = ''tiktok'' \<or> sb_platform args = ''instagram-reels'' then ''Vertical framing, dynamic movement'' else ''Horizontal framing, stable shots''), nl,
     ''- '', (if sb_visualStyle args = ''b-roll-heavy'' then ''Minimize talking-head, maximize action shots'' else []), nl,
     ''- '', (if sb_visualStyle args = ''screen-record'' then ''Focus on screen captures with cursor movement'' else []), nl,
     nl,
     ''Generate complete storyboard now.'']\<close>

text \<open>
  \<open>generateVideoScript\<close> throws when the provider's text has no \<open>{...}\<close> fragment. The
  log line after the parse reads \<open>script.scenes?.length\<close>, a TypeError on \<open>null\<close>.
\<close>

definition generateVideoScript ::
  "runtime \<Rightarrow> GenerateScriptArgs \<Rightarrow> string \<Rightarrow> (exn + json) \<times> event list" where
  "generateVideoScript rt args traceId =
     (case credential rt ''GEMINI_API_KEY'' of
        None \<Rightarrow> (Inl (Error ''GEMINI_API_KEY not found''), [])
      | Some apiKey \<Rightarrow>
          (case platformSpecs (id_platform (gs_idea args)) of
             None \<Rightarrow> (Inl TypeError, [])
           | Some spec \<Rightarrow>
               (let prompt = script_prompt rt args spec;
                    ev1 = [Log traceId Info ''Generating video script'', GenerateContent prompt]
                in case generateContent rt prompt of
                     Inl e \<Rightarrow> (Inl e, ev1)
                   | Inr text \<Rightarrow>
                       (case match_object text of
                          None \<Rightarrow> (Inl (Error ''Failed to extract JSON from AI response''), ev1)
                        | Some m \<Rightarrow>
                            (case jsonParse rt m of
                               None \<Rightarrow> (Inl SyntaxError, ev1)
                             | Some JNull \<Rightarrow> (Inl TypeError, ev1)
                             | Some script \<Rightarrow>
                                 (Inr script, ev1 @ [Log traceId Info ''Script generated'']))))))"

text \<open>
  \<open>generateStoryboard\<close> falls back to \<open>{ shots: [] }\<close> when the text has no fragment.
\<close>

definition generateStoryboard ::
  "runtime \<Rightarrow> GenerateStoryboardArgs \<Rightarrow> string \<Rightarrow> (exn + json) \<times> event list" where
  "generateStoryboard rt args traceId =
     (case credential rt ''GEMINI_API_KEY'' of
        None \<Rightarrow> (Inl (Error ''GEMINI_API_KEY not found''), [])
      | Some apiKey \<Rightarrow>
          (let prompt = storyboard_prompt args;
               ev1 = [Log traceId Info ''Generating storyboard'', GenerateContent prompt]
           in case generateContent rt prompt of
                Inl e \<Rightarrow> (Inl e, ev1)
              | Inr text \<Rightarrow>
                  (case parseOr rt (JObj [(''shots'', JArr [])]) (match_object text) of
                     Inl e \<Rightarrow> (Inl e, ev1)
                   | Inr JNull \<Rightarrow> (Inl TypeError, ev1)
                   | Inr storyboard \<Rightarrow>
                       (Inr storyboard, ev1 @ [Log traceId Info ''Storyboard generated'']))))"

subsection \<open>Voiceover\<close>

record Voiceover =
  vr_success :: bool
  vr_audioPath :: string
  vr_provider :: string
  vr_duration :: nat
  vr_format :: string
  vr_note :: "string option"

definition elevenlabsUrl :: "string \<Rightarrow> string" where
  "elevenlabsUrl voice =
     ''https://api.elevenlabs.io/v1/text-to-speech/''
       @ (if voice = [] then ''21m00Tcm4TlvDq8ikWAM'' else voice)"

definition elevenlabsBody :: "string \<Rightarrow> json" where
  "elevenlabsBody script =
     JObj [(''text'', JStr script),
           (''model_id'', JStr ''eleven_monolingual_v1''),
           (''voice_settings'', JObj [(''stability'', JNum (1 / 2)),
                                      (''similarity_boost'', JNum (3 / 4))])]"

definition huggingfaceUrl :: string where
  "huggingfaceUrl = ''https://api-inference.huggingface.co/models/facebook/fastspeech2-en-ljspeech''"

definition voiceoverPath :: "string \<Rightarrow> string \<Rightarrow> string" where
  "voiceoverPath traceId fmt = ''/tmp/voiceover-'' @ traceId @ ''.'' @ fmt"

definition generateVoiceover ::
  "runtime \<Rightarrow> GenerateVoiceoverArgs \<Rightarrow> string \<Rightarrow> (exn + Voiceover) \<times> event list" where
  "generateVoiceover rt args traceId =
     (let ev0 = [Log traceId Info ''Generating voiceover''];
          outputPath = voiceoverPath traceId (vo_format args)
      in if vo_provider args = ''elevenlabs'' then
           (case credential rt ''ELEVENLABS_API_KEY'' of
              None \<Rightarrow>
                (Inl (Error (''ELEVENLABS_API_KEY not found. Set it or use provider: ''
                             @ [CHR 0x22] @ ''huggingface'' @ [CHR 0x22])), ev0)
            | Some apiKey \<Rightarrow>
                (let url = elevenlabsUrl (vo_voice args);
                     body = elevenlabsBody (vo_script args);
                     ev1 = ev0 @ [HttpPost url body]
                 in case axiosPost rt url body of
                      Inl e \<Rightarrow> (Inl e, ev1)
                    | Inr audio \<Rightarrow>
                        (case writeFileSync rt outputPath audio of
                           Some e \<Rightarrow> (Inl e, ev1 @ [WriteFile outputPath audio])
                         | None \<Rightarrow>
                             (Inr \<lparr>vr_success = True, vr_audioPath = outputPath,
                                   vr_provider = ''elevenlabs'',
                                   vr_duration = length (vo_script args) div 15,
                                   vr_format = vo_format args, vr_note = None\<rparr>,
                              ev1 @ [WriteFile outputPath audio,
                                     Log traceId Info ''Voiceover generated (ElevenLabs)'']))))
         else
           (case credential rt ''HUGGINGFACE_API_KEY'' of
              None \<Rightarrow> (Inl (Error ''HUGGINGFACE_API_KEY not found''), ev0)
            | Some HF_API_KEY \<Rightarrow>
                (let body = JObj [(''inputs'', JStr (vo_script args))];
                     ev1 = ev0 @ [HttpPost huggingfaceUrl body]
                 in case axiosPost rt huggingfaceUrl body of
                      Inl e \<Rightarrow> (Inl e, ev1)
                    | Inr audio \<Rightarrow>
                        (case writeFileSync rt outputPath audio of
                           Some e \<Rightarrow> (Inl e, ev1 @ [WriteFile outputPath audio])
                         | None \<Rightarrow>
                             (Inr \<lparr>vr_success = True, vr_audioPath = outputPath,
                                   vr_provider = ''huggingface'',
                                   vr_duration = length (vo_script args) div 15,
                                   vr_format = vo_format args,
                                   vr_note = Some ''For production quality, use ElevenLabs (set ELEVENLABS_API_KEY)''\<rparr>,
                              ev1 @ [WriteFile outputPath audio,
                                     Log traceId Info ''Voiceover generated (HuggingFace)''])))))"

subsection \<open>Export of an editing project\<close>

text \<open>\<open>(args.storyboard as any).title || 'Untitled'\<close>, as the template converts it to a string.\<close>

definition storyboardTitle :: "runtime \<Rightarrow> (string \<times> json) list \<Rightarrow> string" where
  "storyboardTitle rt storyboard =
     (case map_of storyboard ''title'' of
        None \<Rightarrow> ''Untitled''
      | Some t \<Rightarrow> if truthy t then (case t of JStr s \<Rightarrow> s | _ \<Rightarrow> valueToString rt t)
                  else ''Untitled'')"

text \<open>The elements that carry the voiceover path, as the nested templates write them.\<close>

definition fcpxml_asset :: "string \<Rightarrow> string" where
  \<open>fcpxml_asset p = ''<asset id="r2" src="file://'' @ p @ ''" start="0s" duration="60s" hasAudio="1"/>''\<close>

definition fcpxml_audio :: string where
  \<open>fcpxml_audio = ''<audio ref="r2" offset="0s" duration="60s"/>''\<close>

definition premiere_track :: "string \<Rightarrow> string" where
  \<open>premiere_track p =
     ''<track><clipitem><file><pathurl>file://'' @ p @ ''</pathurl></file></clipitem></track>''\<close>

definition fcpxml_document :: "runtime \<Rightarrow> ExportProjectArgs \<Rightarrow> string" where
  \<open>fcpxml_document rt args = concat
    [''<?xml version="1.0" encoding="UTF-8"?>'', nl,
     ''<!DOCTYPE fcpxml>'', nl,
     ''<fcpxml version="1.9">'', nl,
     ''  <resources>'', nl,
     ''    <format id="r1" name="FFVideoFormat1080p30" frameDuration="1001/30000s" width="1920" height="1080"/>'', nl,
     ''    '', (case ex_voiceoverPath args of None \<Rightarrow> [] | Some p \<Rightarrow> if p = [] then [] else fcpxml_asset p), nl,
     ''  </resources>'', nl,
     ''  <library>'', nl,
     ''    <event name="AI Generated Video">'', nl,
     ''      <project name="'', storyboardTitle rt (ex_storyboard args), ''">'', nl,
     ''        <sequence format="r1" duration="60s">'', nl,
     ''          <spine>'', nl,
     ''            '', (case ex_voiceoverPath args of None \<Rightarrow> [] | Some p \<Rightarrow> if p = [] then [] else fcpxml_audio), nl,
     ''            <!-- Add video clips here based on storyboard -->'', nl,
     ''          </spine>'', nl,
     ''        </sequence>'', nl,
     ''      </project>'', nl,
     ''    </event>'', nl,
     ''  </library>'', nl,
     ''</fcpxml>'']\<close>

definition premiere_document :: "ExportProjectArgs \<Rightarrow> string" where
  \<open>premiere_document args = concat
    [''<?xml version="1.0" encoding="UTF-8"?>'', nl,
     ''<xmeml version="5">'', nl,
     ''  <sequence>'', nl,
     ''    <name>AI Generated Video</name>'', nl,
     ''    <duration>1800</duration>'', nl,
     ''    <rate>'', nl,
     ''      <timebase>30</timebase>'', nl,
     ''    </rate>'', nl,
     ''    <media>'', nl,
     ''      <audio>'', nl,
     ''        '', (case ex_voiceoverPath args of None \<Rightarrow> [] | Some p \<Rightarrow> if p = [] then [] else premiere_track p), nl,
     ''      </audio>'', nl,
     ''    </media>'', nl,
     ''  </sequence>'', nl,
     ''</xmeml>'']\<close>

definition davinci_document :: "string" where
  \<open>davinci_document  = concat
    [''TITLE: AI Generated Video'', nl,
     ''FCM: NON-DROP FRAME'', nl,
     nl,
     ''001  BL       V     C        00:00:00:00 00:00:10:00 00:00:00:00 00:00:10:00'', nl,
     ''* FROM CLIP NAME: Voiceover'', nl]\<close>

definition projectDocument :: "runtime \<Rightarrow> ExportProjectArgs \<Rightarrow> string" where
  "projectDocument rt args =
     (if ex_format args = ''fcpxml'' then fcpxml_document rt args
      else if ex_format args = ''premiere-xml'' then premiere_document args
      else davinci_document)"

record Export =
  xr_success :: bool
  xr_projectPath :: string
  xr_format :: string
  xr_instructions :: string

definition projectPath :: "string \<Rightarrow> string \<Rightarrow> string" where
  "projectPath traceId fmt =
     ''/tmp/project-'' @ traceId @ ''.'' @ (if fmt = ''fcpxml'' then ''fcpxml'' else ''xml'')"

definition exportEditingProject ::
  "runtime \<Rightarrow> ExportProjectArgs \<Rightarrow> string \<Rightarrow> (exn + Export) \<times> event list" where
  "exportEditingProject rt args traceId =
     (let xml = projectDocument rt args;
          outputPath = projectPath traceId (ex_format args);
          ev1 = [Log traceId Info ''Exporting editing project'', WriteFile outputPath xml]
      in case writeFileSync rt outputPath xml of
           Some e \<Rightarrow> (Inl e, ev1)
         | None \<Rightarrow>
             (Inr \<lparr>xr_success = True, xr_projectPath = outputPath, xr_format = ex_format args,
                   xr_instructions =
                     ''Import '' @ outputPath @ '' into ''
                       @ (if ex_format args = ''fcpxml'' then ''Final Cut Pro X''
                          else if ex_format args = ''premiere-xml'' then ''Adobe Premiere Pro''
                          else ''DaVinci Resolve'')\<rparr>,
              ev1 @ [Log traceId Info ''Project exported'']))"

subsection \<open>The dispatcher\<close>

datatype script_result =
    ScriptResult json
  | StoryboardResult json
  | VoiceoverResult Voiceover
  | ExportResult Export

definition script_callTool ::
  "runtime \<Rightarrow> string \<Rightarrow> string \<Rightarrow> json option \<Rightarrow> script_result envelope \<times> event list" where
  "script_callTool rt traceId name arguments =
     (if name = ''generate_video_script'' then
        reply traceId ScriptResult
          (validated GenerateScriptArgsSchema arguments (\<lambda>args. generateVideoScript rt args traceId))
      else if name = ''generate_storyboard'' then
        reply traceId StoryboardResult
          (validated GenerateStoryboardArgsSchema arguments (\<lambda>args. generateStoryboard rt args traceId))
      else if name = ''generate_voiceover'' then
        reply traceId VoiceoverResult
          (validated GenerateVoiceoverArgsSchema arguments (\<lambda>args. generateVoiceover rt args traceId))
      else if name = ''export_editing_project'' then
        reply traceId ExportResult
          (validated ExportProjectArgsSchema arguments (\<lambda>args. exportEditingProject rt args traceId))
      else reply traceId ScriptResult (Inl (Error (''Unknown tool: '' @ name)), []))"

section \<open>The growth optimizer\<close>

subsection \<open>The posting schedule\<close>

text \<open>
  A sample of the history, after validation. \<open>views\<close> and \<open>engagement\<close> are numbers of
  the request: finite doubles, given by their value.
\<close>

record HistoricalPost =
  postTime :: string
  views :: rat
  engagement :: rat

record OptimizeScheduleArgs =
  os_platform :: string
  os_timezone :: string
  os_historicalPerformance :: "HistoricalPost list option"

definition HistoricalPostSchema :: "HistoricalPost zod" where
  "HistoricalPostSchema = z_object (\<lambda>get. do {
     t \<leftarrow> z_string (get ''postTime'');
     v \<leftarrow> z_number (get ''views'');
     e \<leftarrow> z_number (get ''engagement'');
     Some \<lparr>postTime = t, views = v, engagement = e\<rparr> })"

text \<open>
  \<open>audienceDemographics\<close> is validated (an optional object of three optional fields)
  and never read by the handler; the record keeps the fields the handler reads.
\<close>

definition AudienceDemographicsSchema :: "unit zod" where
  "AudienceDemographicsSchema = z_object (\<lambda>get. do {
     _ \<leftarrow> z_optional z_string (get ''ageRange'');
     _ \<leftarrow> z_optional (z_array z_string) (get ''topCountries'');
     _ \<leftarrow> z_optional z_passthrough (get ''gender'');
     Some () })"

definition OptimizeScheduleArgsSchema :: "OptimizeScheduleArgs zod" where
  "OptimizeScheduleArgsSchema = z_object (\<lambda>get. do {
     p \<leftarrow> z_enum [''youtube'', ''tiktok'', ''instagram'', ''twitter''] (get ''platform'');
     tz \<leftarrow> z_string (get ''timezone'');
     _ \<leftarrow> z_optional AudienceDemographicsSchema (get ''audienceDemographics'');
     h \<leftarrow> z_optional (z_array HistoricalPostSchema) (get ''historicalPerformance'');
     Some \<lparr>os_platform = p, os_timezone = tz, os_historicalPerformance = h\<rparr> })"

text \<open>
  The accumulator of one hour: \<open>{ views, engagement, count }\<close>. The two sums are
  doubles. The count is kept as a natural number: it is at most the length of a
  JavaScript array, which is below \<open>2^32\<close>, where doubles count exactly.
\<close>

record HourData =
  hd_views :: number
  hd_engagement :: number
  hd_count :: nat

text \<open>
  \<open>performanceByHour\<close> is an object with the hours as keys. \<open>Object.entries\<close> lists
  integer keys in ascending order and then the other keys (here only \<open>NaN\<close>) in the
  order of their creation; the association list is kept in that order.
\<close>

type_synonym byHour = "(hourkey \<times> HourData) list"

fun key_before :: "hourkey \<Rightarrow> hourkey \<Rightarrow> bool" where
  "key_before (Hour a) (Hour b) = (a < b)"
| "key_before (Hour a) NaN = True"
| "key_before NaN _ = False"

fun obj_set :: "hourkey \<Rightarrow> HourData \<Rightarrow> byHour \<Rightarrow> byHour" where
  "obj_set k d [] = [(k, d)]"
| "obj_set k d ((k', d') # rest) =
     (if k = k' then (k, d) # rest
      else if key_before k k' then (k, d) # (k', d') # rest
      else (k', d') # obj_set k d rest)"

definition record_post :: "runtime \<Rightarrow> byHour \<Rightarrow> HistoricalPost \<Rightarrow> byHour" where
  "record_post rt performanceByHour post =
     (let hour = getHours rt (postTime post);
          cur = (case map_of performanceByHour hour of
                   None \<Rightarrow> \<lparr>hd_views = Finite 0, hd_engagement = Finite 0, hd_count = 0\<rparr>
                 | Some d \<Rightarrow> d)
      in obj_set hour
           \<lparr>hd_views = num_add (hd_views cur) (Finite (views post)),
            hd_engagement = num_add (hd_engagement cur) (Finite (engagement post)),
            hd_count = hd_count cur + 1\<rparr>
           performanceByHour)"

record HourAvg =
  hour :: hourkey
  avgViews :: number
  avgEngagement :: number

definition toAvg :: "hourkey \<times> HourData \<Rightarrow> HourAvg" where
  "toAvg e = (case e of (h, d) \<Rightarrow>
     \<lparr>hour = h,
      avgViews = num_div (hd_views d) (Finite (of_nat (hd_count d))),
      avgEngagement = num_div (hd_engagement d) (Finite (of_nat (hd_count d)))\<rparr>)"

text \<open>
  The comparator \<open>(a, b) => b.avgEngagement - a.avgEngagement\<close>, and the test that its
  value is not positive: \<open>sort\<close> reads the value by its sign, a NaN as zero.
\<close>

definition compareFn :: "HourAvg \<Rightarrow> HourAvg \<Rightarrow> number" where
  "compareFn a b = num_sub (avgEngagement b) (avgEngagement a)"

definition byEngagementDesc :: "HourAvg \<Rightarrow> HourAvg \<Rightarrow> bool" where
  "byEngagementDesc a b = (\<not> num_positive (compareFn a b))"

definition topHours :: "runtime \<Rightarrow> HistoricalPost list \<Rightarrow> HourAvg list" where
  "topHours rt posts =
     take 3 (sort_by byEngagementDesc (map toAvg (foldl (record_post rt) [] posts)))"

text \<open>\<open>`${h.hour.toString().padStart(2, '0')}:00`\<close>\<close>

fun hourToString :: "hourkey \<Rightarrow> string" where
  "hourToString (Hour n) = digits n"
| "hourToString NaN = ''NaN''"

definition formatHour :: "hourkey \<Rightarrow> string" where
  "formatHour h = padStart 2 (CHR ''0'') (hourToString h) @ '':00''"

text \<open>The table \<open>baselineTimes\<close>; a key outside it reads \<open>undefined\<close>.\<close>

definition baselineTimes :: "string \<Rightarrow> string list option" where
  "baselineTimes p =
     (if p = ''youtube'' then Some [''14:00'', ''17:00'', ''20:00'']
      else if p = ''tiktok'' then Some [''07:00'', ''12:00'', ''19:00'']
      else if p = ''instagram'' then Some [''11:00'', ''13:00'', ''19:00'']
      else if p = ''twitter'' then Some [''08:00'', ''12:00'', ''17:00'']
      else None)"

record PostingTime =
  pt_time :: string
  pt_dayOfWeek :: string
  pt_reason :: string

record Schedule =
  sc_platform :: string
  sc_timezone :: string
  optimalPostingTimes :: "PostingTime list"
  frequency :: string
  avoidTimes :: "string list"
  seasonalNotes :: string
  recommendation :: string

text \<open>
  The variable \<open>optimalTimes\<close> after the \<open>if\<close>: the baseline of the platform, replaced
  by the formatted top hours when the history is present and not empty.
\<close>

definition optimalTimes :: "runtime \<Rightarrow> OptimizeScheduleArgs \<Rightarrow> string list option" where
  "optimalTimes rt args =
     (case os_historicalPerformance args of
        None \<Rightarrow> baselineTimes (os_platform args)
      | Some posts \<Rightarrow>
          if length posts > 0 then Some (map (\<lambda>h. formatHour (hour h)) (topHours rt posts))
          else baselineTimes (os_platform args))"

text \<open>\<open>optimalTimes.map\<close> on \<open>undefined\<close> throws a TypeError.\<close>

definition optimizePostingSchedule ::
  "runtime \<Rightarrow> OptimizeScheduleArgs \<Rightarrow> string \<Rightarrow> (exn + Schedule) \<times> event list" where
  "optimizePostingSchedule rt args traceId =
     (let analysed = (case os_historicalPerformance args of
                        None \<Rightarrow> False | Some posts \<Rightarrow> length posts > 0);
          evs = [Log traceId Info ''Optimizing posting schedule'']
                  @ (if analysed then [Log traceId Info ''Analyzed historical data''] else [])
      in case optimalTimes rt args of
           None \<Rightarrow> (Inl TypeError, evs)
         | Some ts \<Rightarrow>
             (Inr \<lparr>sc_platform = os_platform args,
                   sc_timezone = os_timezone args,
                   optimalPostingTimes =
                     map (\<lambda>t. \<lparr>pt_time = t,
                               pt_dayOfWeek = (if os_platform args = ''youtube'' then ''Thursday/Friday''
                                               else ''Tuesday/Wednesday''),
                               pt_reason = ''Peak audience activity based on analytics''\<rparr>) ts,
                   frequency = (if os_platform args = ''youtube'' then ''2-3 videos/week''
                                else if os_platform args = ''tiktok'' then ''1-3 videos/day''
                                else ''1 post/day''),
                   avoidTimes = [''02:00-06:00 (low activity)'',
                                 ''During major events (unless relevant)''],
                   seasonalNotes = ''Summer: -15% engagement. Holiday season: +30% engagement.'',
                   recommendation =
                     ''Post on '' @ (case ts of [] \<Rightarrow> ''undefined'' | t # _ \<Rightarrow> t) @ '' ''
                       @ os_timezone args @ '' for maximum reach.''\<rparr>,
              evs))"

subsection \<open>The generative handlers\<close>

record OptimizeSEOArgs =
  oseo_title :: string
  oseo_description :: string
  oseo_platform :: string
  oseo_niche :: string
  oseo_targetAudience :: "string option"

definition OptimizeSEOArgsSchema :: "OptimizeSEOArgs zod" where
  "OptimizeSEOArgsSchema = z_object (\<lambda>get. do {
     t \<leftarrow> z_string (get ''title'');
     d \<leftarrow> z_string (get ''description'');
     p \<leftarrow> z_enum [''youtube'', ''tiktok'', ''instagram''] (get ''platform'');
     n \<leftarrow> z_string (get ''niche'');
     a \<leftarrow> z_optional z_string (get ''targetAudience'');
     Some \<lparr>oseo_title = t, oseo_description = d, oseo_platform = p, oseo_niche = n,
           oseo_targetAudience = a\<rparr> })"

record GenerateThumbnailArgs =
  th_title :: string
  th_platform :: string
  th_niche :: "string option"
  th_style :: "string option"

definition GenerateThumbnailArgsSchema :: "GenerateThumbnailArgs zod" where
  "GenerateThumbnailArgsSchema = z_object (\<lambda>get. do {
     t \<leftarrow> z_string (get ''title'');
     p \<leftarrow> z_enum [''youtube'', ''tiktok'', ''instagram''] (get ''platform'');
     n \<leftarrow> z_optional z_string (get ''niche'');
     s \<leftarrow> z_optional (z_enum [''minimalist'', ''bold-text'', ''reaction-face'', ''before-after'',
                                ''mystery'']) (get ''style'');
     Some \<lparr>th_title = t, th_platform = p, th_niche = n, th_style = s\<rparr> })"

record RepurposeContentArgs =
  rc_videoTranscript :: string
  rc_videoDuration :: rat
  rc_targetPlatforms :: "string list"
  rc_clipDuration :: rat

definition RepurposeContentArgsSchema :: "RepurposeContentArgs zod" where
  "RepurposeContentArgsSchema = z_object (\<lambda>get. do {
     t \<leftarrow> z_string (get ''videoTranscript'');
     d \<leftarrow> z_number (get ''videoDuration'');
     ps \<leftarrow> z_array (z_enum [''tiktok'', ''instagram-reels'', ''youtube-shorts'', ''twitter''])
            (get ''targetPlatforms'');
     c \<leftarrow> z_default (JNum 45) z_number (get ''clipDuration'');
     Some \<lparr>rc_videoTranscript = t, rc_videoDuration = d, rc_targetPlatforms = ps,
           rc_clipDuration = c\<rparr> })"

record RunABTestArgs =
  ab_element :: string
  ab_original :: string
  ab_variants :: rat
  ab_platform :: string

definition RunABTestArgsSchema :: "RunABTestArgs zod" where
  "RunABTestArgsSchema = z_object (\<lambda>get. do {
     e \<leftarrow> z_enum [''thumbnail'', ''title'', ''hook''] (get ''element'');
     orig \<leftarrow> z_string (get ''original'');
     v \<leftarrow> z_default (JNum 3)
            (z_check (\<lambda>n. n \<le> 5) (z_check (\<lambda>n. 2 \<le> n) (z_check is_int z_number)))
            (get ''variants'');
     p \<leftarrow> z_enum [''youtube'', ''tiktok'', ''instagram''] (get ''platform'');
     Some \<lparr>ab_element = e, ab_original = orig, ab_variants = v, ab_platform = p\<rparr> })"

record PlatformRules =
  pr_titleLength :: string
  pr_descriptionLength :: string
  pr_tags :: string
  pr_keywords :: string

definition platformRules :: "string \<Rightarrow> PlatformRules option" where
  "platformRules p =
     (if p = ''youtube'' then
        Some \<lparr>pr_titleLength = ''40-70 characters (mobile truncates at 60)'',
              pr_descriptionLength = ''First 150 chars appear above fold, use 5000 max'',
              pr_tags = ''10-15 tags, mix broad + specific, include misspellings'',
              pr_keywords = ''Front-load title with keyword, repeat 2-3x in description''\<rparr>
      else if p = ''tiktok'' then
        Some \<lparr>pr_titleLength = ''150 chars max, but shorter = better'',
              pr_descriptionLength = ''NA (caption = title)'',
              pr_tags = ''3-5 hashtags: 1 viral (#fyp), 1 niche, 1 specific'',
              pr_keywords = ''Use trending sounds + keywords in caption''\<rparr>
      else if p = ''instagram'' then
        Some \<lparr>pr_titleLength = ''125 chars visible, 2200 max'',
              pr_descriptionLength = ''First line = hook, hashtags at end or first comment'',
              pr_tags = ''5-10 hashtags: avoid banned tags, mix popularity levels'',
              pr_keywords = ''Natural language, avoid keyword stuffing''\<rparr>
      else None)"

definition seo_prompt :: "OptimizeSEOArgs \<Rightarrow> PlatformRules \<Rightarrow> string" where
  \<open>seo_prompt args rules = concat
    [''You are an expert '', oseo_platform args, '' SEO optimizer. Optimize this content for maximum discoverability.'', nl,
     nl,
     ''**Original:**'', nl,
     ''Title: '', oseo_title args, nl,
     ''Description: '', oseo_description args, nl,
     ''Niche: '', oseo_niche args, nl,
     (case oseo_targetAudience args of None \<Rightarrow> [] | Some a \<Rightarrow> if a = [] then [] else ''Target Audience: '' @ a), nl,
     nl,
     ''**Platform Rules ('', oseo_platform args, ''):**'', nl,
     ''- Title: '', pr_titleLength rules, nl,
     ''- Description: '', pr_descriptionLength rules, nl,
     ''- Tags: '', pr_tags rules, nl,
     ''- Keyword Strategy: '', pr_keywords rules, nl,
     nl,
     ''Return JSON:'', nl,
     ''{'', nl,
     ''  "optimizedTitle": "New SEO-optimized title",'', nl,
     ''  "optimizedDescription": "Keyword-rich description with CTA",'', nl,
     ''  "tags": ["tag1", "tag2", "tag3"],'', nl,
     ''  "primaryKeyword": "main keyword",'', nl,
     ''  "secondaryKeywords": ["keyword2", "keyword3"],'', nl,
     ''  "improvements": ['', nl,
     ''    "What changed and why (e.g., '', sq, ''Added primary keyword to first 5 words'', sq, '')"'', nl,
     ''  ],'', nl,
     ''  "seoScore": 85,'', nl,
     ''  "estimatedImprovement": "+25% impressions, +15% CTR",'', nl,
     ''  "competitorAnalysis": {'', nl,
     ''    "topCompetitors": ["Channel 1", "Channel 2"],'', nl,
     ''    "gapOpportunities": ["Underserved keyword: '', sq, ''X tutorial for beginners'', sq, ''"]'', nl,
     ''  }'', nl,
     ''}'', nl,
     nl,
     ''Critical:'', nl,
     ''- Title MUST include primary keyword in first 5 words'', nl,
     ''- Description MUST have CTA (like, subscribe, comment)'', nl,
     ''- '', (if oseo_platform args = ''youtube'' then ''Add timestamps if tutorial/how-to'' else []), nl,
     ''- '', (if oseo_platform args = ''tiktok'' then ''Include trending hashtag + question to boost comments'' else []), nl,
     nl,
     ''Optimize now.'']\<close>

text \<open>
  Each of the four handlers below reads a property of the parsed value for its last log
  line: a TypeError when the value is \<open>null\<close>.
\<close>

definition optimizeSEO ::
  "runtime \<Rightarrow> OptimizeSEOArgs \<Rightarrow> string \<Rightarrow> (exn + json) \<times> event list" where
  "optimizeSEO rt args traceId =
     (case credential rt ''GEMINI_API_KEY'' of
        None \<Rightarrow> (Inl (Error ''GEMINI_API_KEY not found''), [])
      | Some apiKey \<Rightarrow>
          (case platformRules (oseo_platform args) of
             None \<Rightarrow> (Inl TypeError, [])
           | Some rules \<Rightarrow>
               (let prompt = seo_prompt args rules;
                    ev1 = [Log traceId Info ''Optimizing SEO'', GenerateContent prompt]
                in case generateContent rt prompt of
                     Inl e \<Rightarrow> (Inl e, ev1)
                   | Inr text \<Rightarrow>
                       (case parseOr rt (JObj []) (match_object text) of
                          Inl e \<Rightarrow> (Inl e, ev1)
                        | Inr JNull \<Rightarrow> (Inl TypeError, ev1)
                        | Inr optimized \<Rightarrow> (Inr optimized, ev1 @ [Log traceId Info ''SEO optimized''])))))"

definition thumbnail_prompt :: "GenerateThumbnailArgs \<Rightarrow> string" where
  \<open>thumbnail_prompt args = concat
    [''Generate 5 high-CTR thumbnail concepts for this '', th_platform args, '' video.'', nl,
     nl,
     ''**Video Title:** '', th_title args, nl,
     (case th_niche args of None \<Rightarrow> [] | Some n \<Rightarrow> if n = [] then [] else ''**Niche:** '' @ n), nl,
     (case th_style args of None \<Rightarrow> [] | Some s \<Rightarrow> if s = [] then [] else ''**Preferred Style:** '' @ s), nl,
     nl,
     ''Return JSON array:'', nl,
     ''['', nl,
     ''  {'', nl,
     ''    "conceptId": 1,'', nl,
     ''    "style": "bold-text",'', nl,
     ''    "visualDescription": "Bright red background, white sans-serif text '', sq, take 30 (th_title args), ''...'', sq, '', shocked face bottom-right",'', nl,
     ''    "colorPalette": ["#FF0000", "#FFFFFF", "#000000"],'', nl,
     ''    "textOverlay": "3-5 WORDS MAX",'', nl,
     ''    "faceExpression": "shocked/curious/excited/none",'', nl,
     ''    "composition": "Rule of thirds: text left, face right",'', nl,
     ''    "contrastScore": 95,'', nl,
     ''    "clickabilityScore": 88,'', nl,
     ''    "aiImagePrompt": "Photorealistic thumbnail for YouTube: bright red background, bold white text '', sq, take 20 (th_title args), sq, '', person with shocked expression bottom right corner, high contrast, 16:9 aspect ratio",'', nl,
     ''    "abTestHypothesis": "Red backgrounds outperform blue by 12% in tech niche"'', nl,
     ''  }'', nl,
     '']'', nl,
     nl,
     ''**Thumbnail Best Practices:**'', nl,
     ''- '', (if th_platform args = ''youtube'' then ''1280x720px, faces should be 40%+ of frame'' else []), nl,
     ''- '', (if th_platform args = ''tiktok'' then ''Vertical 9:16, text readable on mobile'' else []), nl,
     ''- High contrast (use complementary colors)'', nl,
     ''- Text: 3-5 words MAX, sans-serif, 80pt+'', nl,
     ''- Faces: expressive emotions (shock, curiosity, excitement)'', nl,
     ''- Avoid clickbait (platform will demote)'', nl,
     ''- Include ONE focal point (not cluttered)'', nl,
     nl,
     ''Generate 5 diverse concepts with different styles.'']\<close>

record ThumbnailConcepts =
  concepts :: json
  abTestRecommendation :: string
  toolSuggestions :: "string list"

definition generateThumbnailConcepts ::
  "runtime \<Rightarrow> GenerateThumbnailArgs \<Rightarrow> string \<Rightarrow> (exn + ThumbnailConcepts) \<times> event list" where
  "generateThumbnailConcepts rt args traceId =
     (case credential rt ''GEMINI_API_KEY'' of
        None \<Rightarrow> (Inl (Error ''GEMINI_API_KEY not found''), [])
      | Some apiKey \<Rightarrow>
          (let prompt = thumbnail_prompt args;
               ev1 = [Log traceId Info ''Generating thumbnail concepts'', GenerateContent prompt]
           in case generateContent rt prompt of
                Inl e \<Rightarrow> (Inl e, ev1)
              | Inr text \<Rightarrow>
                  (case parseOr rt (JArr []) (match_array text) of
                     Inl e \<Rightarrow> (Inl e, ev1)
                   | Inr JNull \<Rightarrow> (Inl TypeError, ev1)
                   | Inr cs \<Rightarrow>
                       (Inr \<lparr>concepts = cs,
                             abTestRecommendation = ''Test top 2 concepts for 48 hours, keep winner'',
                             toolSuggestions = [''Canva'', ''Photoshop'', ''Figma'',
                                                ''Midjourney (for AI generation)'']\<rparr>,
                        ev1 @ [Log traceId Info ''Thumbnail concepts generated'']))))"

definition repurpose_prompt :: "runtime \<Rightarrow> RepurposeContentArgs \<Rightarrow> string" where
  \<open>repurpose_prompt rt args = concat
    [''Repurpose this long-form video transcript into '', digits (length (rc_targetPlatforms args)), '' platforms of short-form clips.'', nl,
     nl,
     ''**Original Transcript ('', numberToString rt (rc_videoDuration args), ''s):**'', nl,
     rc_videoTranscript args, nl,
     nl,
     ''**Target Platforms:** '', join '', '' (rc_targetPlatforms args), nl,
     ''**Clip Duration:** '', numberToString rt (rc_clipDuration args), ''s each'', nl,
     nl,
     ''Return JSON:'', nl,
     ''{'', nl,
     ''  "clips": ['', nl,
     ''    {'', nl,
     ''      "clipId": 1,'', nl,
     ''      "platform": "tiktok",'', nl,
     ''      "startTime": "00:15",'', nl,
     ''      "endTime": "00:45",'', nl,
     ''      "duration": 30,'', nl,
     ''      "hook": "Did you know...",'', nl,
     ''      "title": "Catchy clip title",'', nl,
     ''      "transcript": "Exact words from original ('', numberToString rt (rc_clipDuration args), ''s worth)",'', nl,
     ''      "viralScore": 85,'', nl,
     ''      "callToAction": "Watch full video (link in bio)",'', nl,
     ''      "editingNotes": "Add zoom effect at 0:05, text overlay for key stat"'', nl,
     ''    }'', nl,
     ''  ]'', nl,
     ''}'', nl,
     nl,
     ''**Requirements:**'', nl,
     ''- Extract 10-15 clips from original'', nl,
     ''- Each clip MUST have a strong hook (first 3 seconds)'', nl,
     ''- Clips should be self-contained (no "as I mentioned before")'', nl,
     ''- Prioritize high-energy moments, statistics, surprising facts'', nl,
     ''- '', (if ''tiktok'' \<in> set (rc_targetPlatforms args) then ''TikTok clips: viral potential 70+'' else []), nl,
     ''- Include call-to-action to watch full video'', nl,
     nl,
     ''Extract clips now.'']\<close>

text \<open>
  \<open>repurposed.clips.length\<close>: a TypeError when \<open>repurposed\<close> is \<open>null\<close> or has no
  \<open>clips\<close>, or a \<open>null\<close> one.
\<close>

definition repurposeContent ::
  "runtime \<Rightarrow> RepurposeContentArgs \<Rightarrow> string \<Rightarrow> (exn + json) \<times> event list" where
  "repurposeContent rt args traceId =
     (case credential rt ''GEMINI_API_KEY'' of
        None \<Rightarrow> (Inl (Error ''GEMINI_API_KEY not found''), [])
      | Some apiKey \<Rightarrow>
          (let prompt = repurpose_prompt rt args;
               ev1 = [Log traceId Info ''Repurposing content'', GenerateContent prompt]
           in case generateContent rt prompt of
                Inl e \<Rightarrow> (Inl e, ev1)
              | Inr text \<Rightarrow>
                  (case parseOr rt (JObj [(''clips'', JArr [])]) (match_object text) of
                     Inl e \<Rightarrow> (Inl e, ev1)
                   | Inr JNull \<Rightarrow> (Inl TypeError, ev1)
                   | Inr repurposed \<Rightarrow>
                       (case field ''clips'' repurposed of
                          None \<Rightarrow> (Inl TypeError, ev1)
                        | Some JNull \<Rightarrow> (Inl TypeError, ev1)
                        | Some clips \<Rightarrow>
                            (Inr repurposed, ev1 @ [Log traceId Info ''Content repurposed''])))))"

definition abtest_prompt :: "runtime \<Rightarrow> RunABTestArgs \<Rightarrow> string" where
  \<open>abtest_prompt rt args = concat
    [''Generate '', numberToString rt (ab_variants args), '' A/B test variants for this '', ab_element args, ''.'', nl,
     nl,
     ''**Original '', ab_element args, '':**'', nl,
     ab_original args, nl,
     nl,
     ''**Platform:** '', ab_platform args, nl,
     nl,
     ''Return JSON:'', nl,
     ''{'', nl,
     ''  "original": "'', ab_original args, ''",'', nl,
     ''  "variants": ['', nl,
     ''    {'', nl,
     ''      "variantId": "A",'', nl,
     ''      "content": "Variant text/description",'', nl,
     ''      "hypothesis": "Why this might outperform (e.g., '', sq, ''More curiosity gap'', sq, '')",'', nl,
     ''      "expectedImprovement": "+15% CTR",'', nl,
     ''      "riskLevel": "low/medium/high"'', nl,
     ''    }'', nl,
     ''  ],'', nl,
     ''  "testPlan": {'', nl,
     ''    "sampleSize": 1000,'', nl,
     ''    "duration": "48 hours",'', nl,
     ''    "successMetric": "'', (if ab_element args = ''thumbnail'' then ''CTR'' else if ab_element args = ''title'' then ''CTR + Retention'' else ''Engagement Rate''), ''",'', nl,
     ''    "statisticalSignificance": "95% confidence interval"'', nl,
     ''  }'', nl,
     ''}'', nl,
     nl,
     ''**Variant Strategies:**'', nl,
     (if ab_element args = ''thumbnail'' then ''- Test colors (warm vs cool), face vs no-face, text placement'' else []), nl,
     (if ab_element args = ''title'' then ''- Test question vs statement, numbers vs no-numbers, emotional words'' else []), nl,
     (if ab_element args = ''hook'' then ''- Test curiosity gap, shock value, direct benefit statement'' else []), nl,
     nl,
     ''Generate variants now.'']\<close>

definition runABTest ::
  "runtime \<Rightarrow> RunABTestArgs \<Rightarrow> string \<Rightarrow> (exn + json) \<times> event list" where
  "runABTest rt args traceId =
     (case credential rt ''GEMINI_API_KEY'' of
        None \<Rightarrow> (Inl (Error ''GEMINI_API_KEY not found''), [])
      | Some apiKey \<Rightarrow>
          (let prompt = abtest_prompt rt args;
               ev1 = [Log traceId Info ''Running A/B test'', GenerateContent prompt]
           in case generateContent rt prompt of
                Inl e \<Rightarrow> (Inl e, ev1)
              | Inr text \<Rightarrow>
                  (case parseOr rt (JObj [(''variants'', JArr [])]) (match_object text) of
                     Inl e \<Rightarrow> (Inl e, ev1)
                   | Inr JNull \<Rightarrow> (Inl TypeError, ev1)
                   | Inr abTest \<Rightarrow>
                       (Inr abTest, ev1 @ [Log traceId Info ''A/B test variants generated'']))))"

subsection \<open>The dispatcher\<close>

datatype growth_result =
    SEOResult json
  | ThumbnailResult ThumbnailConcepts
  | ScheduleResult Schedule
  | RepurposeResult json
  | ABTestResult json

definition growth_callTool ::
  "runtime \<Rightarrow> string \<Rightarrow> string \<Rightarrow> json option \<Rightarrow> growth_result envelope \<times> event list" where
  "growth_callTool rt traceId name arguments =
     (if name = ''optimize_seo'' then
        reply traceId SEOResult
          (validated OptimizeSEOArgsSchema arguments (\<lambda>args. optimizeSEO rt args traceId))
      else if name = ''generate_thumbnail_concepts'' then
        reply traceId ThumbnailResult
          (validated GenerateThumbnailArgsSchema arguments
             (\<lambda>args. generateThumbnailConcepts rt args traceId))
      else if name = ''optimize_posting_schedule'' then
        reply traceId ScheduleResult
          (validated OptimizeScheduleArgsSchema arguments
             (\<lambda>args. optimizePostingSchedule rt args traceId))
      else if name = ''repurpose_content'' then
        reply traceId RepurposeResult
          (validated RepurposeContentArgsSchema arguments (\<lambda>args. repurposeContent rt args traceId))
      else if name = ''run_ab_test'' then
        reply traceId ABTestResult
          (validated RunABTestArgsSchema arguments (\<lambda>args. runABTest rt args traceId))
      else reply traceId SEOResult (Inl (Error (''Unknown tool: '' @ name)), []))"

section \<open>The specification's reading of the handlers\<close>

text \<open>
  The definitions of this section follow the words of the specification, not the code:
  the samples of one hour of day, the sum of their views and of their engagement, taken
  in the order of the samples, and the mean, the sum divided by the number of samples.
  Sums and quotients are those of doubles.
\<close>

definition hourOf :: "runtime \<Rightarrow> HistoricalPost \<Rightarrow> hourkey" where
  "hourOf rt p = getHours rt (postTime p)"

definition spec_bucket :: "runtime \<Rightarrow> HistoricalPost list \<Rightarrow> hourkey \<Rightarrow> HistoricalPost list" where
  "spec_bucket rt posts h = filter (\<lambda>p. hourOf rt p = h) posts"

definition spec_sum :: "rat list \<Rightarrow> number" where
  "spec_sum vs = foldl (\<lambda>acc v. num_add acc (Finite v)) (Finite 0) vs"

definition totals :: "HistoricalPost list \<Rightarrow> HourData" where
  "totals ps = \<lparr>hd_views = spec_sum (map views ps), hd_engagement = spec_sum (map engagement ps),
                hd_count = length ps\<rparr>"

definition spec_hours :: "runtime \<Rightarrow> HistoricalPost list \<Rightarrow> hourkey set" where
  "spec_hours rt posts = hourOf rt ` set posts"

definition spec_meanViews :: "runtime \<Rightarrow> HistoricalPost list \<Rightarrow> hourkey \<Rightarrow> number" where
  "spec_meanViews rt posts h =
     num_div (spec_sum (map views (spec_bucket rt posts h)))
       (Finite (of_nat (length (spec_bucket rt posts h))))"

definition spec_meanEngagement :: "runtime \<Rightarrow> HistoricalPost list \<Rightarrow> hourkey \<Rightarrow> number" where
  "spec_meanEngagement rt posts h =
     num_div (spec_sum (map engagement (spec_bucket rt posts h)))
       (Finite (of_nat (length (spec_bucket rt posts h))))"

definition ranked :: "runtime \<Rightarrow> HistoricalPost list \<Rightarrow> HourAvg list" where
  "ranked rt posts = sort_by byEngagementDesc (map toAvg (foldl (record_post rt) [] posts))"



text \<open>
  Notions of the proofs: the two constants of the double format, the rationals on the
  grid of the doubles, and the numbers that the sums and means can be (no NaN, a finite
  value on the grid).
\<close>

definition unit_scale :: rat where
  "unit_scale = 2 ^ 1074"

definition overflow_bound :: int where
  "overflow_bound = 2 ^ 2098"

definition on_grid :: "rat \<Rightarrow> bool" where
  "on_grid q = (\<exists>m :: int. q = of_int m / 2 ^ 1074)"

fun regular :: "number \<Rightarrow> bool" where
  "regular (Finite r) = on_grid r"
| "regular NotANumber = False"
| "regular _ = True"

text \<open>An element of the extracted array fails the validation of \<open>ViralIdeaSchema\<close>.\<close>

definition failsValidation :: "runtime \<Rightarrow> json \<Rightarrow> bool" where
  "failsValidation rt idea = (ViralIdeaSchema rt (Some idea) = None)"

text \<open>
  The topics the block of one platform adds to \<open>trends\<close>: none when its request fails
  and, for Reddit, the lower-cased titles pushed until the loop ends or a callback throws.
  A source has failed when its block logs the failure. The blocks of the requested
  platforms run in the order of the code, not of the argument.
\<close>

definition spec_platformTopics :: "runtime \<Rightarrow> string \<Rightarrow> string \<Rightarrow> string list" where
  "spec_platformTopics rt niche p =
     (if p = ''youtube'' then
        (case axiosGet rt youtubeUrl of
           Inl e \<Rightarrow> []
         | Inr response \<Rightarrow> [niche @ '' tutorial'', niche @ '' 2025'', ''best '' @ niche])
      else if p = ''twitter'' then [''#'' @ niche, niche @ '' tips'', niche @ '' secrets'']
      else if p = ''reddit'' then
        (case axiosGet rt (redditUrl niche) of
           Inl e \<Rightarrow> []
         | Inr body \<Rightarrow> (case redditPosts body of
                          Inl e \<Rightarrow> []
                        | Inr posts \<Rightarrow> fst (pushTitles [] posts)))
      else if p = ''google-trends'' then
        [''how to '' @ niche, niche @ '' for beginners'', niche @ '' vs'', niche @ '' mistakes'']
      else [])"

definition spec_sourceFailed :: "runtime \<Rightarrow> string \<Rightarrow> string \<Rightarrow> bool" where
  "spec_sourceFailed rt niche p =
     (if p = ''youtube'' then (case axiosGet rt youtubeUrl of Inl e \<Rightarrow> True | Inr r \<Rightarrow> False)
      else if p = ''reddit'' then
        (case axiosGet rt (redditUrl niche) of
           Inl e \<Rightarrow> True
         | Inr body \<Rightarrow> (case redditPosts body of
                          Inl e \<Rightarrow> True
                        | Inr posts \<Rightarrow> snd (pushTitles [] posts) \<noteq> None))
      else False)"

definition spec_requested :: "string list \<Rightarrow> string list" where
  "spec_requested platforms =
     filter (\<lambda>p. p \<in> set platforms) [''youtube'', ''twitter'', ''reddit'', ''google-trends'']"

subsection \<open>The specification's reading of the exported documents\<close>

text \<open>
  The specification speaks of the first line of a document, of a well-formed edit line and of an
  element that is embedded in, or omitted from, a document.  \<open>contains p s\<close> holds when
  \<open>p\<close> occurs in \<open>s\<close>; \<open>lines_of\<close> splits at line feeds;
  \<open>spec_is_edit_line\<close> accepts an edit-decision line of eight blank-separated fields: an
  event number, a reel, a track, a transition and four timecodes \<open>hh:mm:ss:ff\<close>.
  \<open>spec_fcpxml_head\<close>, \<open>spec_fcpxml_tail\<close> and \<open>spec_premiere_plain\<close> are the texts
  of the two XML templates around the project name when the voiceover elements are left out.
\<close>

fun starts_with :: "string \<Rightarrow> string \<Rightarrow> bool" where
  "starts_with [] s = True"
| "starts_with (p # ps) [] = False"
| "starts_with (p # ps) (c # cs) = (p = c \<and> starts_with ps cs)"

fun contains :: "string \<Rightarrow> string \<Rightarrow> bool" where
  "contains p [] = starts_with p []"
| "contains p (c # cs) = (starts_with p (c # cs) \<or> contains p cs)"

fun split_acc :: "char \<Rightarrow> string \<Rightarrow> string \<Rightarrow> string list" where
  "split_acc sep cur [] = [rev cur]"
| "split_acc sep cur (c # cs) =
     (if c = sep then rev cur # split_acc sep [] cs else split_acc sep (c # cur) cs)"

definition lines_of :: "string \<Rightarrow> string list" where
  "lines_of s = split_acc (CHR 0x0A) [] s"

definition fields_of :: "string \<Rightarrow> string list" where
  "fields_of l = filter (\<lambda>w. w \<noteq> []) (split_acc (CHR '' '') [] l)"

definition is_digit :: "char \<Rightarrow> bool" where
  "is_digit c = (c \<in> set ''0123456789'')"

definition spec_is_timecode :: "string \<Rightarrow> bool" where
  "spec_is_timecode s =
     (case s of
        [h1, h2, c1, m1, m2, c2, s1, s2, c3, f1, f2] \<Rightarrow>
          list_all is_digit [h1, h2, m1, m2, s1, s2, f1, f2] \<and>
          c1 = CHR '':'' \<and> c2 = CHR '':'' \<and> c3 = CHR '':''
      | _ \<Rightarrow> False)"

definition spec_is_edit_line :: "string \<Rightarrow> bool" where
  "spec_is_edit_line l =
     (case fields_of l of
        [event, reel, track, edit, srcIn, srcOut, recIn, recOut] \<Rightarrow>
          event \<noteq> [] \<and> list_all is_digit event \<and>
          track \<in> set [''V'', ''A'', ''A2'', ''AA'', ''B''] \<and>
          edit \<in> set [''C'', ''D'', ''K''] \<and>
          list_all spec_is_timecode [srcIn, srcOut, recIn, recOut]
      | _ \<Rightarrow> False)"

definition spec_fcpxml_head :: string where
  \<open>spec_fcpxml_head = concat
    [''<?xml version="1.0" encoding="UTF-8"?>'', nl,
     ''<!DOCTYPE fcpxml>'', nl,
     ''<fcpxml version="1.9">'', nl,
     ''  <resources>'', nl,
     ''    <format id="r1" name="FFVideoFormat1080p30" frameDuration="1001/30000s" width="1920" height="1080"/>'', nl,
     ''    '', nl,
     ''  </resources>'', nl,
     ''  <library>'', nl,
     ''    <event name="AI Generated Video">'', nl,
     ''      <project name="'']\<close>

definition spec_fcpxml_tail :: string where
  \<open>spec_fcpxml_tail = concat
    [''">'', nl,
     ''        <sequence format="r1" duration="60s">'', nl,
     ''          <spine>'', nl,
     ''            '', nl,
     ''            <!-- Add video clips here based on storyboard -->'', nl,
     ''          </spine>'', nl,
     ''        </sequence>'', nl,
     ''      </project>'', nl,
     ''    </event>'', nl,
     ''  </library>'', nl,
     ''</fcpxml>'']\<close>

definition spec_premiere_plain :: string where
  \<open>spec_premiere_plain = concat
    [''<?xml version="1.0" encoding="UTF-8"?>'', nl,
     ''<xmeml version="5">'', nl,
     ''  <sequence>'', nl,
     ''    <name>AI Generated Video</name>'', nl,
     ''    <duration>1800</duration>'', nl,
     ''    <rate>'', nl,
     ''      <timebase>30</timebase>'', nl,
     ''    </rate>'', nl,
     ''    <media>'', nl,
     ''      <audio>'', nl,
     ''        '', nl,
     ''      </audio>'', nl,
     ''    </media>'', nl,
     ''  </sequence>'', nl,
     ''</xmeml>'']\<close>

subsection \<open>The specification's reading of the argument constraints\<close>

text \<open>
  The constraints a schema declares, in the words of the specification: a required field
  of a given type, a value of an enumeration, a number in a range, an array of
  well-formed elements, an object of well-formed fields; an optional field may be absent.
  \<open>None\<close> is a missing field.
\<close>

definition spec_string :: "json option \<Rightarrow> bool" where
  "spec_string v = (case v of Some (JStr s) \<Rightarrow> True | _ \<Rightarrow> False)"

definition spec_number :: "(rat \<Rightarrow> bool) \<Rightarrow> json option \<Rightarrow> bool" where
  "spec_number in_range v = (case v of Some (JNum n) \<Rightarrow> in_range n | _ \<Rightarrow> False)"

definition spec_boolean :: "json option \<Rightarrow> bool" where
  "spec_boolean v = (case v of Some (JBool b) \<Rightarrow> True | _ \<Rightarrow> False)"

definition spec_enum :: "string list \<Rightarrow> json option \<Rightarrow> bool" where
  "spec_enum vals v = (case v of Some (JStr s) \<Rightarrow> s \<in> set vals | _ \<Rightarrow> False)"

definition spec_array :: "(json option \<Rightarrow> bool) \<Rightarrow> json option \<Rightarrow> bool" where
  "spec_array el v = (case v of Some (JArr xs) \<Rightarrow> list_all (\<lambda>x. el (Some x)) xs | _ \<Rightarrow> False)"

definition spec_object :: "((string \<Rightarrow> json option) \<Rightarrow> bool) \<Rightarrow> json option \<Rightarrow> bool" where
  "spec_object props v = (case v of Some (JObj kvs) \<Rightarrow> props (map_of kvs) | _ \<Rightarrow> False)"

definition spec_optional :: "(json option \<Rightarrow> bool) \<Rightarrow> json option \<Rightarrow> bool" where
  "spec_optional c v = (v = None \<or> c v)"

text \<open>
  The constraints that the schema of each tool declares, tool by tool: the raw arguments
  are an object whose fields are as follows.
\<close>

definition spec_generate_viral_ideas_args :: "json option \<Rightarrow> bool" where
  "spec_generate_viral_ideas_args =
     spec_object (\<lambda>get.
       spec_string (get ''niche'') \<and>
       spec_enum [''youtube'', ''tiktok'', ''instagram-reels'', ''youtube-shorts'', ''all'']
            (get ''platform'') \<and>
       spec_number (\<lambda>c. is_int c \<and> 10 \<le> c \<and> c \<le> 50) (get ''count'') \<and>
       spec_optional (spec_enum [''24h'', ''7d'', ''30d'']) (get ''trendWindow''))"

definition spec_analyze_trending_topics_args :: "json option \<Rightarrow> bool" where
  "spec_analyze_trending_topics_args =
     spec_object (\<lambda>get.
       spec_string (get ''niche'') \<and>
       spec_array (spec_enum [''youtube'', ''tiktok'', ''twitter'', ''reddit'', ''google-trends''])
            (get ''platforms''))"

definition spec_predict_virality_args :: "json option \<Rightarrow> bool" where
  "spec_predict_virality_args =
     spec_object (\<lambda>get.
       spec_string (get ''title'') \<and>
       spec_string (get ''description'') \<and>
       spec_enum [''youtube'', ''tiktok'', ''instagram-reels'', ''youtube-shorts''] (get ''platform'') \<and>
       spec_string (get ''niche''))"

definition spec_generate_video_script_args :: "json option \<Rightarrow> bool" where
  "spec_generate_video_script_args =
     spec_object (\<lambda>get.
       spec_object (\<lambda>idea.
              spec_string (idea ''title'') \<and>
              spec_string (idea ''hook'') \<and>
              spec_enum [''youtube'', ''tiktok'', ''instagram-reels'', ''youtube-shorts''] (idea ''platform'') \<and>
              spec_number (\<lambda>d. True) (idea ''duration'') \<and>
              spec_optional (spec_array (spec_object (\<lambda>item.
                  spec_string (item ''section'') \<and>
                  spec_number (\<lambda>d. True) (item ''duration'') \<and>
                  spec_array spec_string (item ''keyPoints'')))) (idea ''outline''))
            (get ''idea'') \<and>
       spec_optional (spec_enum [''energetic'', ''educational'', ''casual'', ''professional'', ''humorous''])
            (get ''tone'') \<and>
       spec_optional spec_boolean (get ''includeVoiceover'') \<and>
       spec_optional spec_boolean (get ''includeBRoll''))"

definition spec_generate_storyboard_args :: "json option \<Rightarrow> bool" where
  "spec_generate_storyboard_args =
     spec_object (\<lambda>get.
       spec_string (get ''script'') \<and>
       spec_enum [''youtube'', ''tiktok'', ''instagram-reels'', ''youtube-shorts''] (get ''platform'') \<and>
       spec_optional (spec_enum [''talking-head'', ''b-roll-heavy'', ''screen-record'', ''animated'', ''hybrid''])
            (get ''visualStyle''))"

definition spec_generate_voiceover_args :: "json option \<Rightarrow> bool" where
  "spec_generate_voiceover_args =
     spec_object (\<lambda>get.
       spec_string (get ''script'') \<and>
       spec_optional spec_string (get ''voice'') \<and>
       spec_optional (spec_enum [''elevenlabs'', ''huggingface'']) (get ''provider'') \<and>
       spec_optional (spec_enum [''mp3'', ''wav'']) (get ''format''))"

definition spec_export_editing_project_args :: "json option \<Rightarrow> bool" where
  "spec_export_editing_project_args =
     spec_object (\<lambda>get.
       spec_object (\<lambda>storyboard. True) (get ''storyboard'') \<and>
       spec_optional spec_string (get ''voiceoverPath'') \<and>
       spec_optional (spec_array spec_string) (get ''bRollSuggestions'') \<and>
       spec_enum [''fcpxml'', ''premiere-xml'', ''davinci-xml''] (get ''format''))"

definition spec_optimize_seo_args :: "json option \<Rightarrow> bool" where
  "spec_optimize_seo_args =
     spec_object (\<lambda>get.
       spec_string (get ''title'') \<and>
       spec_string (get ''description'') \<and>
       spec_enum [''youtube'', ''tiktok'', ''instagram''] (get ''platform'') \<and>
       spec_string (get ''niche'') \<and>
       spec_optional spec_string (get ''targetAudience''))"

definition spec_generate_thumbnail_concepts_args :: "json option \<Rightarrow> bool" where
  "spec_generate_thumbnail_concepts_args =
     spec_object (\<lambda>get.
       spec_string (get ''title'') \<and>
       spec_enum [''youtube'', ''tiktok'', ''instagram''] (get ''platform'') \<and>
       spec_optional spec_string (get ''niche'') \<and>
       spec_optional (spec_enum [''minimalist'', ''bold-text'', ''reaction-face'', ''before-after'', ''mystery''])
            (get ''style''))"

definition spec_optimize_posting_schedule_args :: "json option \<Rightarrow> bool" where
  "spec_optimize_posting_schedule_args =
     spec_object (\<lambda>get.
       spec_enum [''youtube'', ''tiktok'', ''instagram'', ''twitter''] (get ''platform'') \<and>
       spec_string (get ''timezone'') \<and>
       spec_optional (spec_object (\<lambda>audience.
              spec_optional spec_string (audience ''ageRange'') \<and>
              spec_optional (spec_array spec_string) (audience ''topCountries'') \<and>
              spec_optional (spec_object (\<lambda>gender. True)) (audience ''gender'')))
            (get ''audienceDemographics'') \<and>
       spec_optional (spec_array (spec_object (\<lambda>post.
              spec_string (post ''postTime'') \<and>
              spec_number (\<lambda>n. True) (post ''views'') \<and>
              spec_number (\<lambda>n. True) (post ''engagement''))))
            (get ''historicalPerformance''))"

definition spec_repurpose_content_args :: "json option \<Rightarrow> bool" where
  "spec_repurpose_content_args =
     spec_object (\<lambda>get.
       spec_string (get ''videoTranscript'') \<and>
       spec_number (\<lambda>d. True) (get ''videoDuration'') \<and>
       spec_array (spec_enum [''tiktok'', ''instagram-reels'', ''youtube-shorts'', ''twitter''])
            (get ''targetPlatforms'') \<and>
       spec_optional (spec_number (\<lambda>d. True)) (get ''clipDuration''))"

definition spec_run_ab_test_args :: "json option \<Rightarrow> bool" where
  "spec_run_ab_test_args =
     spec_object (\<lambda>get.
       spec_enum [''thumbnail'', ''title'', ''hook''] (get ''element'') \<and>
       spec_string (get ''original'') \<and>
       spec_optional (spec_number (\<lambda>n. is_int n \<and> 2 \<le> n \<and> n \<le> 5)) (get ''variants'') \<and>
       spec_enum [''youtube'', ''tiktok'', ''instagram''] (get ''platform''))"

section \<open>Concrete inputs\<close>

text \<open>
  A runtime and arguments on which the theorems below are evaluated. The date parser of
  the example knows three local timestamps; every other string is an invalid date.
\<close>

definition example_getHours :: "string \<Rightarrow> hourkey" where
  "example_getHours s =
     (if s = ''2025-03-03T09:15:00'' then Hour 9
      else if s = ''2025-03-04T09:40:00'' then Hour 9
      else if s = ''2025-03-05T14:05:00'' then Hour 14
      else NaN)"

definition example_runtime :: runtime where
  "example_runtime =
     \<lparr>env = (\<lambda>k. if k = ''GEMINI_API_KEY'' then Some ''secret'' else None),
      nowISO = ''2025-03-06T12:00:00.000Z'',
      getHours = example_getHours,
      jsonParse = (\<lambda>s. None),
      numberToString = (\<lambda>q. digits (nat \<lfloor>q\<rfloor>)),
      valueToString = (\<lambda>v. ''[object Object]''),
      isDatetime = (\<lambda>s. True),
      random = (\<lambda>i. 0),
      generateContent = (\<lambda>p. Inr ''I cannot help with that.''),
      axiosGet = (\<lambda>u. Inl (ProviderError ''Network Error'')),
      axiosPost = (\<lambda>u b. Inl (ProviderError ''Network Error'')),
      writeFileSync = (\<lambda>p c. None)\<rparr>"

definition example_posts :: "HistoricalPost list" where
  "example_posts =
     [\<lparr>postTime = ''2025-03-03T09:15:00'', views = 100, engagement = 50\<rparr>,
      \<lparr>postTime = ''2025-03-04T09:40:00'', views = 300, engagement = 70\<rparr>,
      \<lparr>postTime = ''2025-03-05T14:05:00'', views = 50, engagement = 90\<rparr>]"


definition example_one_post_args :: OptimizeScheduleArgs where
  "example_one_post_args =
     \<lparr>os_platform = ''youtube'', os_timezone = ''Europe/Paris'',
      os_historicalPerformance =
        Some [\<lparr>postTime = ''2025-03-03T09:15:00'', views = 100, engagement = 50\<rparr>]\<rparr>"

definition example_storyboard_raw :: json where
  "example_storyboard_raw =
     JObj [(''script'', JStr ''Open on a kitchen counter.''), (''platform'', JStr ''tiktok'')]"

definition example_script_raw :: json where
  "example_script_raw =
     JObj [(''idea'', JObj [(''title'', JStr ''Five knife skills''),
                            (''hook'', JStr ''You are holding it wrong''),
                            (''platform'', JStr ''youtube''),
                            (''duration'', JNum 480)])]"

definition example_ideas_raw :: json where
  "example_ideas_raw =
     JObj [(''niche'', JStr ''cooking''), (''platform'', JStr ''youtube''), (''count'', JNum 10)]"

definition example_virality_raw :: json where
  "example_virality_raw =
     JObj [(''title'', JStr ''Five knife skills''),
           (''description'', JStr ''Knife basics for home cooks''),
           (''platform'', JStr ''tiktok''), (''niche'', JStr ''cooking'')]"

definition example_seo_raw :: json where
  "example_seo_raw =
     JObj [(''title'', JStr ''Five knife skills''),
           (''description'', JStr ''Knife basics for home cooks''),
           (''platform'', JStr ''youtube''), (''niche'', JStr ''cooking'')]"

definition example_thumbnail_raw :: json where
  "example_thumbnail_raw =
     JObj [(''title'', JStr ''Five knife skills''), (''platform'', JStr ''youtube'')]"

definition example_repurpose_raw :: json where
  "example_repurpose_raw =
     JObj [(''videoTranscript'', JStr ''Today we sharpen a knife.''), (''videoDuration'', JNum 600),
           (''targetPlatforms'', JArr [JStr ''tiktok''])]"

definition example_abtest_raw :: json where
  "example_abtest_raw =
     JObj [(''element'', JStr ''title''), (''original'', JStr ''Five knife skills''),
           (''platform'', JStr ''youtube'')]"

definition example_voiceover_raw :: json where
  "example_voiceover_raw = JObj [(''script'', JStr ''Today we sharpen a knife.'')]"

definition example_elevenlabs_raw :: json where
  "example_elevenlabs_raw =
     JObj [(''script'', JStr ''Today we sharpen a knife.''), (''provider'', JStr ''elevenlabs'')]"

definition example_invalid_raw :: json where
  "example_invalid_raw = JObj [(''count'', JNum 51), (''platform'', JStr ''facebook'')]"

definition no_credentials_runtime :: runtime where
  "no_credentials_runtime = example_runtime\<lparr>env := (\<lambda>k. None)\<rparr>"

definition example_ideas_24h_raw :: json where
  "example_ideas_24h_raw =
     JObj [(''niche'', JStr ''cooking''), (''platform'', JStr ''youtube''), (''count'', JNum 10),
           (''trendWindow'', JStr ''24h'')]"

definition example_ideas_30d_raw :: json where
  "example_ideas_30d_raw =
     JObj [(''niche'', JStr ''cooking''), (''platform'', JStr ''youtube''), (''count'', JNum 10),
           (''trendWindow'', JStr ''30d'')]"

definition example_idea :: "string \<Rightarrow> rat \<Rightarrow> json" where
  "example_idea i score =
     JObj [(''id'', JStr i),
           (''title'', JStr ''Five knife skills to learn''),
           (''hook'', JStr ''You are holding it wrong''),
           (''platform'', JStr ''youtube''),
           (''category'', JStr ''tutorial''),
           (''viralScore'', JNum score),
           (''trendingTopics'', JArr [JStr ''knife skills'']),
           (''targetAudience'', JStr ''home cooks''),
           (''thumbnailConcept'', JStr ''a chef knife on a board''),
           (''scriptOutline'',
              JArr [JObj [(''section'', JStr ''Hook''), (''duration'', JNum 5),
                          (''keyPoints'', JArr [JStr ''grip''])]]),
           (''estimatedViews'',
              JObj [(''min'', JNum 10000), (''max'', JNum 100000), (''confidence'', JNum (3 / 4))]),
           (''seo'',
              JObj [(''tags'', JArr [JStr ''knife'']), (''description'', JStr ''Knife skills''),
                    (''keywords'', JArr [JStr ''knife''])]),
           (''generatedAt'', JStr ''2025-03-06T12:00:00.000Z'')]"

definition example_ideas :: "json list" where
  "example_ideas =
     [example_idea ''a'' 85, example_idea ''b'' 150, example_idea ''c'' 90, JStr ''not an idea'',
      example_idea ''e'' 70]"

definition ideas_runtime :: runtime where
  "ideas_runtime =
     example_runtime\<lparr>generateContent := (\<lambda>p. Inr ''Here are the ideas: [...] Enjoy!''),
                     jsonParse := (\<lambda>s. if s = ''[...]'' then Some (JArr example_ideas) else None)\<rparr>"

definition reddit_runtime :: runtime where
  "reddit_runtime =
     example_runtime\<lparr>axiosGet :=
       (\<lambda>u. if u = redditUrl ''cooking''
             then Inr (JObj [(''data'', JObj [(''children'',
                    JArr [JObj [(''data'', JObj [(''title'', JStr ''Knife Skills'')])],
                          JObj [(''data'', JObj [(''title'', JStr ''How to cooking'')])]])])])
             else Inl (ProviderError ''Network Error''))\<rparr>"

definition reddit_partial_runtime :: runtime where
  "reddit_partial_runtime =
     example_runtime\<lparr>axiosGet :=
       (\<lambda>u. Inr (JObj [(''data'', JObj [(''children'',
                    JArr [JObj [(''data'', JObj [(''title'', JStr ''knife skills'')])],
                          JNull])])]))\<rparr>"

definition example_export_args :: "string \<Rightarrow> string option \<Rightarrow> ExportProjectArgs" where
  "example_export_args fmt path =
     \<lparr>ex_storyboard = [(''title'', JStr ''Knife skills'')], ex_voiceoverPath = path,
      ex_bRollSuggestions = None, ex_format = fmt\<rparr>"




section \<open>Verification: lemmas on the shared pieces\<close>

lemma dropWhile_neq_Nil_iff: "dropWhile (\<lambda>c. c \<noteq> x) xs = [] \<longleftrightarrow> x \<notin> set xs"
  by (induction xs) auto

lemma match_between_no_open:
  assumes "l \<notin> set s"
  shows "match_between l r s = None"
proof -
  have "dropWhile (\<lambda>c. c \<noteq> l) s = []"
    using assms dropWhile_neq_Nil_iff[of l s] by blast
  then show ?thesis unfolding match_between_def by (simp only: list.case)
qed

lemma dropWhile_keeps_suffix: "\<exists>as. dropWhile (\<lambda>c. c \<noteq> l) (pre @ l # rest) = as @ l # rest"
proof (induction pre)
  case Nil
  show ?case by (simp add: exI[of _ "[]"])
next
  case (Cons a pre)
  show ?case
  proof (cases "a = l")
    case True
    then show ?thesis by (simp add: exI[of _ "l # pre"])
  next
    case False
    with Cons show ?thesis by simp
  qed
qed

lemma match_between_None_iff:
  "match_between l r s = None \<longleftrightarrow> \<not> (\<exists>pre mid post. s = pre @ l # mid @ r # post)"
proof
  assume none: "match_between l r s = None"
  show "\<not> (\<exists>pre mid post. s = pre @ l # mid @ r # post)"
  proof
    assume "\<exists>pre mid post. s = pre @ l # mid @ r # post"
    then obtain pre mid post where t: "s = pre @ l # mid @ r # post" by blast
    obtain as where dw: "dropWhile (\<lambda>c. c \<noteq> l) s = as @ l # mid @ r # post"
      unfolding t using dropWhile_keeps_suffix[of l pre "mid @ r # post"] by blast
    obtain a zs where az: "as @ l # mid @ r # post = a # zs" by (cases as) auto
    then have "r \<in> set zs" by (cases as) auto
    then have "r \<in> set (rev zs)" by simp
    then have nz: "dropWhile (\<lambda>c. c \<noteq> r) (rev zs) \<noteq> []"
      using dropWhile_neq_Nil_iff[of r "rev zs"] by blast
    from dw az have "dropWhile (\<lambda>c. c \<noteq> l) s = a # zs" by simp
    then have "match_between l r s \<noteq> None"
      using nz by (cases "dropWhile (\<lambda>c. c \<noteq> r) (rev zs)") (simp_all add: match_between_def)
    with none show False by simp
  qed
next
  assume no: "\<not> (\<exists>pre mid post. s = pre @ l # mid @ r # post)"
  show "match_between l r s = None"
  proof (cases "dropWhile (\<lambda>c. c \<noteq> l) s")
    case Nil
    then show ?thesis unfolding match_between_def by (simp only: list.case)
  next
    case (Cons a rest)
    have "\<not> hd (dropWhile (\<lambda>c. c \<noteq> l) s) \<noteq> l"
      by (rule hd_dropWhile) (simp only: Cons list.distinct not_False_eq_True)
    then have a: "a = l" by (simp only: Cons list.sel not_not)
    have "s = takeWhile (\<lambda>c. c \<noteq> l) s @ dropWhile (\<lambda>c. c \<noteq> l) s"
      by (simp only: takeWhile_dropWhile_id)
    then have s: "s = takeWhile (\<lambda>c. c \<noteq> l) s @ l # rest"
      by (simp only: Cons a)
    have "r \<notin> set rest"
    proof
      assume "r \<in> set rest"
      then obtain mid post where "rest = mid @ r # post" using split_list by fastforce
      with s have "s = takeWhile (\<lambda>c. c \<noteq> l) s @ l # mid @ r # post" by simp
      with no show False by blast
    qed
    then have "r \<notin> set (rev rest)" by simp
    then have "dropWhile (\<lambda>c. c \<noteq> r) (rev rest) = []"
      using dropWhile_neq_Nil_iff[of r "rev rest"] by blast
    with Cons show ?thesis unfolding match_between_def by (simp only: list.case)
  qed
qed

lemma z_enum_mem: "z_enum vals v = Some s \<Longrightarrow> s \<in> set vals \<and> v = Some (JStr s)"
  by (auto simp: z_enum_def split: option.splits json.splits if_splits)

lemma z_object_Some:
  "z_object props v = Some a \<Longrightarrow> \<exists>kvs. v = Some (JObj kvs) \<and> props (map_of kvs) = Some a"
  by (auto simp: z_object_def split: option.splits json.splits)

lemma IdeaArgSchema_platform:
  assumes "IdeaArgSchema v = Some i"
  shows "id_platform i \<in> set [''youtube'', ''tiktok'', ''instagram-reels'', ''youtube-shorts'']"
proof -
  from assms obtain kvs where
    "(do {
     t \<leftarrow> z_string (map_of kvs ''title'');
     h \<leftarrow> z_string (map_of kvs ''hook'');
     p \<leftarrow> z_enum [''youtube'', ''tiktok'', ''instagram-reels'', ''youtube-shorts''] (map_of kvs ''platform'');
     d \<leftarrow> z_number (map_of kvs ''duration'');
     ol \<leftarrow> z_optional (z_array OutlineItemSchema) (map_of kvs ''outline'');
     Some \<lparr>id_title = t, id_hook = h, id_platform = p, id_duration = d, id_outline = ol\<rparr> }) = Some i"
    unfolding IdeaArgSchema_def by (auto dest!: z_object_Some)
  then obtain p where "z_enum [''youtube'', ''tiktok'', ''instagram-reels'', ''youtube-shorts''] (map_of kvs ''platform'') = Some p"
    and "id_platform i = p"
    by (auto split: bind_splits)
  then show ?thesis using z_enum_mem by blast
qed

lemma script_args_spec:
  assumes "GenerateScriptArgsSchema raw = Some args"
  shows "\<exists>spec. platformSpecs (id_platform (gs_idea args)) = Some spec"
proof -
  from assms obtain kvs i where "IdeaArgSchema (map_of kvs ''idea'') = Some i" and "gs_idea args = i"
    unfolding GenerateScriptArgsSchema_def by (auto dest!: z_object_Some split: bind_splits)
  with IdeaArgSchema_platform[of "map_of kvs ''idea''" i] show ?thesis
    by (auto simp: platformSpecs_def)
qed

section \<open>Verification: the arithmetic of doubles\<close>



lemma double_of_alt:
  "double_of q =
     (let s = \<bar>q\<bar> * unit_scale;
          k = nat (bitlen \<lfloor>s\<rfloor> - 53);
          m = round_half_even (s / 2 ^ k) * 2 ^ k
      in if overflow_bound \<le> m then (if 0 < q then Infinity else MinusInfinity)
         else Finite (sgn q * of_int m / unit_scale))"
  unfolding double_of_def unit_scale_def overflow_bound_def ..

lemma on_grid_alt: "on_grid q = (\<exists>m :: int. q = of_int m / unit_scale)"
  unfolding on_grid_def unit_scale_def ..

lemma on_grid_int: "on_grid (of_int m / unit_scale)"
  unfolding on_grid_alt by blast

lemma on_grid_signed: "on_grid (sgn q * of_int m / unit_scale)"
proof -
  consider "q = 0" | "0 < q" | "q < 0" by linarith
  then show ?thesis
  proof cases
    case 1
    have "sgn q * of_int m / unit_scale = of_int 0 / unit_scale" using 1 by simp
    then show ?thesis by (simp only: on_grid_int)
  next
    case 2
    have "sgn q * of_int m / unit_scale = of_int m / unit_scale" using 2 by simp
    then show ?thesis by (simp only: on_grid_int)
  next
    case 3
    have "sgn q * of_int m / unit_scale = of_int (- m) / unit_scale" using 3 by simp
    then show ?thesis by (simp only: on_grid_int)
  qed
qed

lemma double_of_cases:
  "double_of q = Infinity \<or> double_of q = MinusInfinity \<or> (\<exists>r. double_of q = Finite r \<and> on_grid r)"
proof -
  define s where "s = \<bar>q\<bar> * unit_scale"
  define k where "k = nat (bitlen \<lfloor>s\<rfloor> - 53)"
  define m where "m = round_half_even (s / 2 ^ k) * 2 ^ k"
  have d: "double_of q =
     (if overflow_bound \<le> m then (if 0 < q then Infinity else MinusInfinity)
      else Finite (sgn q * of_int m / unit_scale))"
    unfolding double_of_alt Let_def s_def[symmetric] k_def[symmetric] m_def[symmetric] ..
  show ?thesis
  proof (cases "overflow_bound \<le> m")
    case True
    then show ?thesis unfolding d by simp
  next
    case False
    then have "double_of q = Finite (sgn q * of_int m / unit_scale)" unfolding d by simp
    with on_grid_signed[of q m] show ?thesis by blast
  qed
qed

lemma double_of_0: "double_of 0 = Finite 0"
  unfolding double_of_alt Let_def
  by (simp add: round_half_even_def overflow_bound_def del: power_numeral)

lemma double_of_minus: "double_of (- q) = num_neg (double_of q)"
proof (cases "q = 0")
  case True
  then show ?thesis by (simp add: double_of_0)
next
  case False
  then have "(0 < - q) = (\<not> 0 < q)" by auto
  then show ?thesis
    unfolding double_of_alt Let_def by simp
qed








lemma regular_double_of: "regular (double_of q)"
  using double_of_cases[of q] by auto

lemma add_not_nan: "a \<noteq> NotANumber \<Longrightarrow> num_add a (Finite v) \<noteq> NotANumber"
proof (cases a)
  case (Finite x)
  with double_of_cases[of "x + v"] show ?thesis by auto
qed simp_all

lemma round_half_even_int: "round_half_even (of_int j) = j"
  by (simp add: round_half_even_def)

lemma double_of_nat_small:
  assumes "0 < n" and "n < 2 ^ 53"
  shows "double_of (of_int n) = Finite (of_int n)"
proof -
  define a :: nat where "a = 1074"
  have U: "unit_scale = 2 ^ a" by (simp add: unit_scale_def a_def del: power_numeral)
  have O: "overflow_bound = 2 ^ 53 * 2 ^ 971 * 2 ^ a"
    unfolding overflow_bound_def a_def power_add[symmetric] by simp
  define s :: rat where "s = \<bar>of_int n\<bar> * unit_scale"
  have s: "s = of_int (n * 2 ^ a)" using assms(1) by (simp add: s_def U)
  have fl: "\<lfloor>s\<rfloor> = n * 2 ^ a" unfolding s by (rule floor_of_int)
  have bl: "bitlen (n * 2 ^ a) = bitlen n + int a"
    using assms(1) by (rule bitlen_pow2)
  have b1: "1 \<le> bitlen n" using assms(1) by (simp add: bitlen_alt_def)
  have b53: "bitlen n \<le> 53"
  proof (rule ccontr)
    assume "\<not> bitlen n \<le> 53"
    then have "53 \<le> bitlen n - 1" by simp
    then have "(2::int) ^ 53 \<le> 2 ^ nat (bitlen n - 1)"
      by (intro power_increasing) simp_all
    with bitlen_bounds[OF assms(1)] assms(2) show False by linarith
  qed
  define k where "k = nat (bitlen \<lfloor>s\<rfloor> - 53)"
  have a53: "53 \<le> a" by (simp add: a_def)
  have k: "int k = bitlen n + int a - 53" using b1 a53 by (simp add: k_def fl bl)
  then have ka: "k \<le> a" using b53 by simp
  define j where "j = n * 2 ^ (a - k)"
  have "(2::int) ^ a = 2 ^ (a - k) * 2 ^ k"
    using ka by (simp add: power_add[symmetric])
  then have nk: "n * 2 ^ a = j * 2 ^ k" by (simp add: j_def)
  have "s / 2 ^ k = of_int j"
    unfolding s nk by simp
  then have r: "round_half_even (s / 2 ^ k) = j" by (simp add: round_half_even_int)
  define m where "m = round_half_even (s / 2 ^ k) * 2 ^ k"
  have m: "m = n * 2 ^ a" by (simp add: m_def r nk)
  have "n * 2 ^ a < 2 ^ 53 * 2 ^ a" using assms(2) by simp
  also have "\<dots> \<le> 2 ^ 53 * 2 ^ 971 * 2 ^ a" by simp
  finally have no: "\<not> overflow_bound \<le> m" unfolding O m by simp
  have "double_of (of_int n) =
     (if overflow_bound \<le> m then (if (0::rat) < of_int n then Infinity else MinusInfinity)
      else Finite (sgn (of_int n) * of_int m / unit_scale))"
    unfolding double_of_alt Let_def s_def[symmetric] k_def[symmetric] m_def[symmetric] ..
  also have "\<dots> = Finite (sgn (of_int n) * of_int m / unit_scale)" using no by simp
  also have "sgn (of_int n :: rat) * of_int m / unit_scale = of_int n"
    using assms(1) by (simp add: m U)
  finally show ?thesis .
qed

lemma double_of_int:
  assumes "\<bar>n\<bar> < 2 ^ 53"
  shows "double_of (of_int n) = Finite (of_int n)"
proof -
  consider "n = 0" | "0 < n" | "n < 0" by linarith
  then show ?thesis
  proof cases
    case 1 then show ?thesis by (simp add: double_of_0)
  next
    case 2 with assms show ?thesis by (simp add: double_of_nat_small)
  next
    case 3
    with assms have "double_of (of_int (- n)) = Finite (of_int (- n))"
      by (intro double_of_nat_small) simp_all
    then have "double_of (- of_int n) = Finite (- of_int n)" by simp
    then show ?thesis
      unfolding double_of_minus by (cases "double_of (of_int n)") simp_all
  qed
qed



section \<open>Verification: the posting schedule\<close>

lemma map_of_obj_set: "map_of (obj_set k d acc) = (map_of acc)(k \<mapsto> d)"
  by (induction acc) (auto simp: fun_upd_twist)

lemma keys_obj_set: "fst ` set (obj_set k d acc) = insert k (fst ` set acc)"
proof (induction acc)
  case Nil
  show ?case by simp
next
  case (Cons e acc)
  obtain k' d' where e: "e = (k', d')" by (cases e)
  show ?case unfolding e using Cons.IH by (simp add: insert_commute)
qed

lemma key_before_trans: "key_before a b \<Longrightarrow> key_before b c \<Longrightarrow> key_before a c"
  by (cases a; cases b; cases c) auto

lemma key_before_total: "a \<noteq> b \<Longrightarrow> \<not> key_before a b \<Longrightarrow> key_before b a"
  by (cases a; cases b) auto

lemma key_before_irrefl: "\<not> key_before a a"
  by (cases a) auto

lemma sorted_obj_set:
  "sorted_wrt key_before (map fst acc) \<Longrightarrow> sorted_wrt key_before (map fst (obj_set k d acc))"
proof (induction acc)
  case Nil
  then show ?case by simp
next
  case (Cons e acc)
  obtain k' d' where e: "e = (k', d')" by (cases e)
  show ?case
  proof (cases "k = k'")
    case True
    with Cons.prems e show ?thesis by simp
  next
    case ne: False
    show ?thesis
    proof (cases "key_before k k'")
      case True
      with Cons.prems e ne show ?thesis
        by (auto intro: key_before_trans)
    next
      case False
      then have kk: "key_before k' k" using ne key_before_total by blast
      have "\<forall>x \<in> fst ` set (obj_set k d acc). key_before k' x"
        using Cons.prems e kk unfolding keys_obj_set by auto
      with Cons e ne False show ?thesis by auto
    qed
  qed
qed

lemma sorted_keys_distinct: "sorted_wrt key_before ks \<Longrightarrow> distinct ks"
  by (induction ks) (auto simp: key_before_irrefl)

lemma spec_bucket_snoc:
  "spec_bucket rt (ps @ [p]) h = spec_bucket rt ps h @ (if hourOf rt p = h then [p] else [])"
  by (simp add: spec_bucket_def)

lemma spec_sum_Nil: "spec_sum [] = Finite 0"
  by (simp add: spec_sum_def)

lemma spec_sum_snoc: "spec_sum (vs @ [v]) = num_add (spec_sum vs) (Finite v)"
  by (simp add: spec_sum_def)

lemma totals_snoc:
  "totals (ps @ [p]) = \<lparr>hd_views = num_add (hd_views (totals ps)) (Finite (views p)),
      hd_engagement = num_add (hd_engagement (totals ps)) (Finite (engagement p)),
      hd_count = hd_count (totals ps) + 1\<rparr>"
  by (simp add: totals_def spec_sum_snoc)

lemma totals_Nil: "totals [] = \<lparr>hd_views = Finite 0, hd_engagement = Finite 0, hd_count = 0\<rparr>"
  by (simp add: totals_def spec_sum_Nil)

lemma map_of_record_post:
  "map_of (record_post rt acc p) =
     (map_of acc)(hourOf rt p \<mapsto>
        (let cur = (case map_of acc (hourOf rt p) of
                      None \<Rightarrow> \<lparr>hd_views = Finite 0, hd_engagement = Finite 0, hd_count = 0\<rparr>
                    | Some d \<Rightarrow> d)
         in \<lparr>hd_views = num_add (hd_views cur) (Finite (views p)),
             hd_engagement = num_add (hd_engagement cur) (Finite (engagement p)),
             hd_count = hd_count cur + 1\<rparr>))"
  by (simp add: record_post_def Let_def map_of_obj_set hourOf_def)

lemma keys_record_post:
  "fst ` set (record_post rt acc p) = insert (hourOf rt p) (fst ` set acc)"
  unfolding record_post_def Let_def hourOf_def by (rule keys_obj_set)

lemma sorted_record_post:
  "sorted_wrt key_before (map fst acc) \<Longrightarrow> sorted_wrt key_before (map fst (record_post rt acc p))"
  unfolding record_post_def Let_def by (rule sorted_obj_set)

lemma fold_buckets:
  "map_of (foldl (record_post rt) [] posts) h =
     (if spec_bucket rt posts h = [] then None else Some (totals (spec_bucket rt posts h)))"
proof (induction posts arbitrary: h rule: rev_induct)
  case Nil
  then show ?case by (simp add: spec_bucket_def)
next
  case (snoc p ps)
  show ?case
  proof (cases "hourOf rt p = h")
    case True
    then show ?thesis
      using snoc[of h]
      by (auto simp: map_of_record_post Let_def spec_bucket_snoc totals_snoc totals_Nil
               split: option.splits)
  next
    case False
    then show ?thesis
      using snoc[of h]
      by (auto simp: map_of_record_post spec_bucket_snoc)
  qed
qed

lemma fold_sorted: "sorted_wrt key_before (map fst (foldl (record_post rt) [] posts))"
  by (induction posts rule: rev_induct) (simp_all add: sorted_record_post)

lemma fold_keys: "fst ` set (foldl (record_post rt) [] posts) = hourOf rt ` set posts"
  by (induction posts rule: rev_induct) (simp_all add: keys_record_post)

lemma set_insert_by: "set (insert_by le x xs) = insert x (set xs)"
  by (induction xs) auto

lemma set_sort_by: "set (sort_by le xs) = set xs"
  unfolding sort_by_def by (induction xs) (simp_all add: set_insert_by)

lemma length_insert_by: "length (insert_by le x xs) = Suc (length xs)"
  by (induction xs) auto

lemma length_sort_by: "length (sort_by le xs) = length xs"
  unfolding sort_by_def by (induction xs) (simp_all add: length_insert_by)

lemma distinct_insert_by:
  "distinct (map f (insert_by le x xs)) = (f x \<notin> f ` set xs \<and> distinct (map f xs))"
  by (induction xs) (auto simp: set_insert_by)

lemma distinct_sort_by: "distinct (map f (sort_by le xs)) = distinct (map f xs)"
  unfolding sort_by_def by (induction xs) (simp_all add: distinct_insert_by set_sort_by[unfolded sort_by_def])

lemma topHours_ranked: "topHours rt posts = take 3 (ranked rt posts)"
  by (simp add: topHours_def ranked_def)

lemma hour_toAvg: "hour (toAvg e) = fst e"
  by (cases e) (simp add: toAvg_def)

lemma fold_distinct: "distinct (map fst (foldl (record_post rt) [] posts))"
  by (rule sorted_keys_distinct) (rule fold_sorted)

lemma ranked_hours_distinct: "distinct (map hour (ranked rt posts))"
proof -
  have "map hour (map toAvg (foldl (record_post rt) [] posts)) = map fst (foldl (record_post rt) [] posts)"
    by (simp add: hour_toAvg)
  then show ?thesis
    unfolding ranked_def by (simp only: distinct_sort_by fold_distinct)
qed

lemma ranked_hours: "hour ` set (ranked rt posts) = spec_hours rt posts"
proof -
  have "hour ` set (ranked rt posts) = (hour \<circ> toAvg) ` set (foldl (record_post rt) [] posts)"
    by (simp add: ranked_def set_sort_by image_comp)
  also have "hour \<circ> toAvg = fst"
    by (rule ext) (simp add: hour_toAvg)
  finally show ?thesis
    by (simp add: fold_keys spec_hours_def)
qed

lemma ranked_means:
  assumes "a \<in> set (ranked rt posts)"
  shows "avgViews a = spec_meanViews rt posts (hour a)"
    and "avgEngagement a = spec_meanEngagement rt posts (hour a)"
proof -
  from assms obtain h d where hd: "(h, d) \<in> set (foldl (record_post rt) [] posts)" and a: "a = toAvg (h, d)"
    by (auto simp: ranked_def set_sort_by)
  from hd have "map_of (foldl (record_post rt) [] posts) h = Some d"
    using fold_distinct[of rt posts] by simp
  then have d: "d = totals (spec_bucket rt posts h)"
    by (simp add: fold_buckets split: if_splits)
  show "avgViews a = spec_meanViews rt posts (hour a)"
    by (simp add: a d toAvg_def totals_def spec_meanViews_def)
  show "avgEngagement a = spec_meanEngagement rt posts (hour a)"
    by (simp add: a d toAvg_def totals_def spec_meanEngagement_def)
qed

lemma spec_sum_not_nan: "spec_sum vs \<noteq> NotANumber"
proof (induction vs rule: rev_induct)
  case Nil
  show ?case by (simp add: spec_sum_Nil)
next
  case (snoc v vs)
  then show ?case unfolding spec_sum_snoc by (rule add_not_nan)
qed

lemma mean_regular:
  assumes "0 < n"
  shows "regular (num_div (spec_sum vs) (Finite (of_nat n)))"
proof (cases "spec_sum vs")
  case (Finite s)
  with assms show ?thesis by (simp add: regular_double_of)
next
  case NotANumber
  with spec_sum_not_nan[of vs] show ?thesis by simp
qed simp_all

lemma spec_hours_bucket: "h \<in> spec_hours rt posts \<Longrightarrow> spec_bucket rt posts h \<noteq> []"
  by (auto simp: spec_hours_def spec_bucket_def filter_empty_conv)

lemma spec_mean_regular:
  assumes "h \<in> spec_hours rt posts"
  shows "regular (spec_meanEngagement rt posts h)"
  unfolding spec_meanEngagement_def
  using spec_hours_bucket[OF assms] by (intro mean_regular) simp

lemma ranked_regular:
  assumes "a \<in> set (ranked rt posts)"
  shows "regular (avgEngagement a)"
proof -
  from assms have "hour a \<in> hour ` set (ranked rt posts)" by (rule imageI)
  then have "hour a \<in> spec_hours rt posts" by (simp only: ranked_hours)
  then show ?thesis
    unfolding ranked_means(2)[OF assms] by (rule spec_mean_regular)
qed











lemma length_ranked: "length (ranked rt posts) = card (spec_hours rt posts)"
proof -
  have "card (spec_hours rt posts) = card (set (map hour (ranked rt posts)))"
    by (simp add: ranked_hours)
  also have "\<dots> = length (map hour (ranked rt posts))"
    by (rule distinct_card) (rule ranked_hours_distinct)
  finally show ?thesis by simp
qed



lemma optimalTimes_history:
  assumes "os_historicalPerformance args = Some posts" and "posts \<noteq> []"
  shows "optimalTimes rt args = Some (map (\<lambda>a. formatHour (hour a)) (topHours rt posts))"
  using assms by (simp add: optimalTimes_def)

lemma schedule_times:
  assumes "optimalTimes rt args = Some ts"
  shows "\<exists>sched. fst (optimizePostingSchedule rt args traceId) = Inr sched \<and>
     map pt_time (optimalPostingTimes sched) = ts"
  using assms by (simp add: optimizePostingSchedule_def Let_def comp_def)

lemma length_topHours: "length (topHours rt posts) = min 3 (card (spec_hours rt posts))"
  by (simp add: topHours_ranked length_ranked min.commute)

lemma topHours_subset: "set (topHours rt posts) \<subseteq> set (ranked rt posts)"
  unfolding topHours_ranked by (rule set_take_subset)



lemma topHours_means:
  assumes "a \<in> set (topHours rt posts)"
  shows "hour a \<in> spec_hours rt posts \<and>
         avgViews a = spec_meanViews rt posts (hour a) \<and>
         avgEngagement a = spec_meanEngagement rt posts (hour a) \<and>
         avgEngagement a \<noteq> NotANumber"
proof -
  from assms topHours_subset have a: "a \<in> set (ranked rt posts)" by blast
  then have "hour a \<in> hour ` set (ranked rt posts)" by (rule imageI)
  then have "hour a \<in> spec_hours rt posts" by (simp only: ranked_hours)
  moreover have "avgEngagement a \<noteq> NotANumber"
    using ranked_regular[OF a] by (cases "avgEngagement a") simp_all
  ultimately show ?thesis using ranked_means[OF a] by simp
qed




text \<open>
  Sums of natural numbers stay exact below \<open>2^53\<close>; the mean is then the exact quotient,
  rounded once.
\<close>

lemma spec_sum_naturals:
  assumes "\<forall>v \<in> set vs. \<exists>n :: nat. v = of_nat n" and "sum_list vs < 2 ^ 53"
  shows "spec_sum vs = Finite (sum_list vs)"
  using assms
proof (induction vs rule: rev_induct)
  case Nil
  show ?case by (simp add: spec_sum_Nil)
next
  case (snoc v vs)
  from snoc.prems(1) obtain n :: nat where v: "v = of_nat n" by auto
  have nn: "\<exists>N :: nat. sum_list vs = of_nat N"
    using snoc.prems(1)
  proof (induction vs)
    case Nil
    show ?case by (simp add: exI[of _ 0])
  next
    case (Cons x xs)
    then obtain a b :: nat where "x = of_nat a" "sum_list xs = of_nat b" by auto
    then have "sum_list (x # xs) = of_nat (a + b)" by simp
    then show ?case by blast
  qed
  then obtain N :: nat where N: "sum_list vs = of_nat N" by blast
  have "sum_list vs \<le> sum_list vs + v" by (simp add: v)
  with snoc.prems(2) have small: "sum_list vs < 2 ^ 53" by simp
  have ih: "spec_sum vs = Finite (sum_list vs)"
    using snoc.prems(1) small by (intro snoc.IH) simp_all
  have "(of_int (int (N + n)) :: rat) < 2 ^ 53"
    using snoc.prems(2) by (simp add: N v)
  then have "int (N + n) < 2 ^ 53"
    by (metis of_int_less_iff of_int_numeral of_int_power)
  then have "double_of (of_int (int (N + n))) = Finite (of_int (int (N + n)))"
    by (intro double_of_int) simp
  then have "double_of (sum_list vs + v) = Finite (sum_list vs + v)"
    by (simp add: N v)
  then show ?case
    by (simp add: spec_sum_snoc ih)
qed

lemma spec_mean_naturals:
  assumes "h \<in> spec_hours rt posts"
    and "\<forall>p \<in> set (spec_bucket rt posts h). \<exists>n :: nat. engagement p = of_nat n"
    and "sum_list (map engagement (spec_bucket rt posts h)) < 2 ^ 53"
  shows "spec_meanEngagement rt posts h =
           double_of (sum_list (map engagement (spec_bucket rt posts h))
                        / of_nat (length (spec_bucket rt posts h)))"
proof -
  have "spec_sum (map engagement (spec_bucket rt posts h)) =
          Finite (sum_list (map engagement (spec_bucket rt posts h)))"
    using assms(2,3) by (intro spec_sum_naturals) auto
  moreover have "length (spec_bucket rt posts h) \<noteq> 0"
    using spec_hours_bucket[OF assms(1)] by simp
  ultimately show ?thesis by (simp add: spec_meanEngagement_def)
qed


text \<open>
  Claim C10. With a non-empty history whose samples fall into k distinct hours, the
  handler returns exactly min(k, 3) posting times, every one of them the formatted hour
  of a sample; a single sample yields exactly one posting time, its own hour.
\<close>

theorem posting_schedule_history_replaces_baseline:
  assumes "os_historicalPerformance args = Some posts" and "posts \<noteq> []"
  shows "\<exists>sched. fst (optimizePostingSchedule rt args traceId) = Inr sched \<and>
     length (optimalPostingTimes sched) = min (card (spec_hours rt posts)) 3 \<and>
     (\<forall>t \<in> set (optimalPostingTimes sched). \<exists>p \<in> set posts. pt_time t = formatHour (hourOf rt p)) \<and>
     (\<forall>p. posts = [p] \<longrightarrow> map pt_time (optimalPostingTimes sched) = [formatHour (hourOf rt p)])"
proof -
  obtain sched where s1: "fst (optimizePostingSchedule rt args traceId) = Inr sched"
    and times: "map pt_time (optimalPostingTimes sched) = map (\<lambda>a. formatHour (hour a)) (topHours rt posts)"
    using schedule_times[OF optimalTimes_history[OF assms]] by blast
  have "length (map pt_time (optimalPostingTimes sched)) = length (topHours rt posts)"
    by (simp only: times length_map)
  then have len: "length (optimalPostingTimes sched) = min (card (spec_hours rt posts)) 3"
    by (simp add: length_topHours min.commute)
  have each: "\<forall>t \<in> set (optimalPostingTimes sched). \<exists>p \<in> set posts. pt_time t = formatHour (hourOf rt p)"
  proof
    fix t assume "t \<in> set (optimalPostingTimes sched)"
    then have "pt_time t \<in> set (map pt_time (optimalPostingTimes sched))" by simp
    then obtain a where a: "a \<in> set (topHours rt posts)" and t: "pt_time t = formatHour (hour a)"
      unfolding times by auto
    from topHours_means[OF a] have "hour a \<in> hourOf rt ` set posts" by (simp add: spec_hours_def)
    with t show "\<exists>p \<in> set posts. pt_time t = formatHour (hourOf rt p)" by auto
  qed
  have single: "\<forall>p. posts = [p] \<longrightarrow> map pt_time (optimalPostingTimes sched) = [formatHour (hourOf rt p)]"
  proof (intro allI impI)
    fix p assume p: "posts = [p]"
    then have "length (optimalPostingTimes sched) = 1"
      using len by (simp add: spec_hours_def)
    then obtain t where ts: "optimalPostingTimes sched = [t]"
      by (cases "optimalPostingTimes sched") auto
    with each p have "pt_time t = formatHour (hourOf rt p)" by simp
    with ts show "map pt_time (optimalPostingTimes sched) = [formatHour (hourOf rt p)]" by simp
  qed
  show ?thesis
    by (rule exI[of _ sched]) (intro conjI s1 len each single)
qed

lemma example_hours: "spec_hours example_runtime example_posts = {Hour 9, Hour 14}"
  by (auto simp add: spec_hours_def hourOf_def example_posts_def example_runtime_def example_getHours_def)













text \<open>One sample at 9 o'clock on YouTube: one posting time, not the three of the baseline.\<close>

theorem posting_schedule_history_replaces_baseline_witness:
  "os_historicalPerformance example_one_post_args =
     Some [\<lparr>postTime = ''2025-03-03T09:15:00'', views = 100, engagement = 50\<rparr>] \<and>
   baselineTimes (os_platform example_one_post_args) = Some [''14:00'', ''17:00'', ''20:00''] \<and>
   (\<exists>sched. fst (optimizePostingSchedule example_runtime example_one_post_args ''t2'') = Inr sched \<and>
      length (optimalPostingTimes sched) = 1 \<and>
      map pt_time (optimalPostingTimes sched) = [''09:00''])"
proof -
  let ?posts = "[\<lparr>postTime = ''2025-03-03T09:15:00'', views = 100, engagement = 50\<rparr>]"
  have h1: "os_historicalPerformance example_one_post_args = Some ?posts"
    by (simp add: example_one_post_args_def)
  have h2: "?posts \<noteq> []" by simp
  from posting_schedule_history_replaces_baseline[OF h1 h2, of example_runtime "''t2''"]
  obtain sched where
    s: "fst (optimizePostingSchedule example_runtime example_one_post_args ''t2'') = Inr sched"
    and t: "map pt_time (optimalPostingTimes sched) =
            [formatHour (hourOf example_runtime \<lparr>postTime = ''2025-03-03T09:15:00'', views = 100, engagement = 50\<rparr>)]"
    by blast
  have f: "formatHour (hourOf example_runtime \<lparr>postTime = ''2025-03-03T09:15:00'', views = 100, engagement = 50\<rparr>) = ''09:00''"
    by (simp add: hourOf_def example_runtime_def example_getHours_def formatHour_def padStart_def
          digits.simps digit_def)
  from t f have t': "map pt_time (optimalPostingTimes sched) = [''09:00'']" by simp
  then have "length (map pt_time (optimalPostingTimes sched)) = 1" by simp
  then have l: "length (optimalPostingTimes sched) = 1" by simp
  have b: "baselineTimes (os_platform example_one_post_args) = Some [''14:00'', ''17:00'', ''20:00'']"
    by (simp add: example_one_post_args_def baselineTimes_def)
  have "\<exists>sched. fst (optimizePostingSchedule example_runtime example_one_post_args ''t2'') = Inr sched \<and>
      length (optimalPostingTimes sched) = 1 \<and>
      map pt_time (optimalPostingTimes sched) = [''09:00'']"
    by (intro exI[of _ sched] conjI s l t')
  with h1 b show ?thesis by (intro conjI)
qed

section \<open>Verification: the script-to-video server\<close>

lemma no_object_iff:
  "match_object s = None \<longleftrightarrow> \<not> (\<exists>pre mid post. s = pre @ CHR ''{'' # mid @ CHR ''}'' # post)"
  unfolding match_object_def by (rule match_between_None_iff)

lemma no_array_iff:
  "match_array s = None \<longleftrightarrow> \<not> (\<exists>pre mid post. s = pre @ CHR ''['' # mid @ CHR '']'' # post)"
  unfolding match_array_def by (rule match_between_None_iff)

lemma script_strict:
  assumes "GenerateScriptArgsSchema raw = Some args"
    and "credential rt ''GEMINI_API_KEY'' = Some k"
    and "platformSpecs (id_platform (gs_idea args)) = Some spec"
    and "generateContent rt (script_prompt rt args spec) = Inr s"
    and "match_object s = None"
  shows "fst (script_callTool rt traceId ''generate_video_script'' raw) =
           \<lparr>content = ErrorDoc (Error ''Failed to extract JSON from AI response'') traceId,
            isError = True\<rparr>"
  using assms
  by (simp add: script_callTool_def validated_def reply_def generateVideoScript_def Let_def)

lemma storyboard_lenient:
  assumes "GenerateStoryboardArgsSchema raw = Some args"
    and "credential rt ''GEMINI_API_KEY'' = Some k"
    and "generateContent rt (storyboard_prompt args) = Inr s"
    and "match_object s = None"
  shows "fst (script_callTool rt traceId ''generate_storyboard'' raw) =
           \<lparr>content = Result (StoryboardResult (JObj [(''shots'', JArr [])])), isError = False\<rparr>"
  using assms
  by (simp add: script_callTool_def validated_def reply_def generateStoryboard_def Let_def parseOr_def)

text \<open>
  Claim C2, as amended. When the provider's text has no fragment \<open>{...}\<close>,
  \<open>generate_video_script\<close> replies with an error envelope whose message is
  \<open>Failed to extract JSON from AI response\<close>, and \<open>generate_storyboard\<close> replies
  without error with the default \<open>{ shots: [] }\<close>.
\<close>

theorem extraction_strict_for_script_lenient_for_storyboard:
  "(GenerateScriptArgsSchema raw = Some args \<and>
    credential rt ''GEMINI_API_KEY'' = Some k \<and>
    platformSpecs (id_platform (gs_idea args)) = Some spec \<and>
    generateContent rt (script_prompt rt args spec) = Inr s \<and>
    \<not> (\<exists>pre mid post. s = pre @ CHR ''{'' # mid @ CHR ''}'' # post)
    \<longrightarrow> fst (script_callTool rt traceId ''generate_video_script'' raw) =
           \<lparr>content = ErrorDoc (Error ''Failed to extract JSON from AI response'') traceId,
            isError = True\<rparr>) \<and>
   (GenerateStoryboardArgsSchema raw' = Some args' \<and>
    credential rt ''GEMINI_API_KEY'' = Some k \<and>
    generateContent rt (storyboard_prompt args') = Inr s' \<and>
    \<not> (\<exists>pre mid post. s' = pre @ CHR ''{'' # mid @ CHR ''}'' # post)
    \<longrightarrow> fst (script_callTool rt traceId ''generate_storyboard'' raw') =
           \<lparr>content = Result (StoryboardResult (JObj [(''shots'', JArr [])])), isError = False\<rparr>)"
proof (intro conjI impI)
  assume "GenerateScriptArgsSchema raw = Some args \<and>
    credential rt ''GEMINI_API_KEY'' = Some k \<and>
    platformSpecs (id_platform (gs_idea args)) = Some spec \<and>
    generateContent rt (script_prompt rt args spec) = Inr s \<and>
    \<not> (\<exists>pre mid post. s = pre @ CHR ''{'' # mid @ CHR ''}'' # post)"
  then have h: "GenerateScriptArgsSchema raw = Some args"
      "credential rt ''GEMINI_API_KEY'' = Some k"
      "platformSpecs (id_platform (gs_idea args)) = Some spec"
      "generateContent rt (script_prompt rt args spec) = Inr s"
    and n: "\<not> (\<exists>pre mid post. s = pre @ CHR ''{'' # mid @ CHR ''}'' # post)"
    by simp_all
  have "match_object s = None" by (rule no_object_iff[THEN iffD2]) (rule n)
  with h show "fst (script_callTool rt traceId ''generate_video_script'' raw) =
           \<lparr>content = ErrorDoc (Error ''Failed to extract JSON from AI response'') traceId,
            isError = True\<rparr>"
    by (rule script_strict)
next
  assume "GenerateStoryboardArgsSchema raw' = Some args' \<and>
    credential rt ''GEMINI_API_KEY'' = Some k \<and>
    generateContent rt (storyboard_prompt args') = Inr s' \<and>
    \<not> (\<exists>pre mid post. s' = pre @ CHR ''{'' # mid @ CHR ''}'' # post)"
  then have h: "GenerateStoryboardArgsSchema raw' = Some args'"
      "credential rt ''GEMINI_API_KEY'' = Some k"
      "generateContent rt (storyboard_prompt args') = Inr s'"
    and n: "\<not> (\<exists>pre mid post. s' = pre @ CHR ''{'' # mid @ CHR ''}'' # post)"
    by simp_all
  have "match_object s' = None" by (rule no_object_iff[THEN iffD2]) (rule n)
  with h show "fst (script_callTool rt traceId ''generate_storyboard'' raw') =
           \<lparr>content = Result (StoryboardResult (JObj [(''shots'', JArr [])])), isError = False\<rparr>"
    by (rule storyboard_lenient)
qed

lemma example_credential: "credential example_runtime ''GEMINI_API_KEY'' = Some ''secret''"
  by (simp add: credential_def example_runtime_def)

lemma example_storyboard_args:
  "GenerateStoryboardArgsSchema (Some example_storyboard_raw) =
     Some \<lparr>sb_script = ''Open on a kitchen counter.'', sb_platform = ''tiktok'', sb_visualStyle = ''hybrid''\<rparr>"
  by (simp add: GenerateStoryboardArgsSchema_def example_storyboard_raw_def z_object_def z_string_def
        z_enum_def z_default_def)

lemma example_script_args:
  "GenerateScriptArgsSchema (Some example_script_raw) =
     Some \<lparr>gs_idea = \<lparr>id_title = ''Five knife skills'', id_hook = ''You are holding it wrong'',
                       id_platform = ''youtube'', id_duration = 480, id_outline = None\<rparr>,
           gs_tone = ''casual'', gs_includeVoiceover = True, gs_includeBRoll = True\<rparr>"
  by (simp add: GenerateScriptArgsSchema_def IdeaArgSchema_def example_script_raw_def z_object_def
        z_string_def z_enum_def z_default_def z_number_def z_optional_def z_boolean_def)

lemma example_text_no_object: "match_object ''I cannot help with that.'' = None"
  by (simp add: match_object_def match_between_def)

text \<open>
  Claim C2 as stated fails for \<open>generate_storyboard\<close>: on a text without any brace the
  call succeeds with the default value.
\<close>

theorem strict_storyboard_counterexample:
  "generateContent example_runtime
     (storyboard_prompt \<lparr>sb_script = ''Open on a kitchen counter.'', sb_platform = ''tiktok'',
                         sb_visualStyle = ''hybrid''\<rparr>) = Inr ''I cannot help with that.'' \<and>
   CHR ''{'' \<notin> set ''I cannot help with that.'' \<and>
   fst (script_callTool example_runtime ''t3'' ''generate_storyboard'' (Some example_storyboard_raw)) =
     \<lparr>content = Result (StoryboardResult (JObj [(''shots'', JArr [])])), isError = False\<rparr>"
proof -
  have g: "generateContent example_runtime
     (storyboard_prompt \<lparr>sb_script = ''Open on a kitchen counter.'', sb_platform = ''tiktok'',
                         sb_visualStyle = ''hybrid''\<rparr>) = Inr ''I cannot help with that.''"
    by (simp add: example_runtime_def)
  have n: "CHR ''{'' \<notin> set ''I cannot help with that.''" by simp
  from storyboard_lenient[OF example_storyboard_args example_credential g example_text_no_object]
  show ?thesis using g n by simp
qed

theorem extraction_strict_for_script_lenient_for_storyboard_witness:
  "GenerateScriptArgsSchema (Some example_script_raw) \<noteq> None \<and>
   GenerateStoryboardArgsSchema (Some example_storyboard_raw) \<noteq> None \<and>
   credential example_runtime ''GEMINI_API_KEY'' = Some ''secret'' \<and>
   match_object ''I cannot help with that.'' = None \<and>
   fst (script_callTool example_runtime ''t4'' ''generate_video_script'' (Some example_script_raw)) =
     \<lparr>content = ErrorDoc (Error ''Failed to extract JSON from AI response'') ''t4'', isError = True\<rparr> \<and>
   fst (script_callTool example_runtime ''t4'' ''generate_storyboard'' (Some example_storyboard_raw)) =
     \<lparr>content = Result (StoryboardResult (JObj [(''shots'', JArr [])])), isError = False\<rparr>"
proof -
  let ?sargs = "\<lparr>gs_idea = \<lparr>id_title = ''Five knife skills'', id_hook = ''You are holding it wrong'',
                       id_platform = ''youtube'', id_duration = 480, id_outline = None\<rparr>,
           gs_tone = ''casual'', gs_includeVoiceover = True, gs_includeBRoll = True\<rparr>"
  let ?spec = "\<lparr>maxDuration = 720, idealDuration = 480, hookDuration = 15\<rparr>"
  let ?bargs = "\<lparr>sb_script = ''Open on a kitchen counter.'', sb_platform = ''tiktok'', sb_visualStyle = ''hybrid''\<rparr>"
  have no: "\<not> (\<exists>pre mid post. ''I cannot help with that.'' = pre @ CHR ''{'' # mid @ CHR ''}'' # post)"
    by (rule no_object_iff[THEN iffD1]) (rule example_text_no_object)
  have spec: "platformSpecs (id_platform (gs_idea ?sargs)) = Some ?spec"
    by (simp add: platformSpecs_def)
  have g1: "generateContent example_runtime (script_prompt example_runtime ?sargs ?spec) = Inr ''I cannot help with that.''"
    by (simp add: example_runtime_def)
  have g2: "generateContent example_runtime (storyboard_prompt ?bargs) = Inr ''I cannot help with that.''"
    by (simp add: example_runtime_def)
  note inst = extraction_strict_for_script_lenient_for_storyboard[of "Some example_script_raw" ?sargs
      example_runtime "''secret''" ?spec "''I cannot help with that.''" "''t4''"
      "Some example_storyboard_raw" ?bargs "''I cannot help with that.''"]
  have a: "fst (script_callTool example_runtime ''t4'' ''generate_video_script'' (Some example_script_raw)) =
     \<lparr>content = ErrorDoc (Error ''Failed to extract JSON from AI response'') ''t4'', isError = True\<rparr>"
    by (rule inst[THEN conjunct1, rule_format]) (intro conjI example_script_args example_credential spec g1 no)
  have b: "fst (script_callTool example_runtime ''t4'' ''generate_storyboard'' (Some example_storyboard_raw)) =
     \<lparr>content = Result (StoryboardResult (JObj [(''shots'', JArr [])])), isError = False\<rparr>"
    by (rule inst[THEN conjunct2, rule_format]) (intro conjI example_storyboard_args example_credential g2 no)
  show ?thesis
    using a b example_script_args example_storyboard_args example_credential example_text_no_object
    by simp
qed

section \<open>Verification: validation, credentials and extraction in the three dispatchers\<close>

lemma scrape_total:
  "scrapeTrendingTopics rt niche platforms traceId =
     (Inr (uniq (fst (collectedTrends rt niche platforms traceId))),
      snd (collectedTrends rt niche platforms traceId))"
  by (simp add: scrapeTrendingTopics_def split: prod.splits)

lemma no_bracket_no_array: "CHR ''['' \<notin> set s \<Longrightarrow> match_array s = None"
  unfolding match_array_def by (rule match_between_no_open)

lemma no_brace_no_object: "CHR ''{'' \<notin> set s \<Longrightarrow> match_object s = None"
  unfolding match_object_def by (rule match_between_no_open)

lemma seo_args_rules:
  assumes "OptimizeSEOArgsSchema raw = Some args"
  shows "\<exists>rules. platformRules (oseo_platform args) = Some rules"
proof -
  from assms obtain kvs p where
    "z_enum [''youtube'', ''tiktok'', ''instagram''] (map_of kvs ''platform'') = Some p"
    and "oseo_platform args = p"
    unfolding OptimizeSEOArgsSchema_def by (auto dest!: z_object_Some split: bind_splits)
  with z_enum_mem[of "[''youtube'', ''tiktok'', ''instagram'']" "map_of kvs ''platform''" p]
  show ?thesis by (auto simp: platformRules_def)
qed

lemma ideas_lenient:
  assumes "GenerateIdeasArgsSchema raw = Some args"
    and "credential rt ''GEMINI_API_KEY'' = Some k"
    and "fst (scrapeTrendingTopics rt (gi_niche args) [''youtube'', ''reddit'', ''google-trends'']
                traceId) = Inr trends"
    and "generateContent rt
           (ideas_userPrompt rt args trends @ nl @ nl @ ideas_systemPrompt rt args trends) = Inr t"
    and "CHR ''['' \<notin> set t"
  shows "fst (idea_callTool rt traceId ''generate_viral_ideas'' raw) =
           \<lparr>content = Result (IdeasResult [] 0), isError = False\<rparr> \<and>
         GenerateContent (ideas_userPrompt rt args trends @ nl @ nl @ ideas_systemPrompt rt args trends)
           \<in> set (snd (idea_callTool rt traceId ''generate_viral_ideas'' raw))"
proof -
  from assms(5) have m: "match_array t = None" by (rule no_bracket_no_array)
  obtain evs where s: "scrapeTrendingTopics rt (gi_niche args)
      [''youtube'', ''reddit'', ''google-trends''] traceId = (Inr trends, evs)"
    using assms(3) by (cases "scrapeTrendingTopics rt (gi_niche args)
      [''youtube'', ''reddit'', ''google-trends''] traceId") simp
  show ?thesis
    using assms(1,2,4) m s
    by (simp add: idea_callTool_def validated_def reply_def generateViralIdeas_def
          Let_def parseOr_def validateIdeas_def)
qed

lemma virality_lenient:
  assumes "PredictViralityArgsSchema raw = Some args"
    and "credential rt ''GEMINI_API_KEY'' = Some k"
    and "generateContent rt (virality_prompt args) = Inr t"
    and "CHR ''{'' \<notin> set t"
  shows "fst (idea_callTool rt traceId ''predict_virality'' raw) =
           \<lparr>content = Result (PredictionResult (JObj [(''overallScore'', JNum 50)])), isError = False\<rparr> \<and>
         GenerateContent (virality_prompt args)
           \<in> set (snd (idea_callTool rt traceId ''predict_virality'' raw))"
proof -
  from assms(4) have m: "match_object t = None" by (rule no_brace_no_object)
  show ?thesis
    using assms(1,2,3) m
    by (simp add: idea_callTool_def validated_def reply_def predictVirality_def Let_def parseOr_def)
qed

lemma repurpose_lenient:
  assumes "RepurposeContentArgsSchema raw = Some args"
    and "credential rt ''GEMINI_API_KEY'' = Some k"
    and "generateContent rt (repurpose_prompt rt args) = Inr t"
    and "CHR ''{'' \<notin> set t"
  shows "fst (growth_callTool rt traceId ''repurpose_content'' raw) =
           \<lparr>content = Result (RepurposeResult (JObj [(''clips'', JArr [])])), isError = False\<rparr> \<and>
         GenerateContent (repurpose_prompt rt args)
           \<in> set (snd (growth_callTool rt traceId ''repurpose_content'' raw))"
proof -
  from assms(4) have m: "match_object t = None" by (rule no_brace_no_object)
  show ?thesis
    using assms(1,2,3) m
    by (simp add: growth_callTool_def validated_def reply_def repurposeContent_def Let_def parseOr_def)
qed

lemma seo_lenient:
  assumes "OptimizeSEOArgsSchema raw = Some args"
    and "credential rt ''GEMINI_API_KEY'' = Some k"
    and "platformRules (oseo_platform args) = Some rules"
    and "generateContent rt (seo_prompt args rules) = Inr t"
    and "CHR ''{'' \<notin> set t"
  shows "fst (growth_callTool rt traceId ''optimize_seo'' raw) =
           \<lparr>content = Result (SEOResult (JObj [])), isError = False\<rparr> \<and>
         GenerateContent (seo_prompt args rules)
           \<in> set (snd (growth_callTool rt traceId ''optimize_seo'' raw))"
proof -
  from assms(5) have m: "match_object t = None" by (rule no_brace_no_object)
  show ?thesis
    using assms(1,2,3,4) m
    by (simp add: growth_callTool_def validated_def reply_def optimizeSEO_def Let_def parseOr_def)
qed

lemma thumbnail_lenient:
  assumes "GenerateThumbnailArgsSchema raw = Some args"
    and "credential rt ''GEMINI_API_KEY'' = Some k"
    and "generateContent rt (thumbnail_prompt args) = Inr t"
    and "CHR ''['' \<notin> set t"
  shows "fst (growth_callTool rt traceId ''generate_thumbnail_concepts'' raw) =
           \<lparr>content = Result (ThumbnailResult
                        \<lparr>concepts = JArr [],
                         abTestRecommendation = ''Test top 2 concepts for 48 hours, keep winner'',
                         toolSuggestions = [''Canva'', ''Photoshop'', ''Figma'',
                                            ''Midjourney (for AI generation)'']\<rparr>),
            isError = False\<rparr> \<and>
         GenerateContent (thumbnail_prompt args)
           \<in> set (snd (growth_callTool rt traceId ''generate_thumbnail_concepts'' raw))"
proof -
  from assms(4) have m: "match_array t = None" by (rule no_bracket_no_array)
  show ?thesis
    using assms(1,2,3) m
    by (simp add: growth_callTool_def validated_def reply_def generateThumbnailConcepts_def Let_def
          parseOr_def)
qed

lemma abtest_lenient:
  assumes "RunABTestArgsSchema raw = Some args"
    and "credential rt ''GEMINI_API_KEY'' = Some k"
    and "generateContent rt (abtest_prompt rt args) = Inr t"
    and "CHR ''{'' \<notin> set t"
  shows "fst (growth_callTool rt traceId ''run_ab_test'' raw) =
           \<lparr>content = Result (ABTestResult (JObj [(''variants'', JArr [])])), isError = False\<rparr> \<and>
         GenerateContent (abtest_prompt rt args)
           \<in> set (snd (growth_callTool rt traceId ''run_ab_test'' raw))"
proof -
  from assms(4) have m: "match_object t = None" by (rule no_brace_no_object)
  show ?thesis
    using assms(1,2,3) m
    by (simp add: growth_callTool_def validated_def reply_def runABTest_def Let_def parseOr_def)
qed

text \<open>
  Claim C4. With the credential present, each of the six lenient tools, called with valid
  arguments, sends its prompt to the provider; when the text the provider returns for
  that prompt contains neither \<open>{\<close> nor \<open>[\<close>, the tool replies without error with its
  default: no ideas (count 0), \<open>{ overallScore: 50 }\<close>, \<open>{ clips: [] }\<close>, \<open>{}\<close>, no
  thumbnail concepts, \<open>{ variants: [] }\<close>. The prompt of \<open>generate_viral_ideas\<close> carries
  the topics the scraper returned for the call; the prompt of \<open>optimize_seo\<close> carries the
  rules of the platform.
\<close>

theorem lenient_handlers_default_without_json:
  assumes "credential rt ''GEMINI_API_KEY'' = Some k"
    and "CHR ''{'' \<notin> set t" and "CHR ''['' \<notin> set t"
  shows
   "(GenerateIdeasArgsSchema raw = Some ideasArgs \<and>
     fst (scrapeTrendingTopics rt (gi_niche ideasArgs) [''youtube'', ''reddit'', ''google-trends'']
            traceId) = Inr trends \<and>
     generateContent rt (ideas_userPrompt rt ideasArgs trends @ nl @ nl
                           @ ideas_systemPrompt rt ideasArgs trends) = Inr t \<longrightarrow>
       fst (idea_callTool rt traceId ''generate_viral_ideas'' raw) =
         \<lparr>content = Result (IdeasResult [] 0), isError = False\<rparr> \<and>
       GenerateContent (ideas_userPrompt rt ideasArgs trends @ nl @ nl
                            @ ideas_systemPrompt rt ideasArgs trends)
         \<in> set (snd (idea_callTool rt traceId ''generate_viral_ideas'' raw))) \<and>
    (PredictViralityArgsSchema raw = Some viralityArgs \<and>
     generateContent rt (virality_prompt viralityArgs) = Inr t \<longrightarrow>
       fst (idea_callTool rt traceId ''predict_virality'' raw) =
         \<lparr>content = Result (PredictionResult (JObj [(''overallScore'', JNum 50)])),
          isError = False\<rparr> \<and>
       GenerateContent (virality_prompt viralityArgs)
         \<in> set (snd (idea_callTool rt traceId ''predict_virality'' raw))) \<and>
    (RepurposeContentArgsSchema raw = Some repurposeArgs \<and>
     generateContent rt (repurpose_prompt rt repurposeArgs) = Inr t \<longrightarrow>
       fst (growth_callTool rt traceId ''repurpose_content'' raw) =
         \<lparr>content = Result (RepurposeResult (JObj [(''clips'', JArr [])])), isError = False\<rparr> \<and>
       GenerateContent (repurpose_prompt rt repurposeArgs)
         \<in> set (snd (growth_callTool rt traceId ''repurpose_content'' raw))) \<and>
    (OptimizeSEOArgsSchema raw = Some seoArgs \<and>
     platformRules (oseo_platform seoArgs) = Some rules \<and>
     generateContent rt (seo_prompt seoArgs rules) = Inr t \<longrightarrow>
       fst (growth_callTool rt traceId ''optimize_seo'' raw) =
         \<lparr>content = Result (SEOResult (JObj [])), isError = False\<rparr> \<and>
       GenerateContent (seo_prompt seoArgs rules)
         \<in> set (snd (growth_callTool rt traceId ''optimize_seo'' raw))) \<and>
    (GenerateThumbnailArgsSchema raw = Some thumbnailArgs \<and>
     generateContent rt (thumbnail_prompt thumbnailArgs) = Inr t \<longrightarrow>
       fst (growth_callTool rt traceId ''generate_thumbnail_concepts'' raw) =
         \<lparr>content = Result (ThumbnailResult
                      \<lparr>concepts = JArr [],
                       abTestRecommendation = ''Test top 2 concepts for 48 hours, keep winner'',
                       toolSuggestions = [''Canva'', ''Photoshop'', ''Figma'',
                                          ''Midjourney (for AI generation)'']\<rparr>),
          isError = False\<rparr> \<and>
       GenerateContent (thumbnail_prompt thumbnailArgs)
         \<in> set (snd (growth_callTool rt traceId ''generate_thumbnail_concepts'' raw))) \<and>
    (RunABTestArgsSchema raw = Some abArgs \<and>
     generateContent rt (abtest_prompt rt abArgs) = Inr t \<longrightarrow>
       fst (growth_callTool rt traceId ''run_ab_test'' raw) =
         \<lparr>content = Result (ABTestResult (JObj [(''variants'', JArr [])])), isError = False\<rparr> \<and>
       GenerateContent (abtest_prompt rt abArgs)
         \<in> set (snd (growth_callTool rt traceId ''run_ab_test'' raw)))"
proof (intro conjI; intro impI)
  assume "GenerateIdeasArgsSchema raw = Some ideasArgs \<and>
     fst (scrapeTrendingTopics rt (gi_niche ideasArgs) [''youtube'', ''reddit'', ''google-trends'']
            traceId) = Inr trends \<and>
     generateContent rt (ideas_userPrompt rt ideasArgs trends @ nl @ nl
                           @ ideas_systemPrompt rt ideasArgs trends) = Inr t"
  then show "fst (idea_callTool rt traceId ''generate_viral_ideas'' raw) =
         \<lparr>content = Result (IdeasResult [] 0), isError = False\<rparr> \<and>
       GenerateContent (ideas_userPrompt rt ideasArgs trends @ nl @ nl
                            @ ideas_systemPrompt rt ideasArgs trends)
         \<in> set (snd (idea_callTool rt traceId ''generate_viral_ideas'' raw))"
    using ideas_lenient[OF _ assms(1) _ _ assms(3)] by blast
next
  assume "PredictViralityArgsSchema raw = Some viralityArgs \<and>
     generateContent rt (virality_prompt viralityArgs) = Inr t"
  then show "fst (idea_callTool rt traceId ''predict_virality'' raw) =
         \<lparr>content = Result (PredictionResult (JObj [(''overallScore'', JNum 50)])),
          isError = False\<rparr> \<and>
       GenerateContent (virality_prompt viralityArgs)
         \<in> set (snd (idea_callTool rt traceId ''predict_virality'' raw))"
    using virality_lenient[OF _ assms(1) _ assms(2)] by blast
next
  assume "RepurposeContentArgsSchema raw = Some repurposeArgs \<and>
     generateContent rt (repurpose_prompt rt repurposeArgs) = Inr t"
  then show "fst (growth_callTool rt traceId ''repurpose_content'' raw) =
         \<lparr>content = Result (RepurposeResult (JObj [(''clips'', JArr [])])), isError = False\<rparr> \<and>
       GenerateContent (repurpose_prompt rt repurposeArgs)
         \<in> set (snd (growth_callTool rt traceId ''repurpose_content'' raw))"
    using repurpose_lenient[OF _ assms(1) _ assms(2)] by blast
next
  assume "OptimizeSEOArgsSchema raw = Some seoArgs \<and>
     platformRules (oseo_platform seoArgs) = Some rules \<and>
     generateContent rt (seo_prompt seoArgs rules) = Inr t"
  then show "fst (growth_callTool rt traceId ''optimize_seo'' raw) =
         \<lparr>content = Result (SEOResult (JObj [])), isError = False\<rparr> \<and>
       GenerateContent (seo_prompt seoArgs rules)
         \<in> set (snd (growth_callTool rt traceId ''optimize_seo'' raw))"
    using seo_lenient[OF _ assms(1) _ _ assms(2)] by blast
next
  assume "GenerateThumbnailArgsSchema raw = Some thumbnailArgs \<and>
     generateContent rt (thumbnail_prompt thumbnailArgs) = Inr t"
  then show "fst (growth_callTool rt traceId ''generate_thumbnail_concepts'' raw) =
         \<lparr>content = Result (ThumbnailResult
                      \<lparr>concepts = JArr [],
                       abTestRecommendation = ''Test top 2 concepts for 48 hours, keep winner'',
                       toolSuggestions = [''Canva'', ''Photoshop'', ''Figma'',
                                          ''Midjourney (for AI generation)'']\<rparr>),
          isError = False\<rparr> \<and>
       GenerateContent (thumbnail_prompt thumbnailArgs)
         \<in> set (snd (growth_callTool rt traceId ''generate_thumbnail_concepts'' raw))"
    using thumbnail_lenient[OF _ assms(1) _ assms(3)] by blast
next
  assume "RunABTestArgsSchema raw = Some abArgs \<and>
     generateContent rt (abtest_prompt rt abArgs) = Inr t"
  then show "fst (growth_callTool rt traceId ''run_ab_test'' raw) =
         \<lparr>content = Result (ABTestResult (JObj [(''variants'', JArr [])])), isError = False\<rparr> \<and>
       GenerateContent (abtest_prompt rt abArgs)
         \<in> set (snd (growth_callTool rt traceId ''run_ab_test'' raw))"
    using abtest_lenient[OF _ assms(1) _ assms(2)] by blast
qed

lemma absent_credential: "env rt k = None \<Longrightarrow> credential rt k = None"
  by (simp add: credential_def)

text \<open>
  Claim C6. A tool call with valid arguments whose handler needs a credential that the
  environment lacks replies with an error envelope that names the credential, and its
  effects are log lines only: no request leaves the process.
\<close>

theorem missing_credential_fails_before_any_request:
  "(env rt ''GEMINI_API_KEY'' = None \<longrightarrow>
      (GenerateIdeasArgsSchema raw = Some ideasArgs \<longrightarrow>
         idea_callTool rt traceId ''generate_viral_ideas'' raw =
           (\<lparr>content = ErrorDoc (TrendAnalysisError ''GEMINI_API_KEY not found'') traceId,
             isError = True\<rparr>, [Log traceId Err ''Tool execution failed''])) \<and>
      (PredictViralityArgsSchema raw = Some viralityArgs \<longrightarrow>
         idea_callTool rt traceId ''predict_virality'' raw =
           (\<lparr>content = ErrorDoc (TrendAnalysisError ''GEMINI_API_KEY not found'') traceId,
             isError = True\<rparr>, [Log traceId Err ''Tool execution failed''])) \<and>
      (GenerateScriptArgsSchema raw = Some scriptArgs \<longrightarrow>
         script_callTool rt traceId ''generate_video_script'' raw =
           (\<lparr>content = ErrorDoc (Error ''GEMINI_API_KEY not found'') traceId, isError = True\<rparr>,
            [Log traceId Err ''Tool execution failed''])) \<and>
      (GenerateStoryboardArgsSchema raw = Some storyboardArgs \<longrightarrow>
         script_callTool rt traceId ''generate_storyboard'' raw =
           (\<lparr>content = ErrorDoc (Error ''GEMINI_API_KEY not found'') traceId, isError = True\<rparr>,
            [Log traceId Err ''Tool execution failed''])) \<and>
      (OptimizeSEOArgsSchema raw = Some seoArgs \<longrightarrow>
         growth_callTool rt traceId ''optimize_seo'' raw =
           (\<lparr>content = ErrorDoc (Error ''GEMINI_API_KEY not found'') traceId, isError = True\<rparr>,
            [Log traceId Err ''Tool execution failed''])) \<and>
      (GenerateThumbnailArgsSchema raw = Some thumbnailArgs \<longrightarrow>
         growth_callTool rt traceId ''generate_thumbnail_concepts'' raw =
           (\<lparr>content = ErrorDoc (Error ''GEMINI_API_KEY not found'') traceId, isError = True\<rparr>,
            [Log traceId Err ''Tool execution failed''])) \<and>
      (RepurposeContentArgsSchema raw = Some repurposeArgs \<longrightarrow>
         growth_callTool rt traceId ''repurpose_content'' raw =
           (\<lparr>content = ErrorDoc (Error ''GEMINI_API_KEY not found'') traceId, isError = True\<rparr>,
            [Log traceId Err ''Tool execution failed''])) \<and>
      (RunABTestArgsSchema raw = Some abArgs \<longrightarrow>
         growth_callTool rt traceId ''run_ab_test'' raw =
           (\<lparr>content = ErrorDoc (Error ''GEMINI_API_KEY not found'') traceId, isError = True\<rparr>,
            [Log traceId Err ''Tool execution failed'']))) \<and>
   (GenerateVoiceoverArgsSchema raw = Some voiceArgs \<and> vo_provider voiceArgs = ''elevenlabs'' \<and>
    env rt ''ELEVENLABS_API_KEY'' = None \<longrightarrow>
      script_callTool rt traceId ''generate_voiceover'' raw =
        (\<lparr>content = ErrorDoc (Error (''ELEVENLABS_API_KEY not found. Set it or use provider: ''
                                        @ [CHR 0x22] @ ''huggingface'' @ [CHR 0x22])) traceId,
          isError = True\<rparr>,
         [Log traceId Info ''Generating voiceover'', Log traceId Err ''Tool execution failed''])) \<and>
   (GenerateVoiceoverArgsSchema raw = Some voiceArgs \<and> vo_provider voiceArgs = ''huggingface'' \<and>
    env rt ''HUGGINGFACE_API_KEY'' = None \<longrightarrow>
      script_callTool rt traceId ''generate_voiceover'' raw =
        (\<lparr>content = ErrorDoc (Error ''HUGGINGFACE_API_KEY not found'') traceId, isError = True\<rparr>,
         [Log traceId Info ''Generating voiceover'', Log traceId Err ''Tool execution failed'']))"
proof (intro conjI impI)
  assume "env rt ''GEMINI_API_KEY'' = None"
  then have c: "credential rt ''GEMINI_API_KEY'' = None" by (rule absent_credential)
  { assume "GenerateIdeasArgsSchema raw = Some ideasArgs"
    with c show "idea_callTool rt traceId ''generate_viral_ideas'' raw =
           (\<lparr>content = ErrorDoc (TrendAnalysisError ''GEMINI_API_KEY not found'') traceId,
             isError = True\<rparr>, [Log traceId Err ''Tool execution failed''])"
      by (simp add: idea_callTool_def validated_def reply_def generateViralIdeas_def) }
  { assume "PredictViralityArgsSchema raw = Some viralityArgs"
    with c show "idea_callTool rt traceId ''predict_virality'' raw =
           (\<lparr>content = ErrorDoc (TrendAnalysisError ''GEMINI_API_KEY not found'') traceId,
             isError = True\<rparr>, [Log traceId Err ''Tool execution failed''])"
      by (simp add: idea_callTool_def validated_def reply_def predictVirality_def) }
  { assume "GenerateScriptArgsSchema raw = Some scriptArgs"
    with c show "script_callTool rt traceId ''generate_video_script'' raw =
           (\<lparr>content = ErrorDoc (Error ''GEMINI_API_KEY not found'') traceId, isError = True\<rparr>,
            [Log traceId Err ''Tool execution failed''])"
      by (simp add: script_callTool_def validated_def reply_def generateVideoScript_def) }
  { assume "GenerateStoryboardArgsSchema raw = Some storyboardArgs"
    with c show "script_callTool rt traceId ''generate_storyboard'' raw =
           (\<lparr>content = ErrorDoc (Error ''GEMINI_API_KEY not found'') traceId, isError = True\<rparr>,
            [Log traceId Err ''Tool execution failed''])"
      by (simp add: script_callTool_def validated_def reply_def generateStoryboard_def) }
  { assume "OptimizeSEOArgsSchema raw = Some seoArgs"
    with c show "growth_callTool rt traceId ''optimize_seo'' raw =
           (\<lparr>content = ErrorDoc (Error ''GEMINI_API_KEY not found'') traceId, isError = True\<rparr>,
            [Log traceId Err ''Tool execution failed''])"
      by (simp add: growth_callTool_def validated_def reply_def optimizeSEO_def) }
  { assume "GenerateThumbnailArgsSchema raw = Some thumbnailArgs"
    with c show "growth_callTool rt traceId ''generate_thumbnail_concepts'' raw =
           (\<lparr>content = ErrorDoc (Error ''GEMINI_API_KEY not found'') traceId, isError = True\<rparr>,
            [Log traceId Err ''Tool execution failed''])"
      by (simp add: growth_callTool_def validated_def reply_def generateThumbnailConcepts_def) }
  { assume "RepurposeContentArgsSchema raw = Some repurposeArgs"
    with c show "growth_callTool rt traceId ''repurpose_content'' raw =
           (\<lparr>content = ErrorDoc (Error ''GEMINI_API_KEY not found'') traceId, isError = True\<rparr>,
            [Log traceId Err ''Tool execution failed''])"
      by (simp add: growth_callTool_def validated_def reply_def repurposeContent_def) }
  { assume "RunABTestArgsSchema raw = Some abArgs"
    with c show "growth_callTool rt traceId ''run_ab_test'' raw =
           (\<lparr>content = ErrorDoc (Error ''GEMINI_API_KEY not found'') traceId, isError = True\<rparr>,
            [Log traceId Err ''Tool execution failed''])"
      by (simp add: growth_callTool_def validated_def reply_def runABTest_def) }
next
  assume "GenerateVoiceoverArgsSchema raw = Some voiceArgs \<and> vo_provider voiceArgs = ''elevenlabs'' \<and>
    env rt ''ELEVENLABS_API_KEY'' = None"
  then show "script_callTool rt traceId ''generate_voiceover'' raw =
        (\<lparr>content = ErrorDoc (Error (''ELEVENLABS_API_KEY not found. Set it or use provider: ''
                                        @ [CHR 0x22] @ ''huggingface'' @ [CHR 0x22])) traceId,
          isError = True\<rparr>,
         [Log traceId Info ''Generating voiceover'', Log traceId Err ''Tool execution failed''])"
    by (simp add: script_callTool_def validated_def reply_def generateVoiceover_def Let_def
          absent_credential)
next
  assume "GenerateVoiceoverArgsSchema raw = Some voiceArgs \<and> vo_provider voiceArgs = ''huggingface'' \<and>
    env rt ''HUGGINGFACE_API_KEY'' = None"
  then show "script_callTool rt traceId ''generate_voiceover'' raw =
        (\<lparr>content = ErrorDoc (Error ''HUGGINGFACE_API_KEY not found'') traceId, isError = True\<rparr>,
         [Log traceId Info ''Generating voiceover'', Log traceId Err ''Tool execution failed''])"
    by (simp add: script_callTool_def validated_def reply_def generateVoiceover_def Let_def
          absent_credential)
qed

lemma acc_string: "(z_string v \<noteq> None) = spec_string v"
  by (simp add: z_string_def spec_string_def split: option.splits json.splits)

lemma acc_number: "(z_number v \<noteq> None) = spec_number (\<lambda>n. True) v"
  by (simp add: z_number_def spec_number_def split: option.splits json.splits)

lemma acc_boolean: "(z_boolean v \<noteq> None) = spec_boolean v"
  by (simp add: z_boolean_def spec_boolean_def split: option.splits json.splits)

lemma acc_enum: "(z_enum vals v \<noteq> None) = spec_enum vals v"
  by (simp add: z_enum_def spec_enum_def split: option.splits json.splits)

lemma acc_passthrough: "(z_passthrough v \<noteq> None) = spec_object (\<lambda>get. True) v"
  by (simp add: z_passthrough_def spec_object_def split: option.splits json.splits)

lemma acc_range:
  "(z_check P (z_check Q (z_check R z_number)) v \<noteq> None) = spec_number (\<lambda>n. R n \<and> Q n \<and> P n) v"
  by (simp add: z_check_def z_number_def spec_number_def split: option.splits json.splits)

lemma those_list_None: "(those_list xs \<noteq> None) = list_all (\<lambda>x. x \<noteq> None) xs"
  by (induction xs rule: those_list.induct) (auto split: option.splits)

lemma acc_array:
  assumes "\<And>x. (el x \<noteq> None) = c x"
  shows "(z_array el v \<noteq> None) = spec_array c v"
  using assms
  by (simp add: z_array_def spec_array_def those_list_None list_all_iff del: not_None_eq
        split: option.splits json.splits)

lemma acc_optional:
  assumes "\<And>x. (el x \<noteq> None) = c x"
  shows "(z_optional el v \<noteq> None) = spec_optional c v"
  using assms
  by (simp add: z_optional_def spec_optional_def del: not_None_eq split: option.splits)

lemma acc_default:
  assumes "\<And>x. (el x \<noteq> None) = c x" and "c (Some d)"
  shows "(z_default d el v \<noteq> None) = spec_optional c v"
  using assms
  by (simp add: z_default_def spec_optional_def del: not_None_eq split: option.splits)

lemma acc_object: "(z_object props v \<noteq> None) = spec_object (\<lambda>get. props get \<noteq> None) v"
  by (simp add: z_object_def spec_object_def del: not_None_eq split: option.splits json.splits)

lemma bind_ne_None: "(Option.bind m f \<noteq> None) = (m \<noteq> None \<and> f (the m) \<noteq> None)"
  by (cases m) simp_all

lemma acc_default_enum:
  "d \<in> set vals \<Longrightarrow> (z_default (JStr d) (z_enum vals) v \<noteq> None) = spec_optional (spec_enum vals) v"
  by (rule acc_default[OF acc_enum]) (simp add: spec_enum_def)

lemma acc_default_string:
  "(z_default (JStr d) z_string v \<noteq> None) = spec_optional spec_string v"
  by (rule acc_default[OF acc_string]) (simp add: spec_string_def)

lemma acc_default_boolean:
  "(z_default (JBool b) z_boolean v \<noteq> None) = spec_optional spec_boolean v"
  by (rule acc_default[OF acc_boolean]) (simp add: spec_boolean_def)

lemma acc_default_number:
  "(z_default (JNum d) z_number v \<noteq> None) = spec_optional (spec_number (\<lambda>n. True)) v"
  by (rule acc_default[OF acc_number]) (simp add: spec_number_def)

lemma acc_default_range:
  "R d \<and> Q d \<and> P d \<Longrightarrow>
   (z_default (JNum d) (z_check P (z_check Q (z_check R z_number))) v \<noteq> None) =
     spec_optional (spec_number (\<lambda>n. R n \<and> Q n \<and> P n)) v"
  by (rule acc_default[OF acc_range]) (simp add: spec_number_def)

lemma is_int_3: "is_int 3"
  by (simp add: is_int_def)

lemmas acc_fields = bind_ne_None acc_string acc_number acc_boolean acc_enum acc_passthrough acc_range
  acc_array[OF acc_string] acc_array[OF acc_enum]
  acc_optional[OF acc_string] acc_optional[OF acc_enum] acc_optional[OF acc_passthrough]
  acc_optional[OF acc_array[OF acc_string]]
  acc_default_enum acc_default_string acc_default_boolean acc_default_number acc_default_range
  is_int_3

lemma outline_item_valid_iff:
  "(OutlineItemSchema v \<noteq> None) =
     spec_object (\<lambda>item.
       spec_string (item ''section'') \<and>
       spec_number (\<lambda>d. True) (item ''duration'') \<and>
       spec_array spec_string (item ''keyPoints'')) v"
  unfolding OutlineItemSchema_def acc_object
  by (simp add: acc_fields del: not_None_eq)

lemma idea_arg_valid_iff:
  "(IdeaArgSchema v \<noteq> None) =
     spec_object (\<lambda>idea.
       spec_string (idea ''title'') \<and>
       spec_string (idea ''hook'') \<and>
       spec_enum [''youtube'', ''tiktok'', ''instagram-reels'', ''youtube-shorts''] (idea ''platform'') \<and>
       spec_number (\<lambda>d. True) (idea ''duration'') \<and>
       spec_optional (spec_array (spec_object (\<lambda>item.
           spec_string (item ''section'') \<and>
           spec_number (\<lambda>d. True) (item ''duration'') \<and>
           spec_array spec_string (item ''keyPoints'')))) (idea ''outline'')) v"
  unfolding IdeaArgSchema_def acc_object
  by (simp add: acc_fields acc_optional[OF acc_array[OF outline_item_valid_iff]] del: not_None_eq)

lemma historical_post_valid_iff:
  "(HistoricalPostSchema v \<noteq> None) =
     spec_object (\<lambda>post.
       spec_string (post ''postTime'') \<and>
       spec_number (\<lambda>n. True) (post ''views'') \<and>
       spec_number (\<lambda>n. True) (post ''engagement'')) v"
  unfolding HistoricalPostSchema_def acc_object
  by (simp add: acc_fields del: not_None_eq)

lemma audience_valid_iff:
  "(AudienceDemographicsSchema v \<noteq> None) =
     spec_object (\<lambda>audience.
       spec_optional spec_string (audience ''ageRange'') \<and>
       spec_optional (spec_array spec_string) (audience ''topCountries'') \<and>
       spec_optional (spec_object (\<lambda>gender. True)) (audience ''gender'')) v"
  unfolding AudienceDemographicsSchema_def acc_object
  by (simp add: acc_fields del: not_None_eq)

lemmas acc_nested = idea_arg_valid_iff acc_optional[OF audience_valid_iff]
  acc_optional[OF acc_array[OF historical_post_valid_iff]]

lemma ideas_valid_iff: "(GenerateIdeasArgsSchema raw \<noteq> None) = spec_generate_viral_ideas_args raw"
  unfolding GenerateIdeasArgsSchema_def spec_generate_viral_ideas_args_def acc_object
  by (simp add: acc_fields acc_nested del: not_None_eq)

lemma trends_valid_iff: "(AnalyzeTrendsArgsSchema raw \<noteq> None) = spec_analyze_trending_topics_args raw"
  unfolding AnalyzeTrendsArgsSchema_def spec_analyze_trending_topics_args_def acc_object
  by (simp add: acc_fields acc_nested del: not_None_eq)

lemma virality_valid_iff: "(PredictViralityArgsSchema raw \<noteq> None) = spec_predict_virality_args raw"
  unfolding PredictViralityArgsSchema_def spec_predict_virality_args_def acc_object
  by (simp add: acc_fields acc_nested del: not_None_eq)

lemma script_valid_iff: "(GenerateScriptArgsSchema raw \<noteq> None) = spec_generate_video_script_args raw"
  unfolding GenerateScriptArgsSchema_def spec_generate_video_script_args_def acc_object
  by (simp add: acc_fields acc_nested del: not_None_eq)

lemma storyboard_valid_iff: "(GenerateStoryboardArgsSchema raw \<noteq> None) = spec_generate_storyboard_args raw"
  unfolding GenerateStoryboardArgsSchema_def spec_generate_storyboard_args_def acc_object
  by (simp add: acc_fields acc_nested del: not_None_eq)

lemma voiceover_valid_iff: "(GenerateVoiceoverArgsSchema raw \<noteq> None) = spec_generate_voiceover_args raw"
  unfolding GenerateVoiceoverArgsSchema_def spec_generate_voiceover_args_def acc_object
  by (simp add: acc_fields acc_nested del: not_None_eq)

lemma export_valid_iff: "(ExportProjectArgsSchema raw \<noteq> None) = spec_export_editing_project_args raw"
  unfolding ExportProjectArgsSchema_def spec_export_editing_project_args_def acc_object
  by (simp add: acc_fields acc_nested del: not_None_eq)

lemma seo_valid_iff: "(OptimizeSEOArgsSchema raw \<noteq> None) = spec_optimize_seo_args raw"
  unfolding OptimizeSEOArgsSchema_def spec_optimize_seo_args_def acc_object
  by (simp add: acc_fields acc_nested del: not_None_eq)

lemma thumbnail_valid_iff: "(GenerateThumbnailArgsSchema raw \<noteq> None) = spec_generate_thumbnail_concepts_args raw"
  unfolding GenerateThumbnailArgsSchema_def spec_generate_thumbnail_concepts_args_def acc_object
  by (simp add: acc_fields acc_nested del: not_None_eq)

lemma schedule_valid_iff: "(OptimizeScheduleArgsSchema raw \<noteq> None) = spec_optimize_posting_schedule_args raw"
  unfolding OptimizeScheduleArgsSchema_def spec_optimize_posting_schedule_args_def acc_object
  by (simp add: acc_fields acc_nested del: not_None_eq)

lemma repurpose_valid_iff: "(RepurposeContentArgsSchema raw \<noteq> None) = spec_repurpose_content_args raw"
  unfolding RepurposeContentArgsSchema_def spec_repurpose_content_args_def acc_object
  by (simp add: acc_fields acc_nested del: not_None_eq)

lemma abtest_valid_iff: "(RunABTestArgsSchema raw \<noteq> None) = spec_run_ab_test_args raw"
  unfolding RunABTestArgsSchema_def spec_run_ab_test_args_def acc_object
  by (simp add: acc_fields acc_nested del: not_None_eq)

text \<open>
  Claim C5. For each of the twelve tools, the schema rejects the raw arguments exactly
  when they violate a declared constraint (a required field that is missing or of another
  type, a value outside an enumeration, a number outside its range, an optional field
  that is present and ill-formed), and the dispatcher then replies with an error
  envelope, its only effect being the log line of the failure: no provider, trend source
  or voice service is called. In particular \<open>generate_viral_ideas\<close> fails so for a
  count below 10, above 50 or not an integer, for a platform outside the enumeration
  and for a missing niche.
\<close>

theorem invalid_arguments_fail_before_any_request:
  "(GenerateIdeasArgsSchema raw = None \<longleftrightarrow> \<not> spec_generate_viral_ideas_args raw) \<and>
   (\<not> spec_generate_viral_ideas_args raw \<longrightarrow>
      idea_callTool rt traceId ''generate_viral_ideas'' raw =
        (\<lparr>content = ErrorDoc ZodError traceId, isError = True\<rparr>,
         [Log traceId Err ''Tool execution failed''])) \<and>
   (AnalyzeTrendsArgsSchema raw = None \<longleftrightarrow> \<not> spec_analyze_trending_topics_args raw) \<and>
   (\<not> spec_analyze_trending_topics_args raw \<longrightarrow>
      idea_callTool rt traceId ''analyze_trending_topics'' raw =
        (\<lparr>content = ErrorDoc ZodError traceId, isError = True\<rparr>,
         [Log traceId Err ''Tool execution failed''])) \<and>
   (PredictViralityArgsSchema raw = None \<longleftrightarrow> \<not> spec_predict_virality_args raw) \<and>
   (\<not> spec_predict_virality_args raw \<longrightarrow>
      idea_callTool rt traceId ''predict_virality'' raw =
        (\<lparr>content = ErrorDoc ZodError traceId, isError = True\<rparr>,
         [Log traceId Err ''Tool execution failed''])) \<and>
   (GenerateScriptArgsSchema raw = None \<longleftrightarrow> \<not> spec_generate_video_script_args raw) \<and>
   (\<not> spec_generate_video_script_args raw \<longrightarrow>
      script_callTool rt traceId ''generate_video_script'' raw =
        (\<lparr>content = ErrorDoc ZodError traceId, isError = True\<rparr>,
         [Log traceId Err ''Tool execution failed''])) \<and>
   (GenerateStoryboardArgsSchema raw = None \<longleftrightarrow> \<not> spec_generate_storyboard_args raw) \<and>
   (\<not> spec_generate_storyboard_args raw \<longrightarrow>
      script_callTool rt traceId ''generate_storyboard'' raw =
        (\<lparr>content = ErrorDoc ZodError traceId, isError = True\<rparr>,
         [Log traceId Err ''Tool execution failed''])) \<and>
   (GenerateVoiceoverArgsSchema raw = None \<longleftrightarrow> \<not> spec_generate_voiceover_args raw) \<and>
   (\<not> spec_generate_voiceover_args raw \<longrightarrow>
      script_callTool rt traceId ''generate_voiceover'' raw =
        (\<lparr>content = ErrorDoc ZodError traceId, isError = True\<rparr>,
         [Log traceId Err ''Tool execution failed''])) \<and>
   (ExportProjectArgsSchema raw = None \<longleftrightarrow> \<not> spec_export_editing_project_args raw) \<and>
   (\<not> spec_export_editing_project_args raw \<longrightarrow>
      script_callTool rt traceId ''export_editing_project'' raw =
        (\<lparr>content = ErrorDoc ZodError traceId, isError = True\<rparr>,
         [Log traceId Err ''Tool execution failed''])) \<and>
   (OptimizeSEOArgsSchema raw = None \<longleftrightarrow> \<not> spec_optimize_seo_args raw) \<and>
   (\<not> spec_optimize_seo_args raw \<longrightarrow>
      growth_callTool rt traceId ''optimize_seo'' raw =
        (\<lparr>content = ErrorDoc ZodError traceId, isError = True\<rparr>,
         [Log traceId Err ''Tool execution failed''])) \<and>
   (GenerateThumbnailArgsSchema raw = None \<longleftrightarrow> \<not> spec_generate_thumbnail_concepts_args raw) \<and>
   (\<not> spec_generate_thumbnail_concepts_args raw \<longrightarrow>
      growth_callTool rt traceId ''generate_thumbnail_concepts'' raw =
        (\<lparr>content = ErrorDoc ZodError traceId, isError = True\<rparr>,
         [Log traceId Err ''Tool execution failed''])) \<and>
   (OptimizeScheduleArgsSchema raw = None \<longleftrightarrow> \<not> spec_optimize_posting_schedule_args raw) \<and>
   (\<not> spec_optimize_posting_schedule_args raw \<longrightarrow>
      growth_callTool rt traceId ''optimize_posting_schedule'' raw =
        (\<lparr>content = ErrorDoc ZodError traceId, isError = True\<rparr>,
         [Log traceId Err ''Tool execution failed''])) \<and>
   (RepurposeContentArgsSchema raw = None \<longleftrightarrow> \<not> spec_repurpose_content_args raw) \<and>
   (\<not> spec_repurpose_content_args raw \<longrightarrow>
      growth_callTool rt traceId ''repurpose_content'' raw =
        (\<lparr>content = ErrorDoc ZodError traceId, isError = True\<rparr>,
         [Log traceId Err ''Tool execution failed''])) \<and>
   (RunABTestArgsSchema raw = None \<longleftrightarrow> \<not> spec_run_ab_test_args raw) \<and>
   (\<not> spec_run_ab_test_args raw \<longrightarrow>
      growth_callTool rt traceId ''run_ab_test'' raw =
        (\<lparr>content = ErrorDoc ZodError traceId, isError = True\<rparr>,
         [Log traceId Err ''Tool execution failed''])) \<and>
   (map_of kvs ''count'' = Some (JNum c) \<and> (c < 10 \<or> 50 < c \<or> \<not> is_int c) \<longrightarrow>
      idea_callTool rt traceId ''generate_viral_ideas'' (Some (JObj kvs)) =
        (\<lparr>content = ErrorDoc ZodError traceId, isError = True\<rparr>,
         [Log traceId Err ''Tool execution failed''])) \<and>
   (map_of kvs ''platform'' = Some (JStr p) \<and>
    p \<notin> set [''youtube'', ''tiktok'', ''instagram-reels'', ''youtube-shorts'', ''all''] \<longrightarrow>
      idea_callTool rt traceId ''generate_viral_ideas'' (Some (JObj kvs)) =
        (\<lparr>content = ErrorDoc ZodError traceId, isError = True\<rparr>,
         [Log traceId Err ''Tool execution failed''])) \<and>
   (map_of kvs ''niche'' = None \<longrightarrow>
      idea_callTool rt traceId ''generate_viral_ideas'' (Some (JObj kvs)) =
        (\<lparr>content = ErrorDoc ZodError traceId, isError = True\<rparr>,
         [Log traceId Err ''Tool execution failed'']))"
proof -
  have ideas_a: "GenerateIdeasArgsSchema raw = None \<longleftrightarrow> \<not> spec_generate_viral_ideas_args raw"
    by (simp only: ideas_valid_iff[of raw, symmetric] not_not)
  have ideas_b: "idea_callTool rt traceId ''generate_viral_ideas'' raw =
        (\<lparr>content = ErrorDoc ZodError traceId, isError = True\<rparr>,
         [Log traceId Err ''Tool execution failed''])"
    if "\<not> spec_generate_viral_ideas_args raw"
    using that ideas_a by (simp add: idea_callTool_def validated_def reply_def)
  have trends_a: "AnalyzeTrendsArgsSchema raw = None \<longleftrightarrow> \<not> spec_analyze_trending_topics_args raw"
    by (simp only: trends_valid_iff[of raw, symmetric] not_not)
  have trends_b: "idea_callTool rt traceId ''analyze_trending_topics'' raw =
        (\<lparr>content = ErrorDoc ZodError traceId, isError = True\<rparr>,
         [Log traceId Err ''Tool execution failed''])"
    if "\<not> spec_analyze_trending_topics_args raw"
    using that trends_a by (simp add: idea_callTool_def validated_def reply_def)
  have virality_a: "PredictViralityArgsSchema raw = None \<longleftrightarrow> \<not> spec_predict_virality_args raw"
    by (simp only: virality_valid_iff[of raw, symmetric] not_not)
  have virality_b: "idea_callTool rt traceId ''predict_virality'' raw =
        (\<lparr>content = ErrorDoc ZodError traceId, isError = True\<rparr>,
         [Log traceId Err ''Tool execution failed''])"
    if "\<not> spec_predict_virality_args raw"
    using that virality_a by (simp add: idea_callTool_def validated_def reply_def)
  have script_a: "GenerateScriptArgsSchema raw = None \<longleftrightarrow> \<not> spec_generate_video_script_args raw"
    by (simp only: script_valid_iff[of raw, symmetric] not_not)
  have script_b: "script_callTool rt traceId ''generate_video_script'' raw =
        (\<lparr>content = ErrorDoc ZodError traceId, isError = True\<rparr>,
         [Log traceId Err ''Tool execution failed''])"
    if "\<not> spec_generate_video_script_args raw"
    using that script_a by (simp add: script_callTool_def validated_def reply_def)
  have storyboard_a: "GenerateStoryboardArgsSchema raw = None \<longleftrightarrow> \<not> spec_generate_storyboard_args raw"
    by (simp only: storyboard_valid_iff[of raw, symmetric] not_not)
  have storyboard_b: "script_callTool rt traceId ''generate_storyboard'' raw =
        (\<lparr>content = ErrorDoc ZodError traceId, isError = True\<rparr>,
         [Log traceId Err ''Tool execution failed''])"
    if "\<not> spec_generate_storyboard_args raw"
    using that storyboard_a by (simp add: script_callTool_def validated_def reply_def)
  have voiceover_a: "GenerateVoiceoverArgsSchema raw = None \<longleftrightarrow> \<not> spec_generate_voiceover_args raw"
    by (simp only: voiceover_valid_iff[of raw, symmetric] not_not)
  have voiceover_b: "script_callTool rt traceId ''generate_voiceover'' raw =
        (\<lparr>content = ErrorDoc ZodError traceId, isError = True\<rparr>,
         [Log traceId Err ''Tool execution failed''])"
    if "\<not> spec_generate_voiceover_args raw"
    using that voiceover_a by (simp add: script_callTool_def validated_def reply_def)
  have export_a: "ExportProjectArgsSchema raw = None \<longleftrightarrow> \<not> spec_export_editing_project_args raw"
    by (simp only: export_valid_iff[of raw, symmetric] not_not)
  have export_b: "script_callTool rt traceId ''export_editing_project'' raw =
        (\<lparr>content = ErrorDoc ZodError traceId, isError = True\<rparr>,
         [Log traceId Err ''Tool execution failed''])"
    if "\<not> spec_export_editing_project_args raw"
    using that export_a by (simp add: script_callTool_def validated_def reply_def)
  have seo_a: "OptimizeSEOArgsSchema raw = None \<longleftrightarrow> \<not> spec_optimize_seo_args raw"
    by (simp only: seo_valid_iff[of raw, symmetric] not_not)
  have seo_b: "growth_callTool rt traceId ''optimize_seo'' raw =
        (\<lparr>content = ErrorDoc ZodError traceId, isError = True\<rparr>,
         [Log traceId Err ''Tool execution failed''])"
    if "\<not> spec_optimize_seo_args raw"
    using that seo_a by (simp add: growth_callTool_def validated_def reply_def)
  have thumbnail_a: "GenerateThumbnailArgsSchema raw = None \<longleftrightarrow> \<not> spec_generate_thumbnail_concepts_args raw"
    by (simp only: thumbnail_valid_iff[of raw, symmetric] not_not)
  have thumbnail_b: "growth_callTool rt traceId ''generate_thumbnail_concepts'' raw =
        (\<lparr>content = ErrorDoc ZodError traceId, isError = True\<rparr>,
         [Log traceId Err ''Tool execution failed''])"
    if "\<not> spec_generate_thumbnail_concepts_args raw"
    using that thumbnail_a by (simp add: growth_callTool_def validated_def reply_def)
  have schedule_a: "OptimizeScheduleArgsSchema raw = None \<longleftrightarrow> \<not> spec_optimize_posting_schedule_args raw"
    by (simp only: schedule_valid_iff[of raw, symmetric] not_not)
  have schedule_b: "growth_callTool rt traceId ''optimize_posting_schedule'' raw =
        (\<lparr>content = ErrorDoc ZodError traceId, isError = True\<rparr>,
         [Log traceId Err ''Tool execution failed''])"
    if "\<not> spec_optimize_posting_schedule_args raw"
    using that schedule_a by (simp add: growth_callTool_def validated_def reply_def)
  have repurpose_a: "RepurposeContentArgsSchema raw = None \<longleftrightarrow> \<not> spec_repurpose_content_args raw"
    by (simp only: repurpose_valid_iff[of raw, symmetric] not_not)
  have repurpose_b: "growth_callTool rt traceId ''repurpose_content'' raw =
        (\<lparr>content = ErrorDoc ZodError traceId, isError = True\<rparr>,
         [Log traceId Err ''Tool execution failed''])"
    if "\<not> spec_repurpose_content_args raw"
    using that repurpose_a by (simp add: growth_callTool_def validated_def reply_def)
  have abtest_a: "RunABTestArgsSchema raw = None \<longleftrightarrow> \<not> spec_run_ab_test_args raw"
    by (simp only: abtest_valid_iff[of raw, symmetric] not_not)
  have abtest_b: "growth_callTool rt traceId ''run_ab_test'' raw =
        (\<lparr>content = ErrorDoc ZodError traceId, isError = True\<rparr>,
         [Log traceId Err ''Tool execution failed''])"
    if "\<not> spec_run_ab_test_args raw"
    using that abtest_a by (simp add: growth_callTool_def validated_def reply_def)
  have reject: "idea_callTool rt traceId ''generate_viral_ideas'' (Some (JObj kvs)) =
        (\<lparr>content = ErrorDoc ZodError traceId, isError = True\<rparr>,
         [Log traceId Err ''Tool execution failed''])"
    if "\<not> spec_generate_viral_ideas_args (Some (JObj kvs))"
    using that ideas_valid_iff[of "Some (JObj kvs)"]
    by (simp add: idea_callTool_def validated_def reply_def del: not_None_eq)
  have count: "idea_callTool rt traceId ''generate_viral_ideas'' (Some (JObj kvs)) =
        (\<lparr>content = ErrorDoc ZodError traceId, isError = True\<rparr>,
         [Log traceId Err ''Tool execution failed''])"
    if "map_of kvs ''count'' = Some (JNum c) \<and> (c < 10 \<or> 50 < c \<or> \<not> is_int c)"
  proof (rule reject)
    from that have "\<not> spec_number (\<lambda>c. is_int c \<and> 10 \<le> c \<and> c \<le> 50) (map_of kvs ''count'')"
      by (auto simp: spec_number_def)
    then show "\<not> spec_generate_viral_ideas_args (Some (JObj kvs))"
      by (simp add: spec_generate_viral_ideas_args_def spec_object_def)
  qed
  have platform: "idea_callTool rt traceId ''generate_viral_ideas'' (Some (JObj kvs)) =
        (\<lparr>content = ErrorDoc ZodError traceId, isError = True\<rparr>,
         [Log traceId Err ''Tool execution failed''])"
    if "map_of kvs ''platform'' = Some (JStr p) \<and>
        p \<notin> set [''youtube'', ''tiktok'', ''instagram-reels'', ''youtube-shorts'', ''all'']"
  proof (rule reject)
    from that have "\<not> spec_enum [''youtube'', ''tiktok'', ''instagram-reels'', ''youtube-shorts'', ''all'']
            (map_of kvs ''platform'')"
      by (simp add: spec_enum_def)
    then show "\<not> spec_generate_viral_ideas_args (Some (JObj kvs))"
      by (simp add: spec_generate_viral_ideas_args_def spec_object_def)
  qed
  have niche: "idea_callTool rt traceId ''generate_viral_ideas'' (Some (JObj kvs)) =
        (\<lparr>content = ErrorDoc ZodError traceId, isError = True\<rparr>,
         [Log traceId Err ''Tool execution failed''])"
    if "map_of kvs ''niche'' = None"
  proof (rule reject)
    from that have "\<not> spec_string (map_of kvs ''niche'')"
      by (simp add: spec_string_def)
    then show "\<not> spec_generate_viral_ideas_args (Some (JObj kvs))"
      by (simp add: spec_generate_viral_ideas_args_def spec_object_def)
  qed
  note a = ideas_a trends_a virality_a script_a storyboard_a voiceover_a export_a seo_a thumbnail_a schedule_a repurpose_a abtest_a
  note b = ideas_b trends_b virality_b script_b storyboard_b voiceover_b export_b seo_b thumbnail_b schedule_b repurpose_b abtest_b count platform niche
  show ?thesis
    by (intro conjI; (intro impI)?; (fact a | erule b))
qed

lemmas z_defs = z_object_def z_string_def z_enum_def z_default_def z_number_def z_optional_def
  z_boolean_def z_check_def z_array_def z_passthrough_def is_int_def

lemma example_ideas_args:
  "GenerateIdeasArgsSchema (Some example_ideas_raw) =
     Some \<lparr>gi_niche = ''cooking'', gi_platform = ''youtube'', gi_count = 10, gi_trendWindow = ''7d''\<rparr>"
  by (simp add: GenerateIdeasArgsSchema_def example_ideas_raw_def z_defs)

lemma example_virality_args:
  "PredictViralityArgsSchema (Some example_virality_raw) =
     Some \<lparr>pv_title = ''Five knife skills'', pv_description = ''Knife basics for home cooks'',
           pv_platform = ''tiktok'', pv_niche = ''cooking''\<rparr>"
  by (simp add: PredictViralityArgsSchema_def example_virality_raw_def z_defs)

lemma example_seo_args:
  "OptimizeSEOArgsSchema (Some example_seo_raw) =
     Some \<lparr>oseo_title = ''Five knife skills'', oseo_description = ''Knife basics for home cooks'',
           oseo_platform = ''youtube'', oseo_niche = ''cooking'', oseo_targetAudience = None\<rparr>"
  by (simp add: OptimizeSEOArgsSchema_def example_seo_raw_def z_defs)

lemma example_thumbnail_args:
  "GenerateThumbnailArgsSchema (Some example_thumbnail_raw) =
     Some \<lparr>th_title = ''Five knife skills'', th_platform = ''youtube'', th_niche = None,
           th_style = None\<rparr>"
  by (simp add: GenerateThumbnailArgsSchema_def example_thumbnail_raw_def z_defs)

lemma example_repurpose_args:
  "RepurposeContentArgsSchema (Some example_repurpose_raw) =
     Some \<lparr>rc_videoTranscript = ''Today we sharpen a knife.'', rc_videoDuration = 600,
           rc_targetPlatforms = [''tiktok''], rc_clipDuration = 45\<rparr>"
  by (simp add: RepurposeContentArgsSchema_def example_repurpose_raw_def z_defs)

lemma example_abtest_args:
  "RunABTestArgsSchema (Some example_abtest_raw) =
     Some \<lparr>ab_element = ''title'', ab_original = ''Five knife skills'', ab_variants = 3,
           ab_platform = ''youtube''\<rparr>"
  by (simp add: RunABTestArgsSchema_def example_abtest_raw_def z_defs)

lemma example_voiceover_args:
  "GenerateVoiceoverArgsSchema (Some example_voiceover_raw) =
     Some \<lparr>vo_script = ''Today we sharpen a knife.'', vo_voice = ''neutral'',
           vo_provider = ''huggingface'', vo_format = ''mp3''\<rparr>"
  by (simp add: GenerateVoiceoverArgsSchema_def example_voiceover_raw_def z_defs)

lemma example_elevenlabs_args:
  "GenerateVoiceoverArgsSchema (Some example_elevenlabs_raw) =
     Some \<lparr>vo_script = ''Today we sharpen a knife.'', vo_voice = ''neutral'',
           vo_provider = ''elevenlabs'', vo_format = ''mp3''\<rparr>"
  by (simp add: GenerateVoiceoverArgsSchema_def example_elevenlabs_raw_def z_defs)

lemma example_scrape:
  "scrapeTrendingTopics example_runtime ''cooking'' [''youtube'', ''reddit'', ''google-trends''] tid =
     (Inr [''how to cooking'', ''cooking for beginners'', ''cooking vs'', ''cooking mistakes''],
      [HttpGet youtubeUrl, Log tid Warn ''YouTube scraping failed'',
       HttpGet (redditUrl ''cooking''), Log tid Warn ''Reddit scraping failed''])"
  by (simp add: scrapeTrendingTopics_def collectedTrends_def youtubeBlock_def twitterBlock_def
        redditBlock_def googleBlock_def example_runtime_def uniq_def)

lemma example_answer: "generateContent example_runtime p = Inr ''I cannot help with that.''"
  by (simp add: example_runtime_def)

text \<open>
  The example provider answers every prompt with a sentence that has no brace and no
  bracket; the six tools reply with their defaults.
\<close>

theorem lenient_handlers_default_without_json_witness:
  "credential example_runtime ''GEMINI_API_KEY'' = Some ''secret'' \<and>
   generateContent example_runtime = (\<lambda>p. Inr ''I cannot help with that.'') \<and>
   CHR ''{'' \<notin> set ''I cannot help with that.'' \<and> CHR ''['' \<notin> set ''I cannot help with that.'' \<and>
   fst (idea_callTool example_runtime ''t5'' ''generate_viral_ideas'' (Some example_ideas_raw)) =
     \<lparr>content = Result (IdeasResult [] 0), isError = False\<rparr> \<and>
   fst (idea_callTool example_runtime ''t5'' ''predict_virality'' (Some example_virality_raw)) =
     \<lparr>content = Result (PredictionResult (JObj [(''overallScore'', JNum 50)])), isError = False\<rparr> \<and>
   fst (growth_callTool example_runtime ''t5'' ''repurpose_content'' (Some example_repurpose_raw)) =
     \<lparr>content = Result (RepurposeResult (JObj [(''clips'', JArr [])])), isError = False\<rparr> \<and>
   fst (growth_callTool example_runtime ''t5'' ''optimize_seo'' (Some example_seo_raw)) =
     \<lparr>content = Result (SEOResult (JObj [])), isError = False\<rparr> \<and>
   isError (fst (growth_callTool example_runtime ''t5'' ''generate_thumbnail_concepts''
                   (Some example_thumbnail_raw))) = False \<and>
   fst (growth_callTool example_runtime ''t5'' ''run_ab_test'' (Some example_abtest_raw)) =
     \<lparr>content = Result (ABTestResult (JObj [(''variants'', JArr [])])), isError = False\<rparr>"
proof -
  have c: "CHR ''{'' \<notin> set ''I cannot help with that.''" "CHR ''['' \<notin> set ''I cannot help with that.''"
    by simp_all
  note inst = lenient_handlers_default_without_json[OF example_credential c,
      where traceId = "''t5''"]
  have g: "generateContent example_runtime = (\<lambda>p. Inr ''I cannot help with that.'')"
    by (simp add: example_runtime_def)
  have 1: "fst (idea_callTool example_runtime ''t5'' ''generate_viral_ideas'' (Some example_ideas_raw)) =
     \<lparr>content = Result (IdeasResult [] 0), isError = False\<rparr>"
    using inst[where raw = "Some example_ideas_raw"
        and ideasArgs = "\<lparr>gi_niche = ''cooking'', gi_platform = ''youtube'', gi_count = 10,
                           gi_trendWindow = ''7d''\<rparr>"
        and trends = "[''how to cooking'', ''cooking for beginners'', ''cooking vs'',
                       ''cooking mistakes'']", THEN conjunct1]
    by (simp add: example_ideas_args example_scrape example_answer)
  have 2: "fst (idea_callTool example_runtime ''t5'' ''predict_virality'' (Some example_virality_raw)) =
     \<lparr>content = Result (PredictionResult (JObj [(''overallScore'', JNum 50)])), isError = False\<rparr>"
    using inst[where raw = "Some example_virality_raw"
        and viralityArgs = "\<lparr>pv_title = ''Five knife skills'',
           pv_description = ''Knife basics for home cooks'', pv_platform = ''tiktok'',
           pv_niche = ''cooking''\<rparr>", THEN conjunct2, THEN conjunct1]
    by (simp add: example_virality_args example_answer)
  have 3: "fst (growth_callTool example_runtime ''t5'' ''repurpose_content'' (Some example_repurpose_raw)) =
     \<lparr>content = Result (RepurposeResult (JObj [(''clips'', JArr [])])), isError = False\<rparr>"
    using inst[where raw = "Some example_repurpose_raw"
        and repurposeArgs = "\<lparr>rc_videoTranscript = ''Today we sharpen a knife.'',
           rc_videoDuration = 600, rc_targetPlatforms = [''tiktok''], rc_clipDuration = 45\<rparr>",
        THEN conjunct2, THEN conjunct2, THEN conjunct1]
    by (simp add: example_repurpose_args example_answer)
  have 4: "fst (growth_callTool example_runtime ''t5'' ''optimize_seo'' (Some example_seo_raw)) =
     \<lparr>content = Result (SEOResult (JObj [])), isError = False\<rparr>"
    using inst[where raw = "Some example_seo_raw"
        and seoArgs = "\<lparr>oseo_title = ''Five knife skills'',
           oseo_description = ''Knife basics for home cooks'', oseo_platform = ''youtube'',
           oseo_niche = ''cooking'', oseo_targetAudience = None\<rparr>"
        and rules = "the (platformRules ''youtube'')", THEN conjunct2, THEN conjunct2,
        THEN conjunct2, THEN conjunct1]
    by (simp add: example_seo_args example_answer platformRules_def)
  have 5: "isError (fst (growth_callTool example_runtime ''t5'' ''generate_thumbnail_concepts''
                   (Some example_thumbnail_raw))) = False"
    using inst[where raw = "Some example_thumbnail_raw"
        and thumbnailArgs = "\<lparr>th_title = ''Five knife skills'', th_platform = ''youtube'',
           th_niche = None, th_style = None\<rparr>", THEN conjunct2, THEN conjunct2,
        THEN conjunct2, THEN conjunct2, THEN conjunct1]
    by (simp add: example_thumbnail_args example_answer)
  have 6: "fst (growth_callTool example_runtime ''t5'' ''run_ab_test'' (Some example_abtest_raw)) =
     \<lparr>content = Result (ABTestResult (JObj [(''variants'', JArr [])])), isError = False\<rparr>"
    using inst[where raw = "Some example_abtest_raw"
        and abArgs = "\<lparr>ab_element = ''title'', ab_original = ''Five knife skills'',
           ab_variants = 3, ab_platform = ''youtube''\<rparr>", THEN conjunct2, THEN conjunct2,
        THEN conjunct2, THEN conjunct2, THEN conjunct2]
    by (simp add: example_abtest_args example_answer)
  show ?thesis
    by (intro conjI example_credential g c 1 2 3 4 5 6)
qed

text \<open>
  Arguments with a count of 51, the platform \<open>facebook\<close> and nothing else violate a
  constraint of every tool: each of the twelve calls replies with the error envelope
  and makes no external call.
\<close>

theorem invalid_arguments_fail_before_any_request_witness:
  "map_of [(''count'', JNum 51), (''platform'', JStr ''facebook'')] ''count'' = Some (JNum 51) \<and>
   (50::rat) < 51 \<and>
   map_of [(''count'', JNum 51), (''platform'', JStr ''facebook'')] ''platform'' = Some (JStr ''facebook'') \<and>
   ''facebook'' \<notin> set [''youtube'', ''tiktok'', ''instagram-reels'', ''youtube-shorts'', ''all''] \<and>
   map_of [(''count'', JNum 51), (''platform'', JStr ''facebook'')] ''niche'' = None \<and>
   \<not> spec_generate_viral_ideas_args (Some example_invalid_raw) \<and>
   \<not> spec_analyze_trending_topics_args (Some example_invalid_raw) \<and>
   \<not> spec_predict_virality_args (Some example_invalid_raw) \<and>
   \<not> spec_generate_video_script_args (Some example_invalid_raw) \<and>
   \<not> spec_generate_storyboard_args (Some example_invalid_raw) \<and>
   \<not> spec_generate_voiceover_args (Some example_invalid_raw) \<and>
   \<not> spec_export_editing_project_args (Some example_invalid_raw) \<and>
   \<not> spec_optimize_seo_args (Some example_invalid_raw) \<and>
   \<not> spec_generate_thumbnail_concepts_args (Some example_invalid_raw) \<and>
   \<not> spec_optimize_posting_schedule_args (Some example_invalid_raw) \<and>
   \<not> spec_repurpose_content_args (Some example_invalid_raw) \<and>
   \<not> spec_run_ab_test_args (Some example_invalid_raw) \<and>
   GenerateIdeasArgsSchema (Some example_invalid_raw) = None \<and>
   AnalyzeTrendsArgsSchema (Some example_invalid_raw) = None \<and>
   PredictViralityArgsSchema (Some example_invalid_raw) = None \<and>
   GenerateScriptArgsSchema (Some example_invalid_raw) = None \<and>
   GenerateStoryboardArgsSchema (Some example_invalid_raw) = None \<and>
   GenerateVoiceoverArgsSchema (Some example_invalid_raw) = None \<and>
   ExportProjectArgsSchema (Some example_invalid_raw) = None \<and>
   OptimizeSEOArgsSchema (Some example_invalid_raw) = None \<and>
   GenerateThumbnailArgsSchema (Some example_invalid_raw) = None \<and>
   OptimizeScheduleArgsSchema (Some example_invalid_raw) = None \<and>
   RepurposeContentArgsSchema (Some example_invalid_raw) = None \<and>
   RunABTestArgsSchema (Some example_invalid_raw) = None \<and>
   idea_callTool example_runtime ''t6'' ''generate_viral_ideas'' (Some example_invalid_raw) =
     (\<lparr>content = ErrorDoc ZodError ''t6'', isError = True\<rparr>, [Log ''t6'' Err ''Tool execution failed'']) \<and>
   idea_callTool example_runtime ''t6'' ''analyze_trending_topics'' (Some example_invalid_raw) =
     (\<lparr>content = ErrorDoc ZodError ''t6'', isError = True\<rparr>, [Log ''t6'' Err ''Tool execution failed'']) \<and>
   idea_callTool example_runtime ''t6'' ''predict_virality'' (Some example_invalid_raw) =
     (\<lparr>content = ErrorDoc ZodError ''t6'', isError = True\<rparr>, [Log ''t6'' Err ''Tool execution failed'']) \<and>
   script_callTool example_runtime ''t6'' ''generate_video_script'' (Some example_invalid_raw) =
     (\<lparr>content = ErrorDoc ZodError ''t6'', isError = True\<rparr>, [Log ''t6'' Err ''Tool execution failed'']) \<and>
   script_callTool example_runtime ''t6'' ''generate_storyboard'' (Some example_invalid_raw) =
     (\<lparr>content = ErrorDoc ZodError ''t6'', isError = True\<rparr>, [Log ''t6'' Err ''Tool execution failed'']) \<and>
   script_callTool example_runtime ''t6'' ''generate_voiceover'' (Some example_invalid_raw) =
     (\<lparr>content = ErrorDoc ZodError ''t6'', isError = True\<rparr>, [Log ''t6'' Err ''Tool execution failed'']) \<and>
   script_callTool example_runtime ''t6'' ''export_editing_project'' (Some example_invalid_raw) =
     (\<lparr>content = ErrorDoc ZodError ''t6'', isError = True\<rparr>, [Log ''t6'' Err ''Tool execution failed'']) \<and>
   growth_callTool example_runtime ''t6'' ''optimize_seo'' (Some example_invalid_raw) =
     (\<lparr>content = ErrorDoc ZodError ''t6'', isError = True\<rparr>, [Log ''t6'' Err ''Tool execution failed'']) \<and>
   growth_callTool example_runtime ''t6'' ''generate_thumbnail_concepts'' (Some example_invalid_raw) =
     (\<lparr>content = ErrorDoc ZodError ''t6'', isError = True\<rparr>, [Log ''t6'' Err ''Tool execution failed'']) \<and>
   growth_callTool example_runtime ''t6'' ''optimize_posting_schedule'' (Some example_invalid_raw) =
     (\<lparr>content = ErrorDoc ZodError ''t6'', isError = True\<rparr>, [Log ''t6'' Err ''Tool execution failed'']) \<and>
   growth_callTool example_runtime ''t6'' ''repurpose_content'' (Some example_invalid_raw) =
     (\<lparr>content = ErrorDoc ZodError ''t6'', isError = True\<rparr>, [Log ''t6'' Err ''Tool execution failed'']) \<and>
   growth_callTool example_runtime ''t6'' ''run_ab_test'' (Some example_invalid_raw) =
     (\<lparr>content = ErrorDoc ZodError ''t6'', isError = True\<rparr>, [Log ''t6'' Err ''Tool execution failed'']) \<and>
   external_calls (snd (idea_callTool example_runtime ''t6'' ''generate_viral_ideas''
                          (Some example_invalid_raw))) = [] \<and>
   external_calls (snd (idea_callTool example_runtime ''t6'' ''analyze_trending_topics''
                          (Some example_invalid_raw))) = [] \<and>
   external_calls (snd (idea_callTool example_runtime ''t6'' ''predict_virality''
                          (Some example_invalid_raw))) = [] \<and>
   external_calls (snd (script_callTool example_runtime ''t6'' ''generate_video_script''
                          (Some example_invalid_raw))) = [] \<and>
   external_calls (snd (script_callTool example_runtime ''t6'' ''generate_storyboard''
                          (Some example_invalid_raw))) = [] \<and>
   external_calls (snd (script_callTool example_runtime ''t6'' ''generate_voiceover''
                          (Some example_invalid_raw))) = [] \<and>
   external_calls (snd (script_callTool example_runtime ''t6'' ''export_editing_project''
                          (Some example_invalid_raw))) = [] \<and>
   external_calls (snd (growth_callTool example_runtime ''t6'' ''optimize_seo''
                          (Some example_invalid_raw))) = [] \<and>
   external_calls (snd (growth_callTool example_runtime ''t6'' ''generate_thumbnail_concepts''
                          (Some example_invalid_raw))) = [] \<and>
   external_calls (snd (growth_callTool example_runtime ''t6'' ''optimize_posting_schedule''
                          (Some example_invalid_raw))) = [] \<and>
   external_calls (snd (growth_callTool example_runtime ''t6'' ''repurpose_content''
                          (Some example_invalid_raw))) = [] \<and>
   external_calls (snd (growth_callTool example_runtime ''t6'' ''run_ab_test''
                          (Some example_invalid_raw))) = []"
proof -
  note inst = invalid_arguments_fail_before_any_request[where raw = "Some example_invalid_raw"
      and rt = example_runtime and traceId = "''t6''"
      and kvs = "[(''count'', JNum 51), (''platform'', JStr ''facebook'')]" and c = 51
      and p = "''facebook''"]
  have v0: "\<not> spec_generate_viral_ideas_args (Some example_invalid_raw)"
    by (simp add: spec_generate_viral_ideas_args_def example_invalid_raw_def spec_object_def spec_string_def spec_enum_def
          spec_number_def)
  have s0: "GenerateIdeasArgsSchema (Some example_invalid_raw) = None"
    using inst[THEN conjunct1] v0 by blast
  have r0: "idea_callTool example_runtime ''t6'' ''generate_viral_ideas'' (Some example_invalid_raw) =
     (\<lparr>content = ErrorDoc ZodError ''t6'', isError = True\<rparr>, [Log ''t6'' Err ''Tool execution failed''])"
    using inst[THEN conjunct2, THEN conjunct1] v0 by blast
  have v1: "\<not> spec_analyze_trending_topics_args (Some example_invalid_raw)"
    by (simp add: spec_analyze_trending_topics_args_def example_invalid_raw_def spec_object_def spec_string_def spec_enum_def
          spec_number_def)
  have s1: "AnalyzeTrendsArgsSchema (Some example_invalid_raw) = None"
    using inst[THEN conjunct2, THEN conjunct2, THEN conjunct1] v1 by blast
  have r1: "idea_callTool example_runtime ''t6'' ''analyze_trending_topics'' (Some example_invalid_raw) =
     (\<lparr>content = ErrorDoc ZodError ''t6'', isError = True\<rparr>, [Log ''t6'' Err ''Tool execution failed''])"
    using inst[THEN conjunct2, THEN conjunct2, THEN conjunct2, THEN conjunct1] v1 by blast
  have v2: "\<not> spec_predict_virality_args (Some example_invalid_raw)"
    by (simp add: spec_predict_virality_args_def example_invalid_raw_def spec_object_def spec_string_def spec_enum_def
          spec_number_def)
  have s2: "PredictViralityArgsSchema (Some example_invalid_raw) = None"
    using inst[THEN conjunct2, THEN conjunct2, THEN conjunct2, THEN conjunct2, THEN conjunct1] v2 by blast
  have r2: "idea_callTool example_runtime ''t6'' ''predict_virality'' (Some example_invalid_raw) =
     (\<lparr>content = ErrorDoc ZodError ''t6'', isError = True\<rparr>, [Log ''t6'' Err ''Tool execution failed''])"
    using inst[THEN conjunct2, THEN conjunct2, THEN conjunct2, THEN conjunct2, THEN conjunct2, THEN conjunct1] v2 by blast
  have v3: "\<not> spec_generate_video_script_args (Some example_invalid_raw)"
    by (simp add: spec_generate_video_script_args_def example_invalid_raw_def spec_object_def spec_string_def spec_enum_def
          spec_number_def)
  have s3: "GenerateScriptArgsSchema (Some example_invalid_raw) = None"
    using inst[THEN conjunct2, THEN conjunct2, THEN conjunct2, THEN conjunct2, THEN conjunct2, THEN conjunct2, THEN conjunct1] v3 by blast
  have r3: "script_callTool example_runtime ''t6'' ''generate_video_script'' (Some example_invalid_raw) =
     (\<lparr>content = ErrorDoc ZodError ''t6'', isError = True\<rparr>, [Log ''t6'' Err ''Tool execution failed''])"
    using inst[THEN conjunct2, THEN conjunct2, THEN conjunct2, THEN conjunct2, THEN conjunct2, THEN conjunct2, THEN conjunct2, THEN conjunct1] v3 by blast
  have v4: "\<not> spec_generate_storyboard_args (Some example_invalid_raw)"
    by (simp add: spec_generate_storyboard_args_def example_invalid_raw_def spec_object_def spec_string_def spec_enum_def
          spec_number_def)
  have s4: "GenerateStoryboardArgsSchema (Some example_invalid_raw) = None"
    using inst[THEN conjunct2, THEN conjunct2, THEN conjunct2, THEN conjunct2, THEN conjunct2, THEN conjunct2, THEN conjunct2, THEN conjunct2, THEN conjunct1] v4 by blast
  have r4: "script_callTool example_runtime ''t6'' ''generate_storyboard'' (Some example_invalid_raw) =
     (\<lparr>content = ErrorDoc ZodError ''t6'', isError = True\<rparr>, [Log ''t6'' Err ''Tool execution failed''])"
    using inst[THEN conjunct2, THEN conjunct2, THEN conjunct2, THEN conjunct2, THEN conjunct2, THEN conjunct2, THEN conjunct2, THEN conjunct2, THEN conjunct2, THEN conjunct1] v4 by blast
  have v5: "\<not> spec_generate_voiceover_args (Some example_invalid_raw)"
    by (simp add: spec_generate_voiceover_args_def example_invalid_raw_def spec_object_def spec_string_def spec_enum_def
          spec_number_def)
  have s5: "GenerateVoiceoverArgsSchema (Some example_invalid_raw) = None"
    using inst[THEN conjunct2, THEN conjunct2, THEN conjunct2, THEN conjunct2, THEN conjunct2, THEN conjunct2, THEN conjunct2, THEN conjunct2, THEN conjunct2, THEN conjunct2, THEN conjunct1] v5 by blast
  have r5: "script_callTool example_runtime ''t6'' ''generate_voiceover'' (Some example_invalid_raw) =
     (\<lparr>content = ErrorDoc ZodError ''t6'', isError = True\<rparr>, [Log ''t6'' Err ''Tool execution failed''])"
    using inst[THEN conjunct2, THEN conjunct2, THEN conjunct2, THEN conjunct2, THEN conjunct2, THEN conjunct2, THEN conjunct2, THEN conjunct2, THEN conjunct2, THEN conjunct2, THEN conjunct2, THEN conjunct1] v5 by blast
  have v6: "\<not> spec_export_editing_project_args (Some example_invalid_raw)"
    by (simp add: spec_export_editing_project_args_def example_invalid_raw_def spec_object_def spec_string_def spec_enum_def
          spec_number_def)
  have s6: "ExportProjectArgsSchema (Some example_invalid_raw) = None"
    using inst[THEN conjunct2, THEN conjunct2, THEN conjunct2, THEN conjunct2, THEN conjunct2, THEN conjunct2, THEN conjunct2, THEN conjunct2, THEN conjunct2, THEN conjunct2, THEN conjunct2, THEN conjunct2, THEN conjunct1] v6 by blast
  have r6: "script_callTool example_runtime ''t6'' ''export_editing_project'' (Some example_invalid_raw) =
     (\<lparr>content = ErrorDoc ZodError ''t6'', isError = True\<rparr>, [Log ''t6'' Err ''Tool execution failed''])"
    using inst[THEN conjunct2, THEN conjunct2, THEN conjunct2, THEN conjunct2, THEN conjunct2, THEN conjunct2, THEN conjunct2, THEN conjunct2, THEN conjunct2, THEN conjunct2, THEN conjunct2, THEN conjunct2, THEN conjunct2, THEN conjunct1] v6 by blast
  have v7: "\<not> spec_optimize_seo_args (Some example_invalid_raw)"
    by (simp add: spec_optimize_seo_args_def example_invalid_raw_def spec_object_def spec_string_def spec_enum_def
          spec_number_def)
  have s7: "OptimizeSEOArgsSchema (Some example_invalid_raw) = None"
    using inst[THEN conjunct2, THEN conjunct2, THEN conjunct2, THEN conjunct2, THEN conjunct2, THEN conjunct2, THEN conjunct2, THEN conjunct2, THEN conjunct2, THEN conjunct2, THEN conjunct2, THEN conjunct2, THEN conjunct2, THEN conjunct2, THEN conjunct1] v7 by blast
  have r7: "growth_callTool example_runtime ''t6'' ''optimize_seo'' (Some example_invalid_raw) =
     (\<lparr>content = ErrorDoc ZodError ''t6'', isError = True\<rparr>, [Log ''t6'' Err ''Tool execution failed''])"
    using inst[THEN conjunct2, THEN conjunct2, THEN conjunct2, THEN conjunct2, THEN conjunct2, THEN conjunct2, THEN conjunct2, THEN conjunct2, THEN conjunct2, THEN conjunct2, THEN conjunct2, THEN conjunct2, THEN conjunct2, THEN conjunct2, THEN conjunct2, THEN conjunct1] v7 by blast
  have v8: "\<not> spec_generate_thumbnail_concepts_args (Some example_invalid_raw)"
    by (simp add: spec_generate_thumbnail_concepts_args_def example_invalid_raw_def spec_object_def spec_string_def spec_enum_def
          spec_number_def)
  have s8: "GenerateThumbnailArgsSchema (Some example_invalid_raw) = None"
    using inst[THEN conjunct2, THEN conjunct2, THEN conjunct2, THEN conjunct2, THEN conjunct2, THEN conjunct2, THEN conjunct2, THEN conjunct2, THEN conjunct2, THEN conjunct2, THEN conjunct2, THEN conjunct2, THEN conjunct2, THEN conjunct2, THEN conjunct2, THEN conjunct2, THEN conjunct1] v8 by blast
  have r8: "growth_callTool example_runtime ''t6'' ''generate_thumbnail_concepts'' (Some example_invalid_raw) =
     (\<lparr>content = ErrorDoc ZodError ''t6'', isError = True\<rparr>, [Log ''t6'' Err ''Tool execution failed''])"
    using inst[THEN conjunct2, THEN conjunct2, THEN conjunct2, THEN conjunct2, THEN conjunct2, THEN conjunct2, THEN conjunct2, THEN conjunct2, THEN conjunct2, THEN conjunct2, THEN conjunct2, THEN conjunct2, THEN conjunct2, THEN conjunct2, THEN conjunct2, THEN conjunct2, THEN conjunct2, THEN conjunct1] v8 by blast
  have v9: "\<not> spec_optimize_posting_schedule_args (Some example_invalid_raw)"
    by (simp add: spec_optimize_posting_schedule_args_def example_invalid_raw_def spec_object_def spec_string_def spec_enum_def
          spec_number_def)
  have s9: "OptimizeScheduleArgsSchema (Some example_invalid_raw) = None"
    using inst[THEN conjunct2, THEN conjunct2, THEN conjunct2, THEN conjunct2, THEN conjunct2, THEN conjunct2, THEN conjunct2, THEN conjunct2, THEN conjunct2, THEN conjunct2, THEN conjunct2, THEN conjunct2, THEN conjunct2, THEN conjunct2, THEN conjunct2, THEN conjunct2, THEN conjunct2, THEN conjunct2, THEN conjunct1] v9 by blast
  have r9: "growth_callTool example_runtime ''t6'' ''optimize_posting_schedule'' (Some example_invalid_raw) =
     (\<lparr>content = ErrorDoc ZodError ''t6'', isError = True\<rparr>, [Log ''t6'' Err ''Tool execution failed''])"
    using inst[THEN conjunct2, THEN conjunct2, THEN conjunct2, THEN conjunct2, THEN conjunct2, THEN conjunct2, THEN conjunct2, THEN conjunct2, THEN conjunct2, THEN conjunct2, THEN conjunct2, THEN conjunct2, THEN conjunct2, THEN conjunct2, THEN conjunct2, THEN conjunct2, THEN conjunct2, THEN conjunct2, THEN conjunct2, THEN conjunct1] v9 by blast
  have v10: "\<not> spec_repurpose_content_args (Some example_invalid_raw)"
    by (simp add: spec_repurpose_content_args_def example_invalid_raw_def spec_object_def spec_string_def spec_enum_def
          spec_number_def)
  have s10: "RepurposeContentArgsSchema (Some example_invalid_raw) = None"
    using inst[THEN conjunct2, THEN conjunct2, THEN conjunct2, THEN conjunct2, THEN conjunct2, THEN conjunct2, THEN conjunct2, THEN conjunct2, THEN conjunct2, THEN conjunct2, THEN conjunct2, THEN conjunct2, THEN conjunct2, THEN conjunct2, THEN conjunct2, THEN conjunct2, THEN conjunct2, THEN conjunct2, THEN conjunct2, THEN conjunct2, THEN conjunct1] v10 by blast
  have r10: "growth_callTool example_runtime ''t6'' ''repurpose_content'' (Some example_invalid_raw) =
     (\<lparr>content = ErrorDoc ZodError ''t6'', isError = True\<rparr>, [Log ''t6'' Err ''Tool execution failed''])"
    using inst[THEN conjunct2, THEN conjunct2, THEN conjunct2, THEN conjunct2, THEN conjunct2, THEN conjunct2, THEN conjunct2, THEN conjunct2, THEN conjunct2, THEN conjunct2, THEN conjunct2, THEN conjunct2, THEN conjunct2, THEN conjunct2, THEN conjunct2, THEN conjunct2, THEN conjunct2, THEN conjunct2, THEN conjunct2, THEN conjunct2, THEN conjunct2, THEN conjunct1] v10 by blast
  have v11: "\<not> spec_run_ab_test_args (Some example_invalid_raw)"
    by (simp add: spec_run_ab_test_args_def example_invalid_raw_def spec_object_def spec_string_def spec_enum_def
          spec_number_def)
  have s11: "RunABTestArgsSchema (Some example_invalid_raw) = None"
    using inst[THEN conjunct2, THEN conjunct2, THEN conjunct2, THEN conjunct2, THEN conjunct2, THEN conjunct2, THEN conjunct2, THEN conjunct2, THEN conjunct2, THEN conjunct2, THEN conjunct2, THEN conjunct2, THEN conjunct2, THEN conjunct2, THEN conjunct2, THEN conjunct2, THEN conjunct2, THEN conjunct2, THEN conjunct2, THEN conjunct2, THEN conjunct2, THEN conjunct2, THEN conjunct1] v11 by blast
  have r11: "growth_callTool example_runtime ''t6'' ''run_ab_test'' (Some example_invalid_raw) =
     (\<lparr>content = ErrorDoc ZodError ''t6'', isError = True\<rparr>, [Log ''t6'' Err ''Tool execution failed''])"
    using inst[THEN conjunct2, THEN conjunct2, THEN conjunct2, THEN conjunct2, THEN conjunct2, THEN conjunct2, THEN conjunct2, THEN conjunct2, THEN conjunct2, THEN conjunct2, THEN conjunct2, THEN conjunct2, THEN conjunct2, THEN conjunct2, THEN conjunct2, THEN conjunct2, THEN conjunct2, THEN conjunct2, THEN conjunct2, THEN conjunct2, THEN conjunct2, THEN conjunct2, THEN conjunct2, THEN conjunct1] v11 by blast
  show ?thesis
    by (simp add: v0 s0 r0 v1 s1 r1 v2 s2 r2 v3 s3 r3 v4 s4 r4 v5 s5 r5 v6 s6 r6 v7 s7 r7 v8 s8 r8 v9 s9 r9 v10 s10 r10 v11 s11 r11 external_calls_def)
qed

lemma no_credentials_env: "env no_credentials_runtime k = None"
  by (simp add: no_credentials_runtime_def)

theorem missing_credential_fails_before_any_request_witness:
  "env no_credentials_runtime ''GEMINI_API_KEY'' = None \<and>
   env no_credentials_runtime ''ELEVENLABS_API_KEY'' = None \<and>
   env no_credentials_runtime ''HUGGINGFACE_API_KEY'' = None \<and>
   idea_callTool no_credentials_runtime ''t7'' ''generate_viral_ideas'' (Some example_ideas_raw) =
     (\<lparr>content = ErrorDoc (TrendAnalysisError ''GEMINI_API_KEY not found'') ''t7'', isError = True\<rparr>,
      [Log ''t7'' Err ''Tool execution failed'']) \<and>
   idea_callTool no_credentials_runtime ''t7'' ''predict_virality'' (Some example_virality_raw) =
     (\<lparr>content = ErrorDoc (TrendAnalysisError ''GEMINI_API_KEY not found'') ''t7'', isError = True\<rparr>,
      [Log ''t7'' Err ''Tool execution failed'']) \<and>
   script_callTool no_credentials_runtime ''t7'' ''generate_video_script'' (Some example_script_raw) =
     (\<lparr>content = ErrorDoc (Error ''GEMINI_API_KEY not found'') ''t7'', isError = True\<rparr>,
      [Log ''t7'' Err ''Tool execution failed'']) \<and>
   script_callTool no_credentials_runtime ''t7'' ''generate_storyboard'' (Some example_storyboard_raw) =
     (\<lparr>content = ErrorDoc (Error ''GEMINI_API_KEY not found'') ''t7'', isError = True\<rparr>,
      [Log ''t7'' Err ''Tool execution failed'']) \<and>
   growth_callTool no_credentials_runtime ''t7'' ''optimize_seo'' (Some example_seo_raw) =
     (\<lparr>content = ErrorDoc (Error ''GEMINI_API_KEY not found'') ''t7'', isError = True\<rparr>,
      [Log ''t7'' Err ''Tool execution failed'']) \<and>
   growth_callTool no_credentials_runtime ''t7'' ''generate_thumbnail_concepts'' (Some example_thumbnail_raw) =
     (\<lparr>content = ErrorDoc (Error ''GEMINI_API_KEY not found'') ''t7'', isError = True\<rparr>,
      [Log ''t7'' Err ''Tool execution failed'']) \<and>
   growth_callTool no_credentials_runtime ''t7'' ''repurpose_content'' (Some example_repurpose_raw) =
     (\<lparr>content = ErrorDoc (Error ''GEMINI_API_KEY not found'') ''t7'', isError = True\<rparr>,
      [Log ''t7'' Err ''Tool execution failed'']) \<and>
   growth_callTool no_credentials_runtime ''t7'' ''run_ab_test'' (Some example_abtest_raw) =
     (\<lparr>content = ErrorDoc (Error ''GEMINI_API_KEY not found'') ''t7'', isError = True\<rparr>,
      [Log ''t7'' Err ''Tool execution failed'']) \<and>
   fst (script_callTool no_credentials_runtime ''t7'' ''generate_voiceover'' (Some example_elevenlabs_raw)) =
     \<lparr>content = ErrorDoc (Error (''ELEVENLABS_API_KEY not found. Set it or use provider: ''
                                    @ [CHR 0x22] @ ''huggingface'' @ [CHR 0x22])) ''t7'',
      isError = True\<rparr> \<and>
   external_calls (snd (script_callTool no_credentials_runtime ''t7'' ''generate_voiceover''
                          (Some example_elevenlabs_raw))) = [] \<and>
   fst (script_callTool no_credentials_runtime ''t7'' ''generate_voiceover'' (Some example_voiceover_raw)) =
     \<lparr>content = ErrorDoc (Error ''HUGGINGFACE_API_KEY not found'') ''t7'', isError = True\<rparr> \<and>
   external_calls (snd (script_callTool no_credentials_runtime ''t7'' ''generate_voiceover''
                          (Some example_voiceover_raw))) = []"
proof -
  note gem = missing_credential_fails_before_any_request[where rt = no_credentials_runtime
      and traceId = "''t7''", THEN conjunct1, rule_format, OF no_credentials_env]
  note el = missing_credential_fails_before_any_request[where rt = no_credentials_runtime
      and traceId = "''t7''", THEN conjunct2, THEN conjunct1, rule_format]
  note hf = missing_credential_fails_before_any_request[where rt = no_credentials_runtime
      and traceId = "''t7''", THEN conjunct2, THEN conjunct2, rule_format]
  have 1: "idea_callTool no_credentials_runtime ''t7'' ''generate_viral_ideas'' (Some example_ideas_raw) =
     (\<lparr>content = ErrorDoc (TrendAnalysisError ''GEMINI_API_KEY not found'') ''t7'', isError = True\<rparr>,
      [Log ''t7'' Err ''Tool execution failed''])"
    using gem[where raw = "Some example_ideas_raw"] example_ideas_args by blast
  have 2: "idea_callTool no_credentials_runtime ''t7'' ''predict_virality'' (Some example_virality_raw) =
     (\<lparr>content = ErrorDoc (TrendAnalysisError ''GEMINI_API_KEY not found'') ''t7'', isError = True\<rparr>,
      [Log ''t7'' Err ''Tool execution failed''])"
    using gem[where raw = "Some example_virality_raw"] example_virality_args by blast
  have 3: "script_callTool no_credentials_runtime ''t7'' ''generate_video_script'' (Some example_script_raw) =
     (\<lparr>content = ErrorDoc (Error ''GEMINI_API_KEY not found'') ''t7'', isError = True\<rparr>,
      [Log ''t7'' Err ''Tool execution failed''])"
    using gem[where raw = "Some example_script_raw"] example_script_args by blast
  have 4: "script_callTool no_credentials_runtime ''t7'' ''generate_storyboard'' (Some example_storyboard_raw) =
     (\<lparr>content = ErrorDoc (Error ''GEMINI_API_KEY not found'') ''t7'', isError = True\<rparr>,
      [Log ''t7'' Err ''Tool execution failed''])"
    using gem[where raw = "Some example_storyboard_raw"] example_storyboard_args by blast
  have 5: "growth_callTool no_credentials_runtime ''t7'' ''optimize_seo'' (Some example_seo_raw) =
     (\<lparr>content = ErrorDoc (Error ''GEMINI_API_KEY not found'') ''t7'', isError = True\<rparr>,
      [Log ''t7'' Err ''Tool execution failed''])"
    using gem[where raw = "Some example_seo_raw"] example_seo_args by blast
  have 6: "growth_callTool no_credentials_runtime ''t7'' ''generate_thumbnail_concepts'' (Some example_thumbnail_raw) =
     (\<lparr>content = ErrorDoc (Error ''GEMINI_API_KEY not found'') ''t7'', isError = True\<rparr>,
      [Log ''t7'' Err ''Tool execution failed''])"
    using gem[where raw = "Some example_thumbnail_raw"] example_thumbnail_args by blast
  have 7: "growth_callTool no_credentials_runtime ''t7'' ''repurpose_content'' (Some example_repurpose_raw) =
     (\<lparr>content = ErrorDoc (Error ''GEMINI_API_KEY not found'') ''t7'', isError = True\<rparr>,
      [Log ''t7'' Err ''Tool execution failed''])"
    using gem[where raw = "Some example_repurpose_raw"] example_repurpose_args by blast
  have 8: "growth_callTool no_credentials_runtime ''t7'' ''run_ab_test'' (Some example_abtest_raw) =
     (\<lparr>content = ErrorDoc (Error ''GEMINI_API_KEY not found'') ''t7'', isError = True\<rparr>,
      [Log ''t7'' Err ''Tool execution failed''])"
    using gem[where raw = "Some example_abtest_raw"] example_abtest_args by blast
  have 9: "script_callTool no_credentials_runtime ''t7'' ''generate_voiceover'' (Some example_elevenlabs_raw) =
        (\<lparr>content = ErrorDoc (Error (''ELEVENLABS_API_KEY not found. Set it or use provider: ''
                                        @ [CHR 0x22] @ ''huggingface'' @ [CHR 0x22])) ''t7'',
          isError = True\<rparr>,
         [Log ''t7'' Info ''Generating voiceover'', Log ''t7'' Err ''Tool execution failed''])"
    by (rule el[where raw = "Some example_elevenlabs_raw" and voiceArgs =
          "\<lparr>vo_script = ''Today we sharpen a knife.'', vo_voice = ''neutral'',
            vo_provider = ''elevenlabs'', vo_format = ''mp3''\<rparr>"])
       (simp add: example_elevenlabs_args no_credentials_env)
  have 10: "script_callTool no_credentials_runtime ''t7'' ''generate_voiceover'' (Some example_voiceover_raw) =
        (\<lparr>content = ErrorDoc (Error ''HUGGINGFACE_API_KEY not found'') ''t7'', isError = True\<rparr>,
         [Log ''t7'' Info ''Generating voiceover'', Log ''t7'' Err ''Tool execution failed''])"
    by (rule hf[where raw = "Some example_voiceover_raw" and voiceArgs =
          "\<lparr>vo_script = ''Today we sharpen a knife.'', vo_voice = ''neutral'',
            vo_provider = ''huggingface'', vo_format = ''mp3''\<rparr>"])
       (simp add: example_voiceover_args no_credentials_env)
  show ?thesis
    by (simp add: no_credentials_env 1 2 3 4 5 6 7 8 9 10 external_calls_def)
qed

section \<open>Verification: the exported editing projects\<close>

lemma starts_with_iff: "starts_with p s \<longleftrightarrow> (\<exists>post. s = p @ post)"
  by (induction p s rule: starts_with.induct) auto

lemma contains_iff: "contains p s \<longleftrightarrow> (\<exists>pre post. s = pre @ p @ post)"
proof (induction s)
  case Nil
  show ?case by (auto simp: starts_with_iff)
next
  case (Cons c cs)
  show ?case
  proof
    assume "contains p (c # cs)"
    then consider "starts_with p (c # cs)" | "contains p cs" by auto
    then show "\<exists>pre post. c # cs = pre @ p @ post"
    proof cases
      case 1
      then obtain post where "c # cs = p @ post" by (auto simp: starts_with_iff)
      then have "c # cs = [] @ p @ post" by simp
      then show ?thesis by blast
    next
      case 2
      with Cons obtain pre post where "cs = pre @ p @ post" by blast
      then have "c # cs = (c # pre) @ p @ post" by simp
      then show ?thesis by blast
    qed
  next
    assume "\<exists>pre post. c # cs = pre @ p @ post"
    then obtain pre post where e: "c # cs = pre @ p @ post" by blast
    show "contains p (c # cs)"
    proof (cases pre)
      case Nil
      with e have "starts_with p (c # cs)" by (auto simp: starts_with_iff)
      then show ?thesis by simp
    next
      case (Cons a pre')
      with e have "cs = pre' @ p @ post" by simp
      then have "contains p cs" using Cons.IH by blast
      then show ?thesis by simp
    qed
  qed
qed

lemma document_written:
  "WriteFile (projectPath traceId (ex_format args)) (projectDocument rt args)
     \<in> set (snd (exportEditingProject rt args traceId))"
  by (simp add: exportEditingProject_def Let_def split: option.splits)

lemma davinci_first_line:
  "takeWhile (\<lambda>c. c \<noteq> CHR 0x0A) davinci_document = ''TITLE: AI Generated Video''"
  by (simp add: davinci_document_def nl_def)

lemma davinci_lines:
  "lines_of davinci_document =
   [''TITLE: AI Generated Video'', ''FCM: NON-DROP FRAME'', [],
    ''001  BL       V     C        00:00:00:00 00:00:10:00 00:00:00:00 00:00:10:00'',
    ''* FROM CLIP NAME: Voiceover'', []]"
  by (simp add: davinci_document_def nl_def lines_of_def)

lemma davinci_edit_line:
  "spec_is_edit_line ''001  BL       V     C        00:00:00:00 00:00:10:00 00:00:00:00 00:00:10:00''"
  by (simp add: spec_is_edit_line_def fields_of_def spec_is_timecode_def is_digit_def)

lemma davinci_body: "\<exists>l \<in> set (tl (lines_of davinci_document)). spec_is_edit_line l"
  unfolding davinci_lines using davinci_edit_line by simp

lemma format_davinci:
  "ex_format args = ''davinci-xml'' \<Longrightarrow> projectDocument rt args = davinci_document"
  by (simp add: projectDocument_def)

lemma concat_element_infix:
  assumes "x \<in> set xss"
  shows "\<exists>pre post. concat xss = pre @ x @ post"
proof -
  from assms obtain as bs where "xss = as @ x # bs" by (auto dest: split_list)
  then have "concat xss = concat as @ x @ concat bs" by simp
  then show ?thesis by blast
qed

lemma fcpxml_with_path:
  assumes "ex_format args = ''fcpxml''" and "ex_voiceoverPath args = Some p" and "p \<noteq> []"
  shows "\<exists>pre post. projectDocument rt args = pre @ fcpxml_asset p @ post"
proof -
  from assms(1) have "projectDocument rt args = fcpxml_document rt args"
    by (simp add: projectDocument_def)
  moreover have "\<exists>pre post. fcpxml_document rt args = pre @ fcpxml_asset p @ post"
    unfolding fcpxml_document_def using assms(2,3)
    by (intro concat_element_infix) simp
  ultimately show ?thesis by simp
qed

lemma premiere_with_path:
  assumes "ex_format args = ''premiere-xml''" and "ex_voiceoverPath args = Some p" and "p \<noteq> []"
  shows "\<exists>pre post. projectDocument rt args = pre @ premiere_track p @ post"
proof -
  from assms(1) have "projectDocument rt args = premiere_document args"
    by (simp add: projectDocument_def)
  moreover have "\<exists>pre post. premiere_document args = pre @ premiere_track p @ post"
    unfolding premiere_document_def using assms(2,3)
    by (intro concat_element_infix) simp
  ultimately show ?thesis by simp
qed

lemma fcpxml_without_path:
  assumes "ex_format args = ''fcpxml''"
    and "ex_voiceoverPath args = None \<or> ex_voiceoverPath args = Some []"
  shows "projectDocument rt args =
           spec_fcpxml_head @ storyboardTitle rt (ex_storyboard args) @ spec_fcpxml_tail"
  using assms
  by (auto simp: projectDocument_def fcpxml_document_def spec_fcpxml_head_def spec_fcpxml_tail_def)

lemma premiere_without_path:
  assumes "ex_format args = ''premiere-xml''"
    and "ex_voiceoverPath args = None \<or> ex_voiceoverPath args = Some []"
  shows "projectDocument rt args = spec_premiere_plain"
  using assms
  by (auto simp: projectDocument_def premiere_document_def spec_premiere_plain_def)

lemma no_asset_in_head: "\<not> (\<exists>pre post. spec_fcpxml_head = pre @ ''<asset'' @ post)"
  unfolding contains_iff[symmetric] by (simp add: spec_fcpxml_head_def nl_def)

lemma no_asset_in_tail: "\<not> (\<exists>pre post. spec_fcpxml_tail = pre @ ''<asset'' @ post)"
  unfolding contains_iff[symmetric] by (simp add: spec_fcpxml_tail_def nl_def)

lemma no_audio_in_head: "\<not> (\<exists>pre post. spec_fcpxml_head = pre @ ''<audio'' @ post)"
  unfolding contains_iff[symmetric] by (simp add: spec_fcpxml_head_def nl_def)

lemma no_audio_in_tail: "\<not> (\<exists>pre post. spec_fcpxml_tail = pre @ ''<audio'' @ post)"
  unfolding contains_iff[symmetric] by (simp add: spec_fcpxml_tail_def nl_def)

lemma no_track_in_premiere: "\<not> (\<exists>pre post. spec_premiere_plain = pre @ ''<track'' @ post)"
  unfolding contains_iff[symmetric] by (simp add: spec_premiere_plain_def nl_def)

lemma example_export_fields:
  "ex_format (example_export_args fmt path) = fmt"
  "ex_voiceoverPath (example_export_args fmt path) = path"
  "storyboardTitle rt (ex_storyboard (example_export_args fmt path)) = ''Knife skills''"
  by (simp_all add: example_export_args_def storyboardTitle_def)

lemma example_plain_fcpxml_no_asset:
  "\<not> contains ''<asset'' (spec_fcpxml_head @ ''Knife skills'' @ spec_fcpxml_tail)"
  by (simp add: spec_fcpxml_head_def spec_fcpxml_tail_def nl_def)

text \<open>
  Claim C8, as amended.  \<open>exportEditingProject\<close> writes the document selected by the format.
  For \<open>davinci-xml\<close> the first line of the document is \<open>TITLE: AI Generated Video\<close> and
  one of the following lines is a well-formed edit line.  For \<open>fcpxml\<close> and
  \<open>premiere-xml\<close> a voiceover path that is provided and is not the empty string occurs
  verbatim inside the asset element, respectively the pathurl element; when the path is absent
  or is the empty string the document is the template without the voiceover elements, and no
  \<open><asset\<close>, \<open><audio\<close> or \<open><track\<close> tag occurs in the template text.
\<close>

theorem export_document_by_format:
  \<open>WriteFile (projectPath traceId (ex_format args)) (projectDocument rt args)
     \<in> set (snd (exportEditingProject rt args traceId)) \<and>
   (ex_format args = ''davinci-xml'' \<longrightarrow>
      takeWhile (\<lambda>c. c \<noteq> CHR 0x0A) (projectDocument rt args) = ''TITLE: AI Generated Video'' \<and>
      (\<exists>l \<in> set (tl (lines_of (projectDocument rt args))). spec_is_edit_line l)) \<and>
   (ex_format args = ''fcpxml'' \<and> ex_voiceoverPath args = Some p \<and> p \<noteq> [] \<longrightarrow>
      (\<exists>pre post. projectDocument rt args =
         pre @ ''<asset id="r2" src="file://'' @ p @ ''" start="0s" duration="60s" hasAudio="1"/>''
             @ post)) \<and>
   (ex_format args = ''premiere-xml'' \<and> ex_voiceoverPath args = Some p \<and> p \<noteq> [] \<longrightarrow>
      (\<exists>pre post. projectDocument rt args =
         pre @ ''<track><clipitem><file><pathurl>file://'' @ p
             @ ''</pathurl></file></clipitem></track>'' @ post)) \<and>
   (ex_format args = ''fcpxml'' \<and>
    (ex_voiceoverPath args = None \<or> ex_voiceoverPath args = Some []) \<longrightarrow>
      projectDocument rt args =
        spec_fcpxml_head @ storyboardTitle rt (ex_storyboard args) @ spec_fcpxml_tail) \<and>
   (ex_format args = ''premiere-xml'' \<and>
    (ex_voiceoverPath args = None \<or> ex_voiceoverPath args = Some []) \<longrightarrow>
      projectDocument rt args = spec_premiere_plain) \<and>
   \<not> (\<exists>pre post. spec_fcpxml_head = pre @ ''<asset'' @ post) \<and>
   \<not> (\<exists>pre post. spec_fcpxml_tail = pre @ ''<asset'' @ post) \<and>
   \<not> (\<exists>pre post. spec_fcpxml_head = pre @ ''<audio'' @ post) \<and>
   \<not> (\<exists>pre post. spec_fcpxml_tail = pre @ ''<audio'' @ post) \<and>
   \<not> (\<exists>pre post. spec_premiere_plain = pre @ ''<track'' @ post)\<close>
proof (intro conjI impI no_asset_in_head no_asset_in_tail no_audio_in_head no_audio_in_tail
    no_track_in_premiere)
  show "WriteFile (projectPath traceId (ex_format args)) (projectDocument rt args)
     \<in> set (snd (exportEditingProject rt args traceId))"
    by (rule document_written)
next
  assume "ex_format args = ''davinci-xml''"
  then show "takeWhile (\<lambda>c. c \<noteq> CHR 0x0A) (projectDocument rt args) = ''TITLE: AI Generated Video''"
    by (simp only: format_davinci davinci_first_line)
next
  assume "ex_format args = ''davinci-xml''"
  then show "\<exists>l \<in> set (tl (lines_of (projectDocument rt args))). spec_is_edit_line l"
    by (simp only: format_davinci davinci_body)
next
  assume "ex_format args = ''fcpxml'' \<and> ex_voiceoverPath args = Some p \<and> p \<noteq> []"
  then have "\<exists>pre post. projectDocument rt args = pre @ fcpxml_asset p @ post"
    using fcpxml_with_path[of args p rt] by simp
  then show \<open>\<exists>pre post. projectDocument rt args =
         pre @ ''<asset id="r2" src="file://'' @ p @ ''" start="0s" duration="60s" hasAudio="1"/>''
             @ post\<close>
    by (simp add: fcpxml_asset_def)
next
  assume "ex_format args = ''premiere-xml'' \<and> ex_voiceoverPath args = Some p \<and> p \<noteq> []"
  then have "\<exists>pre post. projectDocument rt args = pre @ premiere_track p @ post"
    using premiere_with_path[of args p rt] by simp
  then show "\<exists>pre post. projectDocument rt args =
         pre @ ''<track><clipitem><file><pathurl>file://'' @ p
             @ ''</pathurl></file></clipitem></track>'' @ post"
    by (simp add: premiere_track_def)
next
  assume "ex_format args = ''fcpxml'' \<and>
    (ex_voiceoverPath args = None \<or> ex_voiceoverPath args = Some [])"
  then show "projectDocument rt args =
        spec_fcpxml_head @ storyboardTitle rt (ex_storyboard args) @ spec_fcpxml_tail"
    using fcpxml_without_path[of args rt] by simp
next
  assume "ex_format args = ''premiere-xml'' \<and>
    (ex_voiceoverPath args = None \<or> ex_voiceoverPath args = Some [])"
  then show "projectDocument rt args = spec_premiere_plain"
    using premiere_without_path[of args rt] by simp
qed

text \<open>
  The theorem at the three formats, for the storyboard titled \<open>Knife skills\<close>, with the path
  \<open>/tmp/voiceover-t1.mp3\<close> and without a path.
\<close>

theorem export_document_by_format_witness:
  \<open>takeWhile (\<lambda>c. c \<noteq> CHR 0x0A)
     (projectDocument example_runtime (example_export_args ''davinci-xml'' None)) =
     ''TITLE: AI Generated Video'' \<and>
   spec_is_edit_line
     ''001  BL       V     C        00:00:00:00 00:00:10:00 00:00:00:00 00:00:10:00'' \<and>
   ''001  BL       V     C        00:00:00:00 00:00:10:00 00:00:00:00 00:00:10:00'' \<in>
     set (tl (lines_of (projectDocument example_runtime (example_export_args ''davinci-xml'' None)))) \<and>
   contains ''<asset id="r2" src="file:///tmp/voiceover-t1.mp3" start="0s" duration="60s" hasAudio="1"/>''
     (projectDocument example_runtime (example_export_args ''fcpxml'' (Some ''/tmp/voiceover-t1.mp3''))) \<and>
   contains ''<track><clipitem><file><pathurl>file:///tmp/voiceover-t1.mp3</pathurl></file></clipitem></track>''
     (projectDocument example_runtime
        (example_export_args ''premiere-xml'' (Some ''/tmp/voiceover-t1.mp3''))) \<and>
   \<not> contains ''<asset'' (projectDocument example_runtime (example_export_args ''fcpxml'' None)) \<and>
   \<not> contains ''<track'' (projectDocument example_runtime (example_export_args ''premiere-xml'' None))\<close>
proof -
  note dv = export_document_by_format[where rt = example_runtime
      and args = "example_export_args ''davinci-xml'' None" and traceId = "''t11''"
      and p = "''/tmp/voiceover-t1.mp3''"]
  note fc = export_document_by_format[where rt = example_runtime
      and args = "example_export_args ''fcpxml'' (Some ''/tmp/voiceover-t1.mp3'')"
      and traceId = "''t11''" and p = "''/tmp/voiceover-t1.mp3''"]
  note pr = export_document_by_format[where rt = example_runtime
      and args = "example_export_args ''premiere-xml'' (Some ''/tmp/voiceover-t1.mp3'')"
      and traceId = "''t11''" and p = "''/tmp/voiceover-t1.mp3''"]
  note fn = export_document_by_format[where rt = example_runtime
      and args = "example_export_args ''fcpxml'' None" and traceId = "''t11''"
      and p = "''/tmp/voiceover-t1.mp3''"]
  note pn = export_document_by_format[where rt = example_runtime
      and args = "example_export_args ''premiere-xml'' None" and traceId = "''t11''"
      and p = "''/tmp/voiceover-t1.mp3''"]
  have 1: "takeWhile (\<lambda>c. c \<noteq> CHR 0x0A)
     (projectDocument example_runtime (example_export_args ''davinci-xml'' None)) =
     ''TITLE: AI Generated Video''"
    using dv[THEN conjunct2, THEN conjunct1] by (simp add: example_export_fields)
  have 2: "spec_is_edit_line
     ''001  BL       V     C        00:00:00:00 00:00:10:00 00:00:00:00 00:00:10:00''"
    by (rule davinci_edit_line)
  have 3: "''001  BL       V     C        00:00:00:00 00:00:10:00 00:00:00:00 00:00:10:00'' \<in>
     set (tl (lines_of (projectDocument example_runtime (example_export_args ''davinci-xml'' None))))"
    by (simp add: format_davinci example_export_fields davinci_lines)
  have 4: \<open>contains ''<asset id="r2" src="file:///tmp/voiceover-t1.mp3" start="0s" duration="60s" hasAudio="1"/>''
     (projectDocument example_runtime (example_export_args ''fcpxml'' (Some ''/tmp/voiceover-t1.mp3'')))\<close>
    using fc[THEN conjunct2, THEN conjunct2, THEN conjunct1]
    by (simp add: example_export_fields contains_iff)
  have 5: \<open>contains ''<track><clipitem><file><pathurl>file:///tmp/voiceover-t1.mp3</pathurl></file></clipitem></track>''
     (projectDocument example_runtime
        (example_export_args ''premiere-xml'' (Some ''/tmp/voiceover-t1.mp3'')))\<close>
    using pr[THEN conjunct2, THEN conjunct2, THEN conjunct2, THEN conjunct1]
    by (simp add: example_export_fields contains_iff)
  have "projectDocument example_runtime (example_export_args ''fcpxml'' None) =
          spec_fcpxml_head @ ''Knife skills'' @ spec_fcpxml_tail"
    using fn[THEN conjunct2, THEN conjunct2, THEN conjunct2, THEN conjunct2, THEN conjunct1]
    by (simp add: example_export_fields)
  then have 6: "\<not> contains ''<asset'' (projectDocument example_runtime (example_export_args ''fcpxml'' None))"
    by (simp only: example_plain_fcpxml_no_asset not_False_eq_True)
  have "projectDocument example_runtime (example_export_args ''premiere-xml'' None) = spec_premiere_plain"
    using pn[THEN conjunct2, THEN conjunct2, THEN conjunct2, THEN conjunct2, THEN conjunct2,
             THEN conjunct1]
    by (simp add: example_export_fields)
  then have 7: "\<not> contains ''<track'' (projectDocument example_runtime (example_export_args ''premiere-xml'' None))"
    using no_track_in_premiere by (simp add: contains_iff)
  show ?thesis
    by (intro conjI 1 2 3 4 5 6 7)
qed

text \<open>
  Claim C8 as stated fails for a path that is provided but empty: the guard
  \<open>args.voiceoverPath ? ... : ''\<close> tests truthiness, so with \<open>voiceoverPath = ""\<close>, which the
  schema accepts, and format \<open>fcpxml\<close> no asset element is written.
\<close>

theorem export_empty_path_counterexample:
  "ExportProjectArgsSchema
     (Some (JObj [(''storyboard'', JObj [(''title'', JStr ''Knife skills'')]),
                  (''voiceoverPath'', JStr []), (''format'', JStr ''fcpxml'')])) =
     Some (example_export_args ''fcpxml'' (Some [])) \<and>
   ex_format (example_export_args ''fcpxml'' (Some [])) = ''fcpxml'' \<and>
   ex_voiceoverPath (example_export_args ''fcpxml'' (Some [])) = Some [] \<and>
   \<not> contains ''<asset'' (projectDocument example_runtime (example_export_args ''fcpxml'' (Some [])))"
proof -
  have "projectDocument example_runtime (example_export_args ''fcpxml'' (Some [])) =
          spec_fcpxml_head @ ''Knife skills'' @ spec_fcpxml_tail"
    using fcpxml_without_path[of "example_export_args ''fcpxml'' (Some [])" example_runtime]
    by (simp add: example_export_fields)
  then have "\<not> contains ''<asset''
               (projectDocument example_runtime (example_export_args ''fcpxml'' (Some [])))"
    by (simp only: example_plain_fcpxml_no_asset not_False_eq_True)
  moreover have "ExportProjectArgsSchema
     (Some (JObj [(''storyboard'', JObj [(''title'', JStr ''Knife skills'')]),
                  (''voiceoverPath'', JStr []), (''format'', JStr ''fcpxml'')])) =
     Some (example_export_args ''fcpxml'' (Some []))"
    by (simp add: ExportProjectArgsSchema_def example_export_args_def z_defs)
  ultimately show ?thesis by (simp add: example_export_fields)
qed

section \<open>Verification: the idea generator\<close>

lemma ideas_userPrompt_window:
  "ideas_userPrompt rt (args\<lparr>gi_trendWindow := w\<rparr>) trends = ideas_userPrompt rt args trends"
  by (simp add: ideas_userPrompt_def)

lemma ideas_systemPrompt_window:
  "ideas_systemPrompt rt (args\<lparr>gi_trendWindow := w\<rparr>) trends = ideas_systemPrompt rt args trends"
  by (simp add: ideas_systemPrompt_def)

lemma generateViralIdeas_window:
  "generateViralIdeas rt (args\<lparr>gi_trendWindow := w\<rparr>) traceId = generateViralIdeas rt args traceId"
  by (simp add: generateViralIdeas_def ideas_userPrompt_window ideas_systemPrompt_window Let_def
        cong: option.case_cong prod.case_cong sum.case_cong)

lemma collected_http:
  "filter is_http (snd (collectedTrends rt niche [''youtube'', ''reddit'', ''google-trends''] traceId)) =
     [HttpGet youtubeUrl, HttpGet (redditUrl niche)]"
  by (simp add: collectedTrends_def youtubeBlock_def redditBlock_def is_http_def
           split: sum.splits prod.splits option.splits)

lemma validateIdeas_no_http: "filter is_http (snd (validateIdeas rt traceId ideas)) = []"
  unfolding validateIdeas_def Let_def snd_conv
  by (induction ideas) (auto simp: is_http_def split: option.splits)

lemma generateViralIdeas_http:
  assumes "credential rt ''GEMINI_API_KEY'' = Some k"
  shows "filter is_http (snd (generateViralIdeas rt args traceId)) =
           [HttpGet youtubeUrl, HttpGet (redditUrl (gi_niche args))]"
proof -
  have v: "filter is_http ws = []" if "validateIdeas rt traceId ideas = (vs, ws)" for ideas vs ws
    using validateIdeas_no_http[of rt traceId ideas] that by simp
  show ?thesis
    using assms collected_http[of rt "gi_niche args" traceId]
    by (auto simp: generateViralIdeas_def scrapeTrendingTopics_def Let_def is_http_def v
             split: prod.splits sum.splits json.splits)
qed

lemma generateViralIdeas_starts:
  assumes "credential rt ''GEMINI_API_KEY'' = Some k"
    and "scrapeTrendingTopics rt (gi_niche args) [''youtube'', ''reddit'', ''google-trends'']
           traceId = (Inr trends, evs)"
  shows "\<exists>rest. snd (generateViralIdeas rt args traceId) =
           evs @ [Log traceId Info ''Generating viral ideas'',
                  GenerateContent (ideas_userPrompt rt args trends @ nl @ nl
                                     @ ideas_systemPrompt rt args trends)] @ rest"
  using assms
  by (auto simp: generateViralIdeas_def Let_def split: sum.splits json.splits prod.splits)

text \<open>
  Claim C9. The handler does not read \<open>trendWindow\<close>: two argument records that differ
  only there give the same result and the same effects, at the handler and at the
  dispatcher, for every behaviour of the provider and of the trend sources. The scraper
  is called with the fixed list \<open>youtube\<close>, \<open>reddit\<close>, \<open>google-trends\<close>, whatever the
  arguments: the effects of a call begin with the effects of that call of the scraper,
  the prompt sent next carries the topics it returned, and the HTTP requests of the call
  are those of YouTube and Reddit (Google Trends makes no request).
\<close>

theorem trend_window_is_never_read:
  "generateViralIdeas rt (args\<lparr>gi_trendWindow := w\<rparr>) traceId = generateViralIdeas rt args traceId \<and>
   (GenerateIdeasArgsSchema raw = Some args \<and>
    GenerateIdeasArgsSchema raw' = Some (args\<lparr>gi_trendWindow := w\<rparr>) \<longrightarrow>
      idea_callTool rt traceId ''generate_viral_ideas'' raw' =
      idea_callTool rt traceId ''generate_viral_ideas'' raw) \<and>
   (credential rt ''GEMINI_API_KEY'' = Some k \<longrightarrow>
      filter is_http (snd (generateViralIdeas rt args traceId)) =
        [HttpGet youtubeUrl, HttpGet (redditUrl (gi_niche args))]) \<and>
   (credential rt ''GEMINI_API_KEY'' = Some k \<and>
    scrapeTrendingTopics rt (gi_niche args) [''youtube'', ''reddit'', ''google-trends''] traceId =
      (Inr trends, evs) \<longrightarrow>
      (\<exists>rest. snd (generateViralIdeas rt args traceId) =
         evs @ [Log traceId Info ''Generating viral ideas'',
                GenerateContent (ideas_userPrompt rt args trends @ nl @ nl
                                   @ ideas_systemPrompt rt args trends)] @ rest))"
proof (intro conjI; (intro impI)?)
  show "generateViralIdeas rt (args\<lparr>gi_trendWindow := w\<rparr>) traceId = generateViralIdeas rt args traceId"
    by (rule generateViralIdeas_window)
next
  assume "GenerateIdeasArgsSchema raw = Some args \<and>
    GenerateIdeasArgsSchema raw' = Some (args\<lparr>gi_trendWindow := w\<rparr>)"
  then show "idea_callTool rt traceId ''generate_viral_ideas'' raw' =
      idea_callTool rt traceId ''generate_viral_ideas'' raw"
    by (simp add: idea_callTool_def validated_def generateViralIdeas_window)
next
  assume "credential rt ''GEMINI_API_KEY'' = Some k"
  then show "filter is_http (snd (generateViralIdeas rt args traceId)) =
        [HttpGet youtubeUrl, HttpGet (redditUrl (gi_niche args))]"
    by (rule generateViralIdeas_http)
next
  assume "credential rt ''GEMINI_API_KEY'' = Some k \<and>
    scrapeTrendingTopics rt (gi_niche args) [''youtube'', ''reddit'', ''google-trends''] traceId =
      (Inr trends, evs)"
  then show "\<exists>rest. snd (generateViralIdeas rt args traceId) =
         evs @ [Log traceId Info ''Generating viral ideas'',
                GenerateContent (ideas_userPrompt rt args trends @ nl @ nl
                                   @ ideas_systemPrompt rt args trends)] @ rest"
    using generateViralIdeas_starts[of rt k args traceId trends evs] by blast
qed

lemma example_ideas_24h_args:
  "GenerateIdeasArgsSchema (Some example_ideas_24h_raw) =
     Some \<lparr>gi_niche = ''cooking'', gi_platform = ''youtube'', gi_count = 10, gi_trendWindow = ''24h''\<rparr>"
  by (simp add: GenerateIdeasArgsSchema_def example_ideas_24h_raw_def z_defs)

lemma example_ideas_30d_args:
  "GenerateIdeasArgsSchema (Some example_ideas_30d_raw) =
     Some \<lparr>gi_niche = ''cooking'', gi_platform = ''youtube'', gi_count = 10, gi_trendWindow = ''30d''\<rparr>"
  by (simp add: GenerateIdeasArgsSchema_def example_ideas_30d_raw_def z_defs)

theorem trend_window_is_never_read_witness:
  "GenerateIdeasArgsSchema (Some example_ideas_24h_raw) =
     Some \<lparr>gi_niche = ''cooking'', gi_platform = ''youtube'', gi_count = 10, gi_trendWindow = ''24h''\<rparr> \<and>
   GenerateIdeasArgsSchema (Some example_ideas_30d_raw) =
     Some \<lparr>gi_niche = ''cooking'', gi_platform = ''youtube'', gi_count = 10, gi_trendWindow = ''30d''\<rparr> \<and>
   credential example_runtime ''GEMINI_API_KEY'' = Some ''secret'' \<and>
   idea_callTool example_runtime ''t9'' ''generate_viral_ideas'' (Some example_ideas_30d_raw) =
   idea_callTool example_runtime ''t9'' ''generate_viral_ideas'' (Some example_ideas_24h_raw) \<and>
   filter is_http (snd (generateViralIdeas example_runtime
       \<lparr>gi_niche = ''cooking'', gi_platform = ''youtube'', gi_count = 10, gi_trendWindow = ''24h''\<rparr>
       ''t9'')) =
     [HttpGet youtubeUrl, HttpGet (redditUrl ''cooking'')] \<and>
   scrapeTrendingTopics example_runtime ''cooking'' [''youtube'', ''reddit'', ''google-trends''] ''t9'' =
     (Inr [''how to cooking'', ''cooking for beginners'', ''cooking vs'', ''cooking mistakes''],
      [HttpGet youtubeUrl, Log ''t9'' Warn ''YouTube scraping failed'',
       HttpGet (redditUrl ''cooking''), Log ''t9'' Warn ''Reddit scraping failed'']) \<and>
   (\<exists>rest. snd (generateViralIdeas example_runtime
       \<lparr>gi_niche = ''cooking'', gi_platform = ''youtube'', gi_count = 10, gi_trendWindow = ''24h''\<rparr>
       ''t9'') =
      [HttpGet youtubeUrl, Log ''t9'' Warn ''YouTube scraping failed'',
       HttpGet (redditUrl ''cooking''), Log ''t9'' Warn ''Reddit scraping failed'',
       Log ''t9'' Info ''Generating viral ideas'',
       GenerateContent
         (ideas_userPrompt example_runtime
            \<lparr>gi_niche = ''cooking'', gi_platform = ''youtube'', gi_count = 10, gi_trendWindow = ''24h''\<rparr>
            [''how to cooking'', ''cooking for beginners'', ''cooking vs'', ''cooking mistakes'']
          @ nl @ nl @
          ideas_systemPrompt example_runtime
            \<lparr>gi_niche = ''cooking'', gi_platform = ''youtube'', gi_count = 10, gi_trendWindow = ''24h''\<rparr>
            [''how to cooking'', ''cooking for beginners'', ''cooking vs'', ''cooking mistakes''])]
      @ rest)"
proof -
  let ?a = "\<lparr>gi_niche = ''cooking'', gi_platform = ''youtube'', gi_count = 10, gi_trendWindow = ''24h''\<rparr>"
  let ?trends = "[''how to cooking'', ''cooking for beginners'', ''cooking vs'', ''cooking mistakes'']"
  let ?evs = "[HttpGet youtubeUrl, Log ''t9'' Warn ''YouTube scraping failed'',
       HttpGet (redditUrl ''cooking''), Log ''t9'' Warn ''Reddit scraping failed'']"
  note inst = trend_window_is_never_read[where rt = example_runtime and args = ?a and w = "''30d''"
      and traceId = "''t9''" and raw = "Some example_ideas_24h_raw"
      and raw' = "Some example_ideas_30d_raw" and k = "''secret''"
      and trends = ?trends and evs = ?evs]
  have u: "?a\<lparr>gi_trendWindow := ''30d''\<rparr> =
     \<lparr>gi_niche = ''cooking'', gi_platform = ''youtube'', gi_count = 10, gi_trendWindow = ''30d''\<rparr>"
    by simp
  have same: "idea_callTool example_runtime ''t9'' ''generate_viral_ideas'' (Some example_ideas_30d_raw) =
   idea_callTool example_runtime ''t9'' ''generate_viral_ideas'' (Some example_ideas_24h_raw)"
    by (rule inst[THEN conjunct2, THEN conjunct1, rule_format])
       (simp only: example_ideas_24h_args example_ideas_30d_args u simp_thms)
  have h: "filter is_http (snd (generateViralIdeas example_runtime ?a ''t9'')) =
        [HttpGet youtubeUrl, HttpGet (redditUrl ''cooking'')]"
    using inst[THEN conjunct2, THEN conjunct2, THEN conjunct1, rule_format, OF example_credential]
    by simp
  have sc: "scrapeTrendingTopics example_runtime ''cooking''
      [''youtube'', ''reddit'', ''google-trends''] ''t9'' = (Inr ?trends, ?evs)"
    by (rule example_scrape)
  have "\<exists>rest. snd (generateViralIdeas example_runtime ?a ''t9'') =
         ?evs @ [Log ''t9'' Info ''Generating viral ideas'',
                GenerateContent (ideas_userPrompt example_runtime ?a ?trends @ nl @ nl
                                   @ ideas_systemPrompt example_runtime ?a ?trends)] @ rest"
    by (rule inst[THEN conjunct2, THEN conjunct2, THEN conjunct2, rule_format])
       (simp add: example_credential sc)
  then have p: "\<exists>rest. snd (generateViralIdeas example_runtime ?a ''t9'') =
      [HttpGet youtubeUrl, Log ''t9'' Warn ''YouTube scraping failed'',
       HttpGet (redditUrl ''cooking''), Log ''t9'' Warn ''Reddit scraping failed'',
       Log ''t9'' Info ''Generating viral ideas'',
       GenerateContent (ideas_userPrompt example_runtime ?a ?trends @ nl @ nl @
          ideas_systemPrompt example_runtime ?a ?trends)] @ rest"
    by simp
  show ?thesis
    by (intro conjI example_ideas_24h_args example_ideas_30d_args example_credential same h sc p)
qed

lemma validateIdeas_survivors:
  "map Some (fst (validateIdeas rt traceId ideas)) =
     map (\<lambda>i. ViralIdeaSchema rt (Some i)) (filter (\<lambda>i. \<not> failsValidation rt i) ideas)"
  unfolding validateIdeas_def Let_def fst_conv
  by (induction ideas) (auto simp: failsValidation_def split: option.splits)

lemma validateIdeas_warnings:
  "snd (validateIdeas rt traceId ideas) =
     replicate (length (filter (failsValidation rt) ideas)) (Log traceId Warn ''Invalid idea skipped'')"
  unfolding validateIdeas_def Let_def snd_conv
  by (induction ideas) (auto simp: failsValidation_def split: option.splits)

lemma validateIdeas_length:
  "length (fst (validateIdeas rt traceId ideas)) =
     length ideas - length (filter (failsValidation rt) ideas)"
proof -
  have "length (fst (validateIdeas rt traceId ideas)) =
        length (map Some (fst (validateIdeas rt traceId ideas)))" by simp
  also have "\<dots> = length (filter (\<lambda>i. \<not> failsValidation rt i) ideas)"
    by (simp only: validateIdeas_survivors length_map)
  also have "\<dots> = length ideas - length (filter (failsValidation rt) ideas)"
    using sum_length_filter_compl[of "failsValidation rt" ideas] by simp
  finally show ?thesis .
qed

lemma collected_no_skip_warning:
  "filter (\<lambda>e. e = Log traceId Warn ''Invalid idea skipped'')
     (snd (collectedTrends rt niche platforms traceId)) = []"
  by (simp add: collectedTrends_def youtubeBlock_def redditBlock_def
           split: sum.splits prod.splits option.splits)

lemma ideas_filtered:
  assumes "GenerateIdeasArgsSchema raw = Some args"
    and "credential rt ''GEMINI_API_KEY'' = Some k"
    and "scrapeTrendingTopics rt (gi_niche args) [''youtube'', ''reddit'', ''google-trends'']
           traceId = (Inr trends, evs)"
    and "generateContent rt
           (ideas_userPrompt rt args trends @ nl @ nl @ ideas_systemPrompt rt args trends) = Inr t"
    and "parseOr rt (JArr []) (match_array t) = Inr (JArr ideas)"
  shows "idea_callTool rt traceId ''generate_viral_ideas'' raw =
           (\<lparr>content = Result (IdeasResult (fst (validateIdeas rt traceId ideas))
                                 (length (fst (validateIdeas rt traceId ideas)))),
             isError = False\<rparr>,
            evs
              @ [Log traceId Info ''Generating viral ideas'',
                 GenerateContent
                   (ideas_userPrompt rt args trends @ nl @ nl @ ideas_systemPrompt rt args trends)]
              @ snd (validateIdeas rt traceId ideas)
              @ [Log traceId Info ''Ideas generated''])"
  using assms
  by (simp add: idea_callTool_def validated_def reply_def generateViralIdeas_def
        Let_def split: prod.splits)

lemma scrape_no_skip_warning:
  "filter (\<lambda>e. e = Log traceId Warn ''Invalid idea skipped'')
     (snd (scrapeTrendingTopics rt niche platforms traceId)) = []"
  by (simp add: scrape_total collected_no_skip_warning)

text \<open>
  Claim C3. When the array extracted from the text that the provider returns for the
  prompt of the call has n elements of which m fail \<open>ViralIdeaSchema\<close>, the call succeeds;
  its ideas are the parsed values of the other n - m elements, in order; \<open>count\<close> is
  n - m; and the warning \<open>Invalid idea skipped\<close> is logged m times.
\<close>

theorem invalid_ideas_are_dropped:
  assumes "GenerateIdeasArgsSchema raw = Some args"
    and "credential rt ''GEMINI_API_KEY'' = Some k"
    and "fst (scrapeTrendingTopics rt (gi_niche args) [''youtube'', ''reddit'', ''google-trends'']
                traceId) = Inr trends"
    and "generateContent rt
           (ideas_userPrompt rt args trends @ nl @ nl @ ideas_systemPrompt rt args trends) = Inr t"
    and "parseOr rt (JArr []) (match_array t) = Inr (JArr ideas)"
  shows "\<exists>vs. fst (idea_callTool rt traceId ''generate_viral_ideas'' raw) =
             \<lparr>content = Result (IdeasResult vs
                  (length ideas - length (filter (failsValidation rt) ideas))),
              isError = False\<rparr> \<and>
           length vs = length ideas - length (filter (failsValidation rt) ideas) \<and>
           map Some vs =
             map (\<lambda>i. ViralIdeaSchema rt (Some i)) (filter (\<lambda>i. \<not> failsValidation rt i) ideas) \<and>
           filter (\<lambda>e. e = Log traceId Warn ''Invalid idea skipped'')
             (snd (idea_callTool rt traceId ''generate_viral_ideas'' raw)) =
             replicate (length (filter (failsValidation rt) ideas))
               (Log traceId Warn ''Invalid idea skipped'') \<and>
           GenerateContent
             (ideas_userPrompt rt args trends @ nl @ nl @ ideas_systemPrompt rt args trends)
             \<in> set (snd (idea_callTool rt traceId ''generate_viral_ideas'' raw))"
proof -
  obtain evs where s: "scrapeTrendingTopics rt (gi_niche args)
      [''youtube'', ''reddit'', ''google-trends''] traceId = (Inr trends, evs)"
    using assms(3) by (cases "scrapeTrendingTopics rt (gi_niche args)
      [''youtube'', ''reddit'', ''google-trends''] traceId") simp
  note r = ideas_filtered[OF assms(1,2) s assms(4,5)]
  have evs: "filter (\<lambda>e. e = Log traceId Warn ''Invalid idea skipped'') evs = []"
    using scrape_no_skip_warning[of traceId rt "gi_niche args"
        "[''youtube'', ''reddit'', ''google-trends'']"] s by simp
  have 1: "fst (idea_callTool rt traceId ''generate_viral_ideas'' raw) =
             \<lparr>content = Result (IdeasResult (fst (validateIdeas rt traceId ideas))
                  (length ideas - length (filter (failsValidation rt) ideas))),
              isError = False\<rparr>"
    by (simp add: r validateIdeas_length)
  have 4: "filter (\<lambda>e. e = Log traceId Warn ''Invalid idea skipped'')
             (snd (idea_callTool rt traceId ''generate_viral_ideas'' raw)) =
             replicate (length (filter (failsValidation rt) ideas))
               (Log traceId Warn ''Invalid idea skipped'')"
    by (simp add: r evs validateIdeas_warnings)
  have 5: "GenerateContent
             (ideas_userPrompt rt args trends @ nl @ nl @ ideas_systemPrompt rt args trends)
             \<in> set (snd (idea_callTool rt traceId ''generate_viral_ideas'' raw))"
    by (simp add: r)
  show ?thesis
    by (rule exI[of _ "fst (validateIdeas rt traceId ideas)"])
       (intro conjI 1 validateIdeas_length validateIdeas_survivors 4 5)
qed

lemma example_idea_valid:
  "0 \<le> score \<Longrightarrow> score \<le> 100 \<Longrightarrow>
   map_option vi_id (ViralIdeaSchema ideas_runtime (Some (example_idea i score))) = Some i"
  by (simp add: ViralIdeaSchema_def OutlineItemSchema_def EstimatedViewsSchema_def SeoSchema_def
        example_idea_def ideas_runtime_def example_runtime_def z_defs)

lemma example_idea_invalid:
  "100 < score \<Longrightarrow> ViralIdeaSchema ideas_runtime (Some (example_idea i score)) = None"
  by (simp add: ViralIdeaSchema_def OutlineItemSchema_def EstimatedViewsSchema_def SeoSchema_def
        example_idea_def ideas_runtime_def example_runtime_def z_defs)

lemma example_not_idea: "ViralIdeaSchema ideas_runtime (Some (JStr s)) = None"
  by (simp add: ViralIdeaSchema_def z_defs)

lemma example_fails:
  "\<not> failsValidation ideas_runtime (example_idea ''a'' 85)"
  "failsValidation ideas_runtime (example_idea ''b'' 150)"
  "\<not> failsValidation ideas_runtime (example_idea ''c'' 90)"
  "failsValidation ideas_runtime (JStr ''not an idea'')"
  "\<not> failsValidation ideas_runtime (example_idea ''e'' 70)"
  using example_idea_valid[of 85 "''a''"] example_idea_valid[of 90 "''c''"]
    example_idea_valid[of 70 "''e''"] example_idea_invalid[of 150 "''b''"]
    example_not_idea[of "''not an idea''"]
  by (auto simp: failsValidation_def)

lemma ideas_runtime_scrape:
  "scrapeTrendingTopics ideas_runtime ''cooking'' [''youtube'', ''reddit'', ''google-trends''] tid =
     (Inr [''how to cooking'', ''cooking for beginners'', ''cooking vs'', ''cooking mistakes''],
      [HttpGet youtubeUrl, Log tid Warn ''YouTube scraping failed'',
       HttpGet (redditUrl ''cooking''), Log tid Warn ''Reddit scraping failed''])"
  by (simp add: scrapeTrendingTopics_def collectedTrends_def youtubeBlock_def twitterBlock_def
        redditBlock_def googleBlock_def ideas_runtime_def example_runtime_def uniq_def)

lemma ideas_runtime_answer:
  "generateContent ideas_runtime p = Inr ''Here are the ideas: [...] Enjoy!''"
  by (simp add: ideas_runtime_def)

lemma ideas_runtime_parse:
  "parseOr ideas_runtime (JArr []) (match_array ''Here are the ideas: [...] Enjoy!'') =
     Inr (JArr example_ideas)"
  by (simp add: ideas_runtime_def parseOr_def match_array_def match_between_def)

lemma ideas_runtime_credential: "credential ideas_runtime ''GEMINI_API_KEY'' = Some ''secret''"
  by (simp add: ideas_runtime_def example_runtime_def credential_def)

text \<open>Five elements, the second and the fourth invalid: count 3, two warnings.\<close>

theorem invalid_ideas_are_dropped_witness:
  "GenerateIdeasArgsSchema (Some example_ideas_raw) \<noteq> None \<and>
   credential ideas_runtime ''GEMINI_API_KEY'' = Some ''secret'' \<and>
   generateContent ideas_runtime = (\<lambda>p. Inr ''Here are the ideas: [...] Enjoy!'') \<and>
   parseOr ideas_runtime (JArr []) (match_array ''Here are the ideas: [...] Enjoy!'') =
     Inr (JArr example_ideas) \<and>
   length example_ideas = 5 \<and>
   length (filter (failsValidation ideas_runtime) example_ideas) = 2 \<and>
   (\<exists>vs. fst (idea_callTool ideas_runtime ''t10'' ''generate_viral_ideas'' (Some example_ideas_raw)) =
           \<lparr>content = Result (IdeasResult vs 3), isError = False\<rparr> \<and>
         length vs = 3 \<and> map vi_id vs = [''a'', ''c'', ''e'']) \<and>
   filter (\<lambda>e. e = Log ''t10'' Warn ''Invalid idea skipped'')
     (snd (idea_callTool ideas_runtime ''t10'' ''generate_viral_ideas'' (Some example_ideas_raw))) =
     [Log ''t10'' Warn ''Invalid idea skipped'', Log ''t10'' Warn ''Invalid idea skipped'']"
proof -
  have n: "length example_ideas = 5" by (simp add: example_ideas_def)
  have m: "length (filter (failsValidation ideas_runtime) example_ideas) = 2"
    by (simp add: example_ideas_def example_fails)
  have keep: "filter (\<lambda>i. \<not> failsValidation ideas_runtime i) example_ideas =
     [example_idea ''a'' 85, example_idea ''c'' 90, example_idea ''e'' 70]"
    by (simp add: example_ideas_def example_fails)
  have sc: "fst (scrapeTrendingTopics ideas_runtime
        (gi_niche \<lparr>gi_niche = ''cooking'', gi_platform = ''youtube'', gi_count = 10,
                    gi_trendWindow = ''7d''\<rparr>)
        [''youtube'', ''reddit'', ''google-trends''] ''t10'') =
      Inr [''how to cooking'', ''cooking for beginners'', ''cooking vs'', ''cooking mistakes'']"
    by (simp add: ideas_runtime_scrape)
  from invalid_ideas_are_dropped[OF example_ideas_args ideas_runtime_credential sc
      ideas_runtime_answer ideas_runtime_parse]
  obtain vs where
    1: "fst (idea_callTool ideas_runtime ''t10'' ''generate_viral_ideas'' (Some example_ideas_raw)) =
           \<lparr>content = Result (IdeasResult vs
              (length example_ideas - length (filter (failsValidation ideas_runtime) example_ideas))),
            isError = False\<rparr>"
    and 2: "length vs = length example_ideas - length (filter (failsValidation ideas_runtime) example_ideas)"
    and 3: "map Some vs = map (\<lambda>i. ViralIdeaSchema ideas_runtime (Some i))
               (filter (\<lambda>i. \<not> failsValidation ideas_runtime i) example_ideas)"
    and 4: "filter (\<lambda>e. e = Log ''t10'' Warn ''Invalid idea skipped'')
             (snd (idea_callTool ideas_runtime ''t10'' ''generate_viral_ideas'' (Some example_ideas_raw))) =
             replicate (length (filter (failsValidation ideas_runtime) example_ideas))
               (Log ''t10'' Warn ''Invalid idea skipped'')"
    by blast
  have "map (map_option vi_id) (map Some vs) = [Some ''a'', Some ''c'', Some ''e'']"
    unfolding 3 keep
    using example_idea_valid[of 85 "''a''"] example_idea_valid[of 90 "''c''"]
      example_idea_valid[of 70 "''e''"] by simp
  then have "map Some (map vi_id vs) = map Some [''a'', ''c'', ''e'']" by (simp add: comp_def)
  then have ids: "map vi_id vs = [''a'', ''c'', ''e'']"
    by (simp only: inj_map_eq_map[OF inj_Some])
  have e: "\<exists>vs. fst (idea_callTool ideas_runtime ''t10'' ''generate_viral_ideas'' (Some example_ideas_raw)) =
           \<lparr>content = Result (IdeasResult vs 3), isError = False\<rparr> \<and>
         length vs = 3 \<and> map vi_id vs = [''a'', ''c'', ''e'']"
    using 1 2 ids by (intro exI[of _ vs]) (simp add: n m)
  have w: "filter (\<lambda>e. e = Log ''t10'' Warn ''Invalid idea skipped'')
     (snd (idea_callTool ideas_runtime ''t10'' ''generate_viral_ideas'' (Some example_ideas_raw))) =
     [Log ''t10'' Warn ''Invalid idea skipped'', Log ''t10'' Warn ''Invalid idea skipped'']"
    unfolding 4 m by (simp add: numeral_2_eq_2)
  have g: "generateContent ideas_runtime = (\<lambda>p. Inr ''Here are the ideas: [...] Enjoy!'')"
    by (simp add: ideas_runtime_def)
  have a: "GenerateIdeasArgsSchema (Some example_ideas_raw) \<noteq> None"
    by (simp add: example_ideas_args)
  show ?thesis
    by (intro conjI a ideas_runtime_credential g ideas_runtime_parse n m e w)
qed

lemma pushTitles_append:
  "pushTitles trends posts = (trends @ fst (pushTitles [] posts), snd (pushTitles [] posts))"
proof (induction posts arbitrary: trends)
  case Nil
  show ?case by simp
next
  case (Cons post posts)
  show ?case
  proof (cases "postTitle post")
    case (Inl e)
    then show ?thesis by simp
  next
    case (Inr r)
    show ?thesis
    proof (cases r)
      case None
      with Inr Cons[of trends] Cons[of "[]"] show ?thesis by simp
    next
      case (Some t)
      with Inr Cons[of "trends @ [t]"] Cons[of "[t]"] show ?thesis by simp
    qed
  qed
qed

lemma youtubeBlock_topics:
  "fst (youtubeBlock rt niche platforms traceId trends) =
     trends @ (if ''youtube'' \<in> set platforms then spec_platformTopics rt niche ''youtube'' else [])"
  by (simp add: youtubeBlock_def spec_platformTopics_def split: sum.splits)

lemma twitterBlock_topics:
  "twitterBlock niche platforms trends =
     trends @ (if ''twitter'' \<in> set platforms then spec_platformTopics rt niche ''twitter'' else [])"
  by (simp add: twitterBlock_def spec_platformTopics_def)

lemma redditBlock_topics:
  "fst (redditBlock rt niche platforms traceId trends) =
     trends @ (if ''reddit'' \<in> set platforms then spec_platformTopics rt niche ''reddit'' else [])"
proof -
  have p: "pushTitles trends posts = (trends @ fst (pushTitles [] posts), snd (pushTitles [] posts))"
    for posts by (rule pushTitles_append)
  show ?thesis
    by (auto simp: redditBlock_def spec_platformTopics_def p split: sum.splits option.splits)
qed

lemma googleBlock_topics:
  "googleBlock niche platforms trends =
     trends @ (if ''google-trends'' \<in> set platforms then spec_platformTopics rt niche ''google-trends'' else [])"
  by (simp add: googleBlock_def spec_platformTopics_def)

lemma collected_topics:
  "fst (collectedTrends rt niche platforms traceId) =
     concat (map (spec_platformTopics rt niche) (spec_requested platforms))"
proof -
  have "fst (collectedTrends rt niche platforms traceId) =
     googleBlock niche platforms
       (fst (redditBlock rt niche platforms traceId
          (twitterBlock niche platforms (fst (youtubeBlock rt niche platforms traceId [])))))"
    by (simp add: collectedTrends_def split: prod.splits)
  also have "\<dots> =
     (if ''youtube'' \<in> set platforms then spec_platformTopics rt niche ''youtube'' else []) @
     (if ''twitter'' \<in> set platforms then spec_platformTopics rt niche ''twitter'' else []) @
     (if ''reddit'' \<in> set platforms then spec_platformTopics rt niche ''reddit'' else []) @
     (if ''google-trends'' \<in> set platforms then spec_platformTopics rt niche ''google-trends'' else [])"
    by (simp only: youtubeBlock_topics twitterBlock_topics[of niche platforms _ rt]
          redditBlock_topics googleBlock_topics[of niche platforms _ rt] append_Nil append_assoc)
  also have "\<dots> = concat (map (spec_platformTopics rt niche) (spec_requested platforms))"
    by (simp add: spec_requested_def)
  finally show ?thesis .
qed

lemma collected_events:
  "snd (collectedTrends rt niche platforms traceId) =
     snd (youtubeBlock rt niche platforms traceId []) @
     snd (redditBlock rt niche platforms traceId
            (twitterBlock niche platforms (fst (youtubeBlock rt niche platforms traceId []))))"
  by (simp add: collectedTrends_def split: prod.splits)

lemma youtube_warning:
  "Log traceId Warn m \<in> set (snd (youtubeBlock rt niche platforms traceId trends)) \<longleftrightarrow>
     m = ''YouTube scraping failed'' \<and> ''youtube'' \<in> set platforms \<and>
     spec_sourceFailed rt niche ''youtube''"
  by (cases "axiosGet rt youtubeUrl") (auto simp: youtubeBlock_def spec_sourceFailed_def)

lemma reddit_warning:
  "Log traceId Warn m \<in> set (snd (redditBlock rt niche platforms traceId trends)) \<longleftrightarrow>
     m = ''Reddit scraping failed'' \<and> ''reddit'' \<in> set platforms \<and>
     spec_sourceFailed rt niche ''reddit''"
proof (cases "axiosGet rt (redditUrl niche)")
  case (Inl e)
  then show ?thesis by (auto simp: redditBlock_def spec_sourceFailed_def)
next
  case body: (Inr body)
  show ?thesis
  proof (cases "redditPosts body")
    case (Inl e)
    with body show ?thesis by (auto simp: redditBlock_def spec_sourceFailed_def)
  next
    case (Inr posts)
    have p: "pushTitles trends posts = (trends @ fst (pushTitles [] posts), snd (pushTitles [] posts))"
      by (rule pushTitles_append)
    show ?thesis
      by (cases "snd (pushTitles [] posts)")
         (auto simp: redditBlock_def spec_sourceFailed_def body Inr p)
  qed
qed

lemma collected_warnings:
  "Log traceId Warn m \<in> set (snd (collectedTrends rt niche platforms traceId)) \<longleftrightarrow>
     (m = ''YouTube scraping failed'' \<and> ''youtube'' \<in> set platforms \<and>
      spec_sourceFailed rt niche ''youtube'') \<or>
     (m = ''Reddit scraping failed'' \<and> ''reddit'' \<in> set platforms \<and>
      spec_sourceFailed rt niche ''reddit'')"
  by (simp only: collected_events set_append Un_iff youtube_warning reddit_warning)

lemma uniq_acc_seen_set: "set seen = set seen' \<Longrightarrow> uniq_acc seen xs = uniq_acc seen' xs"
proof (induction xs arbitrary: seen seen')
  case Nil
  show ?case by simp
next
  case (Cons x xs)
  have m: "x \<in> set seen \<longleftrightarrow> x \<in> set seen'" by (simp only: Cons.prems)
  have "set (x # seen) = set (x # seen')" by (simp only: list.set Cons.prems)
  then have a: "uniq_acc (x # seen) xs = uniq_acc (x # seen') xs" by (rule Cons.IH)
  have b: "uniq_acc seen xs = uniq_acc seen' xs" by (rule Cons.IH) (rule Cons.prems)
  show ?case by (simp only: uniq_acc.simps m a b)
qed

lemma set_uniq_acc: "set (uniq_acc seen xs) = set xs - set seen"
  by (induction xs arbitrary: seen) auto

lemma distinct_uniq_acc: "distinct (uniq_acc seen xs)"
  by (induction xs arbitrary: seen) (auto simp: set_uniq_acc)

lemma uniq_acc_Cons_seen: "uniq_acc (a # seen) xs = filter (\<lambda>y. y \<noteq> a) (uniq_acc seen xs)"
proof (induction xs arbitrary: seen)
  case Nil
  show ?case by simp
next
  case (Cons x xs)
  have swap: "uniq_acc (x # a # seen) xs = uniq_acc (a # x # seen) xs"
    by (rule uniq_acc_seen_set) auto
  show ?case
    using Cons[of seen] Cons[of "x # seen"] by (auto simp: swap)
qed

lemma distinct_uniq: "distinct (uniq xs)"
  unfolding uniq_def by (rule distinct_uniq_acc)

lemma set_uniq: "set (uniq xs) = set xs"
  unfolding uniq_def by (simp add: set_uniq_acc)

lemma uniq_Cons: "uniq (x # xs) = x # filter (\<lambda>y. y \<noteq> x) (uniq xs)"
  unfolding uniq_def by (simp add: uniq_acc_Cons_seen)

lemma failed_sources_without_topics:
  assumes "\<forall>p \<in> set ps. spec_sourceFailed rt niche p \<longrightarrow> spec_platformTopics rt niche p = []"
  shows "concat (map (spec_platformTopics rt niche) ps) =
         concat (map (spec_platformTopics rt niche) (filter (\<lambda>p. \<not> spec_sourceFailed rt niche p) ps))"
  using assms by (induction ps) auto

text \<open>
  Claim C7, as amended. The scraper never raises. It returns, without duplicates and in
  the order of first occurrence, every topic pushed by the blocks of the requested
  platforms; a source whose block fails is logged with a warning and then the next block
  runs. When every failed source has pushed nothing, the result is the deduplicated
  concatenation of the topics of the sources that did not fail.
\<close>

theorem scraper_returns_the_topics_pushed:
  "fst (scrapeTrendingTopics rt niche platforms traceId) =
     Inr (uniq (concat (map (spec_platformTopics rt niche) (spec_requested platforms)))) \<and>
   (\<forall>m. Log traceId Warn m \<in> set (snd (scrapeTrendingTopics rt niche platforms traceId)) \<longleftrightarrow>
      (m = ''YouTube scraping failed'' \<and> ''youtube'' \<in> set platforms \<and>
       spec_sourceFailed rt niche ''youtube'') \<or>
      (m = ''Reddit scraping failed'' \<and> ''reddit'' \<in> set platforms \<and>
       spec_sourceFailed rt niche ''reddit'')) \<and>
   ((\<forall>p \<in> set (spec_requested platforms).
       spec_sourceFailed rt niche p \<longrightarrow> spec_platformTopics rt niche p = []) \<longrightarrow>
    fst (scrapeTrendingTopics rt niche platforms traceId) =
      Inr (uniq (concat (map (spec_platformTopics rt niche)
                   (filter (\<lambda>p. \<not> spec_sourceFailed rt niche p) (spec_requested platforms)))))) \<and>
   (\<forall>topics :: string list. distinct (uniq topics) \<and> set (uniq topics) = set topics) \<and>
   (\<forall>(t :: string) topics. uniq (t # topics) = t # filter (\<lambda>y. y \<noteq> t) (uniq topics))"
proof (intro conjI allI impI)
  show 1: "fst (scrapeTrendingTopics rt niche platforms traceId) =
     Inr (uniq (concat (map (spec_platformTopics rt niche) (spec_requested platforms))))"
    by (simp add: scrape_total collected_topics)
  show "Log traceId Warn m \<in> set (snd (scrapeTrendingTopics rt niche platforms traceId)) \<longleftrightarrow>
      (m = ''YouTube scraping failed'' \<and> ''youtube'' \<in> set platforms \<and>
       spec_sourceFailed rt niche ''youtube'') \<or>
      (m = ''Reddit scraping failed'' \<and> ''reddit'' \<in> set platforms \<and>
       spec_sourceFailed rt niche ''reddit'')" for m
    unfolding scrape_total snd_conv by (rule collected_warnings)
  show "fst (scrapeTrendingTopics rt niche platforms traceId) =
      Inr (uniq (concat (map (spec_platformTopics rt niche)
                   (filter (\<lambda>p. \<not> spec_sourceFailed rt niche p) (spec_requested platforms)))))"
    if "\<forall>p \<in> set (spec_requested platforms).
       spec_sourceFailed rt niche p \<longrightarrow> spec_platformTopics rt niche p = []"
    using 1 failed_sources_without_topics[OF that] by simp
  show "distinct (uniq topics)" for topics :: "string list" by (rule distinct_uniq)
  show "set (uniq topics) = set topics" for topics :: "string list" by (rule set_uniq)
  show "uniq (t # topics) = t # filter (\<lambda>y. y \<noteq> t) (uniq topics)" for t :: string and topics
    by (rule uniq_Cons)
qed

lemma lower1: "toLowerCase ''Knife Skills'' = ''knife skills''"
  by code_simp

lemma lower2: "toLowerCase ''How to cooking'' = ''how to cooking''"
  by code_simp

lemma lower3: "toLowerCase ''knife skills'' = ''knife skills''"
  by code_simp

lemma url_ne: "youtubeUrl \<noteq> redditUrl ''cooking''"
  by (simp add: youtubeUrl_def redditUrl_def)

lemma reddit_runtime_topics:
  "spec_platformTopics reddit_runtime ''cooking'' ''youtube'' = []"
  "spec_platformTopics reddit_runtime ''cooking'' ''reddit'' = [''knife skills'', ''how to cooking'']"
  "spec_platformTopics reddit_runtime ''cooking'' ''google-trends'' =
     [''how to cooking'', ''cooking for beginners'', ''cooking vs'', ''cooking mistakes'']"
  by (simp_all add: spec_platformTopics_def reddit_runtime_def url_ne redditPosts_def postTitle_def
        lower1 lower2)

lemma reddit_runtime_failed:
  "spec_sourceFailed reddit_runtime ''cooking'' ''youtube''"
  "\<not> spec_sourceFailed reddit_runtime ''cooking'' ''reddit''"
  "\<not> spec_sourceFailed reddit_runtime ''cooking'' ''google-trends''"
  by (simp_all add: spec_sourceFailed_def reddit_runtime_def url_ne redditPosts_def postTitle_def
        lower1 lower2)

text \<open>
  YouTube fails, Reddit answers with two posts, Google Trends is derived: the result has
  the topics of Reddit and Google Trends, the topic they share once.
\<close>

theorem scraper_returns_the_topics_pushed_witness:
  "spec_requested [''youtube'', ''reddit'', ''google-trends''] = [''youtube'', ''reddit'', ''google-trends''] \<and>
   spec_sourceFailed reddit_runtime ''cooking'' ''youtube'' \<and>
   spec_platformTopics reddit_runtime ''cooking'' ''youtube'' = [] \<and>
   \<not> spec_sourceFailed reddit_runtime ''cooking'' ''reddit'' \<and>
   \<not> spec_sourceFailed reddit_runtime ''cooking'' ''google-trends'' \<and>
   fst (scrapeTrendingTopics reddit_runtime ''cooking'' [''youtube'', ''reddit'', ''google-trends''] ''t8'') =
     Inr [''knife skills'', ''how to cooking'', ''cooking for beginners'', ''cooking vs'',
          ''cooking mistakes''] \<and>
   Log ''t8'' Warn ''YouTube scraping failed'' \<in>
     set (snd (scrapeTrendingTopics reddit_runtime ''cooking''
                 [''youtube'', ''reddit'', ''google-trends''] ''t8'')) \<and>
   Log ''t8'' Warn ''Reddit scraping failed'' \<notin>
     set (snd (scrapeTrendingTopics reddit_runtime ''cooking''
                 [''youtube'', ''reddit'', ''google-trends''] ''t8''))"
proof -
  note inst = scraper_returns_the_topics_pushed[where rt = reddit_runtime and niche = "''cooking''"
      and platforms = "[''youtube'', ''reddit'', ''google-trends'']" and traceId = "''t8''"]
  have req: "spec_requested [''youtube'', ''reddit'', ''google-trends''] =
     [''youtube'', ''reddit'', ''google-trends'']"
    by (simp add: spec_requested_def)
  have nothing: "\<forall>p \<in> set (spec_requested [''youtube'', ''reddit'', ''google-trends'']).
       spec_sourceFailed reddit_runtime ''cooking'' p \<longrightarrow>
       spec_platformTopics reddit_runtime ''cooking'' p = []"
    unfolding req using reddit_runtime_topics(1) reddit_runtime_failed by auto
  have "fst (scrapeTrendingTopics reddit_runtime ''cooking'' [''youtube'', ''reddit'', ''google-trends''] ''t8'') =
      Inr (uniq (concat (map (spec_platformTopics reddit_runtime ''cooking'')
                   (filter (\<lambda>p. \<not> spec_sourceFailed reddit_runtime ''cooking'' p)
                      (spec_requested [''youtube'', ''reddit'', ''google-trends''])))))"
    by (rule inst[THEN conjunct2, THEN conjunct2, THEN conjunct1, THEN mp]) (fact nothing)
  then have r: "fst (scrapeTrendingTopics reddit_runtime ''cooking'' [''youtube'', ''reddit'', ''google-trends''] ''t8'') =
     Inr [''knife skills'', ''how to cooking'', ''cooking for beginners'', ''cooking vs'',
          ''cooking mistakes'']"
    by (simp add: req reddit_runtime_topics reddit_runtime_failed uniq_def)
  from inst[THEN conjunct2, THEN conjunct1, rule_format, of "''YouTube scraping failed''"]
  have y: "Log ''t8'' Warn ''YouTube scraping failed'' \<in>
     set (snd (scrapeTrendingTopics reddit_runtime ''cooking''
                 [''youtube'', ''reddit'', ''google-trends''] ''t8''))"
    by (simp add: reddit_runtime_failed)
  from inst[THEN conjunct2, THEN conjunct1, rule_format, of "''Reddit scraping failed''"]
  have rd: "Log ''t8'' Warn ''Reddit scraping failed'' \<notin>
     set (snd (scrapeTrendingTopics reddit_runtime ''cooking''
                 [''youtube'', ''reddit'', ''google-trends''] ''t8''))"
    by (simp add: reddit_runtime_failed)
  show ?thesis
    by (intro conjI req reddit_runtime_failed reddit_runtime_topics(1) r y rd)
qed

text \<open>
  Claim C7 as stated fails when the Reddit block throws after a push: with Reddit alone
  requested and a second post that is \<open>null\<close>, the failure of Reddit is logged and the
  title of the first post is returned all the same.
\<close>

theorem scraper_partial_reddit_counterexample:
  "scrapeTrendingTopics reddit_partial_runtime ''cooking'' [''reddit''] ''t8'' =
     (Inr [''knife skills''],
      [HttpGet (redditUrl ''cooking''), Log ''t8'' Warn ''Reddit scraping failed''])"
  by (simp add: scrapeTrendingTopics_def collectedTrends_def youtubeBlock_def twitterBlock_def
        redditBlock_def googleBlock_def reddit_partial_runtime_def redditPosts_def postTitle_def
        lower3 uniq_def)

end
